(* ===== verification/Prelude.thy ===== *)
theory Prelude
  imports Main "HOL-Library.Sublist" "HOL-Library.Multiset"
    "HOL-Library.Char_ord" "HOL-Library.List_Lexorder" "HOL-Library.State_Monad"
begin

text \<open>
  Shared vocabulary of the development: the Python string primitives that both
  scripts call (\<open>str.lower\<close>, \<open>str.isalpha\<close>, \<open>str.isupper\<close>, \<open>str.endswith\<close>,
  the substring test \<open>sub in s\<close>, \<open>str.replace\<close> of one character), modelled on
  the ASCII range that the word lists use, together with the lemmas that connect
  them to the list library (\<open>suffix\<close>, \<open>sublist\<close>, \<open>prefix\<close>) and the generic facts
  on lists and multisets the component proofs share; and the state a script acts
  on (its files and its standard output) with the operations \<open>print\<close>,
  \<open>open(name).read()\<close> and \<open>open(name, 'w').write\<close>, in the state monad of
  \<open>HOL-Library.State_Monad\<close>.

  A Python \<open>str\<close> is a HOL \<open>string\<close>; the characters are the bytes of
  \<open>char\<close>, and the letter tests of Python are modelled on their ASCII part
  (\<open>A\<close>..\<open>Z\<close>, \<open>a\<close>..\<open>z\<close>): a byte outside ASCII is neither a letter nor cased.
\<close>

named_theorems py_str_simps "evaluation rules of the Python string primitives"

type_synonym py_str = string

section \<open>Character classes\<close>

definition py_isupper_char :: "char \<Rightarrow> bool" where
  "py_isupper_char c \<longleftrightarrow> (65::nat) \<le> of_char c \<and> of_char c \<le> (90::nat)"

definition py_islower_char :: "char \<Rightarrow> bool" where
  "py_islower_char c \<longleftrightarrow> (97::nat) \<le> of_char c \<and> of_char c \<le> (122::nat)"

definition py_isalpha_char :: "char \<Rightarrow> bool" where
  "py_isalpha_char c \<longleftrightarrow> py_isupper_char c \<or> py_islower_char c"

text \<open>\<open>s.isalpha()\<close>: true iff \<open>s\<close> is non-empty and every character is a letter.\<close>

definition py_isalpha :: "py_str \<Rightarrow> bool" where
  "py_isalpha s \<longleftrightarrow> s \<noteq> [] \<and> list_all py_isalpha_char s"

text \<open>\<open>str.lower\<close> on one character: an ASCII capital gets bit 5 set.\<close>

fun py_lower_char :: "char \<Rightarrow> char" where
  "py_lower_char (Char b0 b1 b2 b3 b4 b5 b6 b7) =
     (if py_isupper_char (Char b0 b1 b2 b3 b4 b5 b6 b7)
      then Char b0 b1 b2 b3 b4 True b6 b7
      else Char b0 b1 b2 b3 b4 b5 b6 b7)"

definition py_lower :: "py_str \<Rightarrow> py_str" where
  "py_lower s = map py_lower_char s"

text \<open>\<open>s.endswith(suf)\<close>, as CPython computes it: compare the last \<open>len(suf)\<close>
  characters, false when \<open>suf\<close> is longer than \<open>s\<close>.\<close>

definition py_endswith :: "py_str \<Rightarrow> py_str \<Rightarrow> bool" where
  "py_endswith s suf \<longleftrightarrow>
     length suf \<le> length s \<and> drop (length s - length suf) s = suf"

text \<open>\<open>sub in s\<close>: a scan over the start positions of \<open>s\<close>.\<close>

fun py_contains :: "py_str \<Rightarrow> py_str \<Rightarrow> bool" where
  "py_contains sub [] \<longleftrightarrow> sub = []"
| "py_contains sub (c # cs) \<longleftrightarrow> take (length sub) (c # cs) = sub \<or> py_contains sub cs"

text \<open>\<open>s.replace(a, b)\<close> for single characters \<open>a\<close> and \<open>b\<close>.\<close>

definition py_replace_char :: "char \<Rightarrow> char \<Rightarrow> py_str \<Rightarrow> py_str" where
  "py_replace_char a b s = map (\<lambda>c. if c = a then b else c) s"

text \<open>Python's exceptions that the modelled code can raise, and indexing
  \<open>xs[i]\<close> for \<open>i \<ge> 0\<close>, which raises \<open>IndexError\<close> out of range.\<close>

datatype py_error = IndexError | JSONDecodeError | FileNotFoundError | LookupError | AttributeError

definition py_index :: "'a list \<Rightarrow> nat \<Rightarrow> py_error + 'a" where
  "py_index xs i = (if i < length xs then Inr (xs ! i) else Inl IndexError)"

text \<open>\<open>sep.join(xs)\<close>.\<close>

fun py_join :: "py_str \<Rightarrow> py_str list \<Rightarrow> py_str" where
  "py_join sep [] = []"
| "py_join sep [x] = x"
| "py_join sep (x # y # ys) = x @ sep @ py_join sep (y # ys)"

text \<open>\<open>str(n)\<close> for \<open>n \<ge> 0\<close>, as an f-string renders a length: the decimal digits,
  most significant first.\<close>

definition py_digit :: "nat \<Rightarrow> char" where
  "py_digit d = ''0123456789'' ! d"

fun py_str_nat :: "nat \<Rightarrow> py_str" where
  "py_str_nat n =
     (if n < 10 then [py_digit n] else py_str_nat (n div 10) @ [py_digit (n mod 10)])"

section \<open>The process: files and standard output\<close>

text \<open>What a script reads and changes: the files of its working directory, by
  name, and the lines it has printed (each \<open>print(s)\<close> adds one line \<open>s\<close>).\<close>

record os_state =
  files :: "py_str \<rightharpoonup> py_str"
  stdout :: "py_str list"

definition py_print :: "py_str \<Rightarrow> (os_state, unit) state" where
  "py_print s = State_Monad.update (\<lambda>st. st\<lparr>stdout := stdout st @ [s]\<rparr>)"

text \<open>\<open>with open(name, 'w') as f: f.write(content)\<close>: the file is created or
  truncated and holds exactly \<open>content\<close>.\<close>

definition write_file :: "py_str \<Rightarrow> py_str \<Rightarrow> (os_state, unit) state" where
  "write_file name content =
     State_Monad.update (\<lambda>st. st\<lparr>files := (files st)(name \<mapsto> content)\<rparr>)"

text \<open>\<open>with open(name, 'r') as f: f.read()\<close>: raises \<open>FileNotFoundError\<close> when
  there is no such file.\<close>

definition read_file :: "os_state \<Rightarrow> py_str \<Rightarrow> py_error + py_str" where
  "read_file st name =
     (case files st name of None \<Rightarrow> Inl FileNotFoundError | Some content \<Rightarrow> Inr content)"

abbreviation exec_state :: "('s, 'a) state \<Rightarrow> 's \<Rightarrow> 's" where
  "exec_state m s \<equiv> snd (run_state m s)"

declare py_str_nat.simps [simp del]

declare py_isupper_char_def [py_str_simps] py_islower_char_def [py_str_simps]
  py_isalpha_char_def [py_str_simps] py_isalpha_def [py_str_simps]
  py_lower_def [py_str_simps] py_endswith_def [py_str_simps]
  py_replace_char_def [py_str_simps] py_index_def [py_str_simps]

section \<open>Lower-casing\<close>

lemma of_char_py_lower_char:
  "of_char (py_lower_char c) =
     (if py_isupper_char c then of_char c + 32 else (of_char c :: nat))"
  by (cases c) (auto simp: py_isupper_char_def)

lemma py_lower_char_not_upper [simp]: "\<not> py_isupper_char (py_lower_char c)"
  by (auto simp: py_isupper_char_def of_char_py_lower_char)

lemma py_lower_char_id [simp]: "\<not> py_isupper_char c \<Longrightarrow> py_lower_char c = c"
  by (cases c) simp

lemma py_lower_char_idem [simp]: "py_lower_char (py_lower_char c) = py_lower_char c"
  by simp

lemma py_isalpha_char_lower [simp]: "py_isalpha_char (py_lower_char c) = py_isalpha_char c"
  by (auto simp: py_isalpha_char_def py_islower_char_def py_isupper_char_def
      of_char_py_lower_char)

lemma length_py_lower [simp]: "length (py_lower s) = length s"
  by (simp add: py_lower_def)

lemma py_lower_idem [simp]: "py_lower (py_lower s) = py_lower s"
  by (simp add: py_lower_def)

lemma py_lower_Nil [simp]: "py_lower [] = []"
  by (simp add: py_lower_def)

lemma py_lower_Cons [simp]: "py_lower (c # cs) = py_lower_char c # py_lower cs"
  by (simp add: py_lower_def)

lemma py_lower_eq_Nil [simp]: "py_lower s = [] \<longleftrightarrow> s = []"
  by (simp add: py_lower_def)

lemma py_isalpha_lower [simp]: "py_isalpha (py_lower s) = py_isalpha s"
  by (simp add: py_isalpha_def py_lower_def list_all_iff)

text \<open>A string with no capital letter is its own lower-case form.\<close>

lemma py_lower_id: "\<not> list_ex py_isupper_char s \<Longrightarrow> py_lower s = s"
  by (induction s) auto

section \<open>Suffix and substring tests\<close>

lemma py_endswith_iff_suffix: "py_endswith s suf \<longleftrightarrow> suffix suf s"
proof
  assume "py_endswith s suf"
  then have "s = take (length s - length suf) s @ suf"
    by (metis append_take_drop_id py_endswith_def)
  then show "suffix suf s" by (metis suffixI)
next
  assume "suffix suf s"
  then obtain zs where "s = zs @ suf" by (auto simp: suffix_def)
  then show "py_endswith s suf" by (simp add: py_endswith_def)
qed

lemma prefix_iff_take: "prefix xs ys \<longleftrightarrow> take (length xs) ys = xs"
proof
  assume "prefix xs ys"
  then show "take (length xs) ys = xs" by (auto simp: prefix_def)
next
  assume "take (length xs) ys = xs"
  then show "prefix xs ys" by (metis take_is_prefix)
qed

lemma py_contains_iff_sublist: "py_contains sub s \<longleftrightarrow> sublist sub s"
  by (induction s) (auto simp: sublist_Cons_right prefix_iff_take)

text \<open>A substring test against a longer text succeeds when it succeeds on a part of it.\<close>

lemma py_contains_append_left: "py_contains sub t \<Longrightarrow> py_contains sub (t @ u)"
  by (metis sublist_append_rightI sublist_order.order_trans py_contains_iff_sublist)

lemma py_contains_append_right: "py_contains sub u \<Longrightarrow> py_contains sub (t @ u)"
  by (metis sublist_append_leftI sublist_order.order_trans py_contains_iff_sublist)

lemma py_contains_single [simp]: "py_contains [c] s \<longleftrightarrow> c \<in> set s"
  by (induction s) auto

lemma set_py_replace_char: "set (py_replace_char a b s) = (\<lambda>c. if c = a then b else c) ` set s"
  by (simp add: py_replace_char_def)

lemma py_replace_char_id: "a \<notin> set s \<Longrightarrow> py_replace_char a b s = s"
  by (induction s) (auto simp: py_replace_char_def)

text \<open>After replacing \<open>a\<close> by \<open>b\<close>, the text has no \<open>b\<close> exactly when the original
  had neither character.\<close>

lemma py_replace_char_no_target:
  "a \<noteq> b \<Longrightarrow> b \<notin> set (py_replace_char a b s) \<longleftrightarrow> a \<notin> set s \<and> b \<notin> set s"
  by (auto simp: set_py_replace_char)

lemma set_py_join: "set (py_join sep xs) \<subseteq> set sep \<union> (\<Union>x \<in> set xs. set x)"
  by (induction sep xs rule: py_join.induct) auto

lemmas py_str_abs = py_endswith_iff_suffix py_contains_iff_sublist

section \<open>Decimal rendering\<close>

lemma py_str_nat_digits: "set (py_str_nat n) \<subseteq> set ''0123456789''"
proof (induction n rule: py_str_nat.induct)
  case (1 n)
  have "py_digit d \<in> set ''0123456789''" if "d < 10" for d
    using that by (simp add: py_digit_def del: set_simps)
  then show ?case using 1 by (subst py_str_nat.simps) auto
qed

lemma py_str_nat_not_Nil [simp]: "py_str_nat n \<noteq> []"
  by (subst py_str_nat.simps) simp

section \<open>The process\<close>

lemma run_state_py_print [simp]:
  "run_state (py_print s) st = ((), st\<lparr>stdout := stdout st @ [s]\<rparr>)"
  by (simp add: py_print_def State_Monad.update_def)

lemma run_state_write_file [simp]:
  "run_state (write_file name content) st = ((), st\<lparr>files := (files st)(name \<mapsto> content)\<rparr>)"
  by (simp add: write_file_def State_Monad.update_def)

section \<open>Lists and multisets\<close>

text \<open>An any-test over a list depends only on the multiset of its elements:
  permuting the list (another order of results from a library) never changes it.\<close>

lemma list_ex_mset_eq: "mset xs = mset ys \<Longrightarrow> list_ex P xs = list_ex P ys"
  by (auto simp: list_ex_iff dest: mset_eq_setD)

lemma list_ex_mono_set: "list_ex P xs \<Longrightarrow> set xs \<subseteq> set ys \<Longrightarrow> list_ex P ys"
  by (auto simp: list_ex_iff)

end
