(* ===== verification/Taxonomy.thy ===== *)
theory Taxonomy
  imports Prelude
begin

text \<open>
  The interface of the lexical taxonomy that \<^verbatim>\<open>src/generate_nouns.py\<close> consumes
  through NLTK's WordNet reader (the Taxonomy Adapter of the specification). The
  scripts only read it, so it is a value: a \<open>synset\<close> record holding what the code
  asks of a sense (\<open>name()\<close>, \<open>definition()\<close>, the names along each of
  \<open>hypernym_paths()\<close>, \<open>instance_hypernyms()\<close>, the names of \<open>lemmas()\<close>), and a
  \<open>wordnet\<close> record of the two queries the code makes, \<open>wn.synsets(word,
  pos=wn.NOUN)\<close> and \<open>wn.all_synsets(pos=wn.NOUN)\<close>. Any function of this type is a
  possible taxonomy, so every theorem over it holds for every database state, the
  in-memory fake of the specification's design notes included.
\<close>

record synset =
  synset_name :: py_str
  definition_text :: py_str
  hypernym_paths :: "py_str list list"
  instance_hypernyms :: "py_str list"
  lemma_names :: "py_str list"

record wordnet =
  synsets :: "py_str \<Rightarrow> synset list"
  all_synsets :: "synset list"

text \<open>The names on the hypernym paths of a sense, as the loop of
  \<open>is_concrete_noun\<close> collects them into the set \<open>hypernyms\<close>.\<close>

definition hypernym_names :: "synset \<Rightarrow> py_str list" where
  "hypernym_names s = concat (hypernym_paths s)"

text \<open>A named instance (a proper-noun sense) is a sense with instance hypernyms.\<close>

definition is_named_instance :: "synset \<Rightarrow> bool" where
  "is_named_instance s \<longleftrightarrow> instance_hypernyms s \<noteq> []"

lemma set_hypernym_names: "set (hypernym_names s) = (\<Union>p \<in> set (hypernym_paths s). set p)"
  by (simp add: hypernym_names_def)

end
