(* ===== verification/Concreteness.thy ===== *)
theory Concreteness
  imports Taxonomy
begin

text \<open>
  The taxonomy-based classifier, \<open>is_concrete_noun\<close> of \<^verbatim>\<open>src/generate_nouns.py\<close>.
  The five literal collections of its body are constants here (the two Python sets
  of synset names as HOL sets, the three lists as lists). One pass of the
  \<open>for synset in synsets\<close> loop is \<open>check_sense\<close>: it returns which \<open>continue\<close>
  of the body the sense reaches, in the order of the code, or \<open>Accepted\<close> at the
  \<open>return True\<close>; the loop itself is \<open>concrete_loop\<close>, and the empty-result early
  return is in \<open>is_concrete_noun\<close>.
\<close>

section \<open>The literal collections of \<open>is_concrete_noun\<close>\<close>

definition abstract_roots :: "py_str set" where
  "abstract_roots = set [
     ''abstraction.n.06'', ''psychological_feature.n.01'', ''attribute.n.02'', ''state.n.04'',
     ''event.n.01'', ''act.n.02'', ''group.n.01'', ''measure.n.02'',
     ''time_period.n.01'', ''relation.n.01'', ''communication.n.02'', ''content.n.05'',
     ''possession.n.02'', ''social_group.n.01'', ''body_part.n.01'', ''internal_organ.n.01'',
     ''person.n.01'', ''human.n.01'', ''worker.n.01'', ''adult.n.01'',
     ''juvenile.n.01'', ''national.n.01'', ''native.n.03'', ''resident.n.01'',
     ''inhabitant.n.01'', ''professional.n.01'', ''skilled_worker.n.01'', ''organization.n.01'',
     ''establishment.n.01'']"

definition concrete_roots :: "py_str set" where
  "concrete_roots = set [
     ''physical_entity.n.01'', ''object.n.01'', ''artifact.n.01'', ''natural_object.n.01'',
     ''living_thing.n.01'', ''organism.n.01'', ''whole.n.02'']"

definition abstract_keywords :: "py_str list" where
  "abstract_keywords = [
     ''concept of'', ''idea of'', ''theory of'', ''principle of'',
     ''state of being'', ''feeling of'', ''emotion of'', ''the act of'',
     ''the action of'', ''the process of'', ''the activity of'', ''the event of'']"

definition technical_keywords :: "py_str list" where
  "technical_keywords = [
     ''drug used'', ''medicine'', ''pharmaceutical'', ''medication'',
     ''chemical compound'', ''enzyme'', ''hormone'', ''protein'',
     ''antibiotic'', ''trademark'', ''trade name'', ''brand name'',
     ''physics'', ''chemistry'', ''particle'', ''subatomic'',
     ''molecular'', ''atom'', ''ion'', ''transmits'',
     ''duplicator'', ''device for'', ''apparatus'', ''instrument for measuring'',
     ''amphetamine'', ''anesthetic'', ''crystalline'', ''sedative'',
     ''stimulant'', ''analgesic'', ''ester'', ''alkaloid'',
     ''steroid'', ''vitamin'', ''fossil'', ''extinct'']"

definition formal_suffixes :: "py_str list" where
  "formal_suffixes = [
     ''tion'', ''sion'', ''ism'', ''ity'',
     ''ness'', ''ment'', ''ence'', ''ance'']"

section \<open>One sense, the loop, the classifier\<close>

text \<open>Where the body of the loop leaves a sense: the five \<open>continue\<close>s in source
  order, or the \<open>return True\<close>.\<close>

datatype sense_check =
  No_concrete_root | Abstract_root | Abstract_definition | Technical_definition
  | Formal_process | Accepted

definition check_sense :: "py_str \<Rightarrow> synset \<Rightarrow> sense_check" where
  "check_sense word s =
     (let hypernyms = set (hypernym_names s) in
      if hypernyms \<inter> concrete_roots = {} then No_concrete_root
      else if hypernyms \<inter> abstract_roots \<noteq> {} then Abstract_root
      else
        (let definition = py_lower (definition_text s) in
         if list_ex (\<lambda>keyword. py_contains keyword definition) abstract_keywords
         then Abstract_definition
         else if list_ex (\<lambda>keyword. py_contains keyword definition) technical_keywords
         then Technical_definition
         else if 8 < length word \<and> list_ex (\<lambda>suffix. py_endswith word suffix) formal_suffixes
           \<and> (py_contains ''reproduction'' definition \<or> py_contains ''duplication'' definition
              \<or> py_contains ''replication'' definition)
         then Formal_process
         else Accepted))"

fun concrete_loop :: "py_str \<Rightarrow> synset list \<Rightarrow> bool" where
  "concrete_loop word [] = False"
| "concrete_loop word (s # ss) =
     (if check_sense word s = Accepted then True else concrete_loop word ss)"

definition is_concrete_noun :: "wordnet \<Rightarrow> py_str \<Rightarrow> bool" where
  "is_concrete_noun wn word =
     (let ss = synsets wn word in
      if ss = [] then False else concrete_loop word ss)"

section \<open>Example senses\<close>

text \<open>Senses as WordNet 3.0 gives them, for the witnesses: the aircraft and the
  level-of-existence senses of \<open>plane\<close>, the first sense of \<open>lamp\<close>, and the
  first sense of \<open>teacher\<close> (whose paths run through \<open>person.n.01\<close>).\<close>

definition airplane_sense :: synset where
  "airplane_sense =
     \<lparr>synset_name = ''airplane.n.01'',
      definition_text = ''an aircraft that has a fixed wing and is powered by propellers or jets'',
      hypernym_paths = [[''entity.n.01'', ''physical_entity.n.01'', ''object.n.01'', ''whole.n.02'',
        ''artifact.n.01'', ''instrumentality.n.03'', ''conveyance.n.03'', ''vehicle.n.01'',
        ''craft.n.02'', ''aircraft.n.01'', ''heavier-than-air_craft.n.01'', ''airplane.n.01'']],
      instance_hypernyms = [],
      lemma_names = [''airplane'', ''aeroplane'', ''plane'']\<rparr>"

definition plane_level_sense :: synset where
  "plane_level_sense =
     \<lparr>synset_name = ''plane.n.02'',
      definition_text = ''a level of existence or development'',
      hypernym_paths = [[''entity.n.01'', ''abstraction.n.06'', ''attribute.n.02'', ''state.n.02'',
        ''degree.n.01'', ''plane.n.02'']],
      instance_hypernyms = [],
      lemma_names = [''plane'', ''level'']\<rparr>"

definition lamp_sense :: synset where
  "lamp_sense =
     \<lparr>synset_name = ''lamp.n.01'',
      definition_text = ''an artificial source of visible illumination'',
      hypernym_paths = [[''entity.n.01'', ''physical_entity.n.01'', ''object.n.01'', ''whole.n.02'',
        ''artifact.n.01'', ''instrumentality.n.03'', ''device.n.01'',
        ''source_of_illumination.n.01'', ''lamp.n.01'']],
      instance_hypernyms = [],
      lemma_names = [''lamp'']\<rparr>"

definition teacher_sense :: synset where
  "teacher_sense =
     \<lparr>synset_name = ''teacher.n.01'',
      definition_text = ''a person whose occupation is teaching'',
      hypernym_paths = [[''entity.n.01'', ''physical_entity.n.01'', ''causal_agent.n.01'',
        ''person.n.01'', ''worker.n.01'', ''skilled_worker.n.01'', ''professional.n.01'',
        ''educator.n.01'', ''teacher.n.01''],
       [''entity.n.01'', ''physical_entity.n.01'', ''object.n.01'', ''whole.n.02'',
        ''living_thing.n.01'', ''organism.n.01'', ''person.n.01'', ''worker.n.01'',
        ''skilled_worker.n.01'', ''professional.n.01'', ''educator.n.01'', ''teacher.n.01'']],
      instance_hypernyms = [],
      lemma_names = [''teacher'', ''instructor'']\<rparr>"

definition example_wordnet :: "synset list \<Rightarrow> wordnet" where
  "example_wordnet ss = \<lparr>synsets = (\<lambda>w. filter (\<lambda>s. w \<in> set (lemma_names s)) ss), all_synsets = ss\<rparr>"

section \<open>The loop is an any-sense test\<close>

lemma concrete_loop_iff:
  "concrete_loop w ss \<longleftrightarrow> list_ex (\<lambda>s. check_sense w s = Accepted) ss"
  by (induction ss) auto

lemma is_concrete_noun_iff:
  "is_concrete_noun wn w \<longleftrightarrow> list_ex (\<lambda>s. check_sense w s = Accepted) (synsets wn w)"
  by (simp add: is_concrete_noun_def concrete_loop_iff Let_def)

lemma check_sense_abstract_root:
  "set (hypernym_names s) \<inter> abstract_roots \<noteq> {} \<Longrightarrow> check_sense w s \<noteq> Accepted"
  by (simp add: check_sense_def Let_def)

lemmas sense_eval = check_sense_def hypernym_names_def concrete_roots_def abstract_roots_def
  abstract_keywords_def technical_keywords_def formal_suffixes_def py_str_simps

lemmas example_senses = airplane_sense_def plane_level_sense_def lamp_sense_def teacher_sense_def

section \<open>Properties\<close>

text \<open>Claim C1 (equivalence). The loop with its early \<open>return True\<close> and the early
  return on an empty result compute one disjunction: a word is concrete exactly
  when one of its noun senses passes every check of the loop body; in particular a
  word with no sense is not concrete.\<close>

theorem is_concrete_noun_any_sense:
  "is_concrete_noun wn w \<longleftrightarrow> (\<exists>s \<in> set (synsets wn w). check_sense w s = Accepted)"
  by (simp add: is_concrete_noun_iff list_ex_iff)

text \<open>Claim C13 (equivalence). The verdict does not depend on the order in which
  the taxonomy returns the senses, although the loop stops at the first accepted one:
  two taxonomies that return the same senses in any order agree.\<close>

theorem is_concrete_noun_order_independent:
  "mset (synsets wn w) = mset (synsets wn' w) \<Longrightarrow> is_concrete_noun wn w = is_concrete_noun wn' w"
  unfolding is_concrete_noun_iff by (rule list_ex_mset_eq)

theorem is_concrete_noun_order_independent_witness:
  "mset (synsets (example_wordnet [plane_level_sense, airplane_sense]) ''plane'') =
     mset (synsets (example_wordnet [airplane_sense, plane_level_sense]) ''plane'') \<and>
   is_concrete_noun (example_wordnet [plane_level_sense, airplane_sense]) ''plane'' =
     is_concrete_noun (example_wordnet [airplane_sense, plane_level_sense]) ''plane''"
proof -
  have l1: "synsets (example_wordnet [plane_level_sense, airplane_sense]) ''plane'' =
      [plane_level_sense, airplane_sense]"
    by (simp add: example_wordnet_def example_senses)
  have l2: "synsets (example_wordnet [airplane_sense, plane_level_sense]) ''plane'' =
      [airplane_sense, plane_level_sense]"
    by (simp add: example_wordnet_def example_senses)
  have eq: "mset (synsets (example_wordnet [plane_level_sense, airplane_sense]) ''plane'') =
     mset (synsets (example_wordnet [airplane_sense, plane_level_sense]) ''plane'')"
    unfolding l1 l2 by (simp add: add_mset_commute)
  show ?thesis using eq is_concrete_noun_order_independent [OF eq] by simp
qed

text \<open>Claim C14 (safety). More senses never turn a concrete word abstract: a word
  concrete under one taxonomy is concrete under any taxonomy that returns at least
  its senses.\<close>

theorem is_concrete_noun_mono:
  "is_concrete_noun wn w \<Longrightarrow> set (synsets wn w) \<subseteq> set (synsets wn' w) \<Longrightarrow>
   is_concrete_noun wn' w"
  by (auto simp: is_concrete_noun_iff intro: list_ex_mono_set)

theorem is_concrete_noun_mono_witness:
  "is_concrete_noun (example_wordnet [airplane_sense]) ''plane'' \<and>
   set (synsets (example_wordnet [airplane_sense]) ''plane'') \<subseteq>
     set (synsets (example_wordnet [plane_level_sense, airplane_sense]) ''plane'') \<and>
   is_concrete_noun (example_wordnet [plane_level_sense, airplane_sense]) ''plane''"
proof -
  have c: "is_concrete_noun (example_wordnet [airplane_sense]) ''plane''"
    by (simp add: is_concrete_noun_iff example_wordnet_def sense_eval airplane_sense_def)
  have sub: "set (synsets (example_wordnet [airplane_sense]) ''plane'') \<subseteq>
     set (synsets (example_wordnet [plane_level_sense, airplane_sense]) ''plane'')"
    by (auto simp: example_wordnet_def)
  show ?thesis using c sub is_concrete_noun_mono [OF c sub] by simp
qed

text \<open>Claim C12 (safety). A word all of whose senses lie under an abstract root
  (a person, a group, an act, a body part, ...) is never concrete: such a sense is
  skipped before its definition is read, even when it also has a concrete root.\<close>

theorem abstract_rooted_word_rejected:
  "list_all (\<lambda>s. set (hypernym_names s) \<inter> abstract_roots \<noteq> {}) (synsets wn w) \<Longrightarrow>
   \<not> is_concrete_noun wn w"
  unfolding is_concrete_noun_iff list_all_iff list_ex_iff using check_sense_abstract_root by blast

theorem abstract_rooted_word_rejected_witness:
  "list_all (\<lambda>s. set (hypernym_names s) \<inter> abstract_roots \<noteq> {})
     (synsets (example_wordnet [teacher_sense]) ''teacher'') \<and>
   set (hypernym_names teacher_sense) \<inter> concrete_roots \<noteq> {} \<and>
   \<not> is_concrete_noun (example_wordnet [teacher_sense]) ''teacher''"
proof -
  have person: "''person.n.01'' \<in> set (hypernym_names teacher_sense) \<inter> abstract_roots"
    by (simp add: teacher_sense_def hypernym_names_def abstract_roots_def)
  have ss: "synsets (example_wordnet [teacher_sense]) ''teacher'' = [teacher_sense]"
    by (simp add: example_wordnet_def teacher_sense_def)
  have all: "list_all (\<lambda>s. set (hypernym_names s) \<inter> abstract_roots \<noteq> {})
     (synsets (example_wordnet [teacher_sense]) ''teacher'')"
    using person ss by auto
  have "''organism.n.01'' \<in> set (hypernym_names teacher_sense) \<inter> concrete_roots"
    by (simp add: teacher_sense_def hypernym_names_def concrete_roots_def)
  then have conc: "set (hypernym_names teacher_sense) \<inter> concrete_roots \<noteq> {}" by blast
  show ?thesis using all conc abstract_rooted_word_rejected [OF all] by simp
qed

text \<open>Claim C11 (safety). The technical keyword \<open>ion\<close> is tested as a substring of
  the definition, so every sense whose definition contains a word with the letters
  \<open>ion\<close> (illumination, construction, region, occupation, ...) is rejected: the
  first sense of \<open>lamp\<close>, ``an artificial source of visible illumination'', a
  physical artifact, is rejected as technical.\<close>

theorem ion_substring_rejects_sense:
  "py_contains ''ion'' (py_lower (definition_text s)) \<Longrightarrow> check_sense w s \<noteq> Accepted"
proof -
  assume ion: "py_contains ''ion'' (py_lower (definition_text s))"
  have "''ion'' \<in> set technical_keywords" by (simp add: technical_keywords_def)
  with ion have "list_ex (\<lambda>k. py_contains k (py_lower (definition_text s))) technical_keywords"
    by (auto simp: list_ex_iff)
  then show ?thesis by (simp add: check_sense_def Let_def)
qed

theorem ion_substring_rejects_sense_witness:
  "py_contains ''ion'' (py_lower (definition_text lamp_sense)) \<and>
   check_sense ''lamp'' lamp_sense \<noteq> Accepted \<and>
   check_sense ''lamp'' lamp_sense = Technical_definition"
proof -
  have ion: "py_contains ''ion'' (py_lower (definition_text lamp_sense))"
    by (simp add: lamp_sense_def py_str_simps)
  have tech: "check_sense ''lamp'' lamp_sense = Technical_definition"
    by (simp add: sense_eval lamp_sense_def)
  show ?thesis using ion tech ion_substring_rejects_sense [OF ion] by simp
qed

end
