(* ===== verification/Validity.thy ===== *)
theory Validity
  imports Taxonomy
begin

text \<open>
  The word-validity filter, \<open>is_valid_word\<close> of \<^verbatim>\<open>src/generate_nouns.py\<close>. The
  result type records that the function may raise: \<open>word[0]\<close> is
  \<open>py_index word 0\<close>, which is \<open>Inl IndexError\<close> on the empty word, and the
  exception would propagate out of \<open>is_valid_word\<close>; the lemmas show that the
  \<open>isalpha\<close> guard before it rules this out, characterise the accepted words, and
  show that on a lower-cased word (the only input the generator gives it) the
  capitalisation guard never fires.
\<close>

definition is_valid_word :: "wordnet \<Rightarrow> py_str \<Rightarrow> py_error + bool" where
  "is_valid_word wn word =
     (if \<not> py_isalpha word then Inr False
      else
        (case py_index word 0 of
           Inl e \<Rightarrow> Inl e
         | Inr c \<Rightarrow>
             if py_isupper_char c then Inr False
             else
               (let ss = synsets wn word in
                if ss \<noteq> [] then
                  (let all_proper = list_all is_named_instance ss in
                   if all_proper then Inr False else Inr True)
                else Inr True)))"

section \<open>The guard protects the index\<close>

lemma py_isalpha_index0: "py_isalpha w \<Longrightarrow> py_index w 0 = Inr (hd w)"
  by (cases w) (auto simp: py_isalpha_def py_index_def)

lemma is_valid_word_eq:
  "is_valid_word wn w =
     Inr (py_isalpha w \<and> \<not> py_isupper_char (hd w) \<and>
          (synsets wn w = [] \<or> list_ex (\<lambda>s. \<not> is_named_instance s) (synsets wn w)))"
  by (auto simp: is_valid_word_def py_isalpha_index0 Let_def list_all_iff list_ex_iff)

lemma py_lower_hd_not_upper: "w \<noteq> [] \<Longrightarrow> \<not> py_isupper_char (hd (py_lower w))"
  by (cases w) auto

section \<open>Properties\<close>

text \<open>Claim C8 (error). \<open>is_valid_word\<close> never raises: the \<open>isalpha\<close> test runs
  first and fails on the empty word, so \<open>word[0]\<close> is only evaluated on a
  non-empty word and no \<open>IndexError\<close> escapes.\<close>

theorem is_valid_word_never_raises: "\<exists>b. is_valid_word wn w = Inr b"
  by (simp add: is_valid_word_eq)


text \<open>Claim C17 (functional). On a lower-cased token, the only input the generator
  passes, the capitalisation guard never rejects: validity reduces to the alphabet
  test and the named-instance test.\<close>

theorem is_valid_word_lowered:
  "is_valid_word wn (py_lower w) =
     Inr (py_isalpha w \<and>
          (synsets wn (py_lower w) = [] \<or>
           list_ex (\<lambda>s. \<not> is_named_instance s) (synsets wn (py_lower w))))"
proof -
  have "py_isalpha w \<Longrightarrow> w \<noteq> []" by (simp add: py_isalpha_def)
  then show ?thesis by (auto simp: is_valid_word_eq py_lower_hd_not_upper)
qed

end
