(* ===== verification/Generate.thy ===== *)
theory Generate
  imports Concreteness Validity
begin

text \<open>
  The generator, \<open>get_concrete_nouns\<close> of \<^verbatim>\<open>src/generate_nouns.py\<close>: its first
  loop collects into the set \<open>all_nouns\<close> the lower-cased single-word lemma names
  of every noun synset that lie within the length bounds and pass
  \<open>is_valid_word\<close> (\<open>collect_lemmas\<close> for the inner loop over one synset's lemmas,
  \<open>collect_nouns\<close> for the outer loop over \<open>wn.all_synsets\<close>); its second loop
  keeps the words of \<open>sorted(all_nouns)\<close> that \<open>is_concrete_noun\<close> accepts
  (\<open>select_concrete\<close>); it returns them sorted. An exception of
  \<open>is_valid_word\<close> would leave both loops, so the loops return \<open>py_error + _\<close>.
  The lines it prints (a count and a progress message every 500 words) are
  modelled with the script's \<open>main\<close> in \<open>Mains\<close> (\<open>get_concrete_nouns_prints\<close>).
  Python's \<open>sorted\<close> on strings compares code points lexicographically, which is
  the order of \<open>HOL-Library.List_Lexorder\<close> over \<open>HOL-Library.Char_ord\<close>.
\<close>

definition lemma_word :: "py_str \<Rightarrow> py_str" where
  "lemma_word name = py_replace_char (CHR ''_'') (CHR '' '') name"

fun collect_lemmas ::
  "wordnet \<Rightarrow> nat \<Rightarrow> nat \<Rightarrow> py_str list \<Rightarrow> py_str set \<Rightarrow> py_error + py_str set" where
  "collect_lemmas wn min_length max_length [] all_nouns = Inr all_nouns"
| "collect_lemmas wn min_length max_length (name # names) all_nouns =
     (let word = lemma_word name in
      if \<not> py_contains '' '' word \<and> \<not> py_contains ''-'' word then
        (let word = py_lower word in
         if min_length \<le> length word \<and> length word \<le> max_length then
           (case is_valid_word wn word of
              Inl e \<Rightarrow> Inl e
            | Inr valid \<Rightarrow>
                if valid then collect_lemmas wn min_length max_length names (insert word all_nouns)
                else collect_lemmas wn min_length max_length names all_nouns)
         else collect_lemmas wn min_length max_length names all_nouns)
      else collect_lemmas wn min_length max_length names all_nouns)"

fun collect_nouns ::
  "wordnet \<Rightarrow> nat \<Rightarrow> nat \<Rightarrow> synset list \<Rightarrow> py_str set \<Rightarrow> py_error + py_str set" where
  "collect_nouns wn min_length max_length [] all_nouns = Inr all_nouns"
| "collect_nouns wn min_length max_length (s # ss) all_nouns =
     (case collect_lemmas wn min_length max_length (lemma_names s) all_nouns of
        Inl e \<Rightarrow> Inl e
      | Inr all_nouns' \<Rightarrow> collect_nouns wn min_length max_length ss all_nouns')"

fun select_concrete :: "wordnet \<Rightarrow> py_str list \<Rightarrow> py_str set \<Rightarrow> py_str set" where
  "select_concrete wn [] concrete_nouns = concrete_nouns"
| "select_concrete wn (word # words) concrete_nouns =
     select_concrete wn words
       (if is_concrete_noun wn word then insert word concrete_nouns else concrete_nouns)"

definition get_concrete_nouns :: "wordnet \<Rightarrow> nat \<Rightarrow> nat \<Rightarrow> py_error + py_str list" where
  "get_concrete_nouns wn min_length max_length =
     (case collect_nouns wn min_length max_length (all_synsets wn) {} of
        Inl e \<Rightarrow> Inl e
      | Inr all_nouns \<Rightarrow>
          Inr (sorted_list_of_set (select_concrete wn (sorted_list_of_set all_nouns) {})))"

text \<open>What the first loop accepts: a lemma name whose underscores become spaces,
  with no space or hyphen left, whose lower-cased form \<open>w\<close> is within the bounds
  and valid.\<close>

definition accepts_lemma :: "wordnet \<Rightarrow> nat \<Rightarrow> nat \<Rightarrow> py_str \<Rightarrow> py_str \<Rightarrow> bool" where
  "accepts_lemma wn min_length max_length name w \<longleftrightarrow>
     \<not> py_contains '' '' (lemma_word name) \<and> \<not> py_contains ''-'' (lemma_word name) \<and>
     w = py_lower (lemma_word name) \<and> min_length \<le> length w \<and> length w \<le> max_length \<and>
     is_valid_word wn w = Inr True"

definition noun_candidates :: "wordnet \<Rightarrow> nat \<Rightarrow> nat \<Rightarrow> synset list \<Rightarrow> py_str set" where
  "noun_candidates wn min_length max_length ss =
     {w. \<exists>s \<in> set ss. \<exists>name \<in> set (lemma_names s). accepts_lemma wn min_length max_length name w}"

section \<open>The loops\<close>

lemma collect_lemmas_eq:
  "collect_lemmas wn lo hi names acc =
     Inr (acc \<union> {w. \<exists>name \<in> set names. accepts_lemma wn lo hi name w})"
proof (induction names arbitrary: acc)
  case Nil
  then show ?case by simp
next
  case (Cons name names)
  show ?case
    by (auto simp: Cons.IH accepts_lemma_def is_valid_word_eq Let_def)
qed

lemma collect_nouns_eq:
  "collect_nouns wn lo hi ss acc = Inr (acc \<union> noun_candidates wn lo hi ss)"
  by (induction ss arbitrary: acc) (auto simp: collect_lemmas_eq noun_candidates_def)

lemma finite_noun_candidates: "finite (noun_candidates wn lo hi ss)"
proof -
  have "noun_candidates wn lo hi ss \<subseteq>
      (\<lambda>name. py_lower (lemma_word name)) ` (\<Union>s \<in> set ss. set (lemma_names s))"
    by (auto simp: noun_candidates_def accepts_lemma_def)
  then show ?thesis by (rule finite_subset) simp
qed

lemma select_concrete_eq:
  "select_concrete wn ws acc = acc \<union> {w \<in> set ws. is_concrete_noun wn w}"
  by (induction ws arbitrary: acc) auto

lemma get_concrete_nouns_eq:
  "get_concrete_nouns wn lo hi =
     Inr (sorted_list_of_set {w \<in> noun_candidates wn lo hi (all_synsets wn). is_concrete_noun wn w})"
  by (simp add: get_concrete_nouns_def collect_nouns_eq select_concrete_eq finite_noun_candidates)

lemma set_get_concrete_nouns:
  "get_concrete_nouns wn lo hi = Inr ns \<Longrightarrow>
   set ns = {w \<in> noun_candidates wn lo hi (all_synsets wn). is_concrete_noun wn w}"
proof -
  assume run: "get_concrete_nouns wn lo hi = Inr ns"
  have "finite {w \<in> noun_candidates wn lo hi (all_synsets wn). is_concrete_noun wn w}"
    using finite_noun_candidates by simp
  moreover from run have "ns = sorted_list_of_set {w \<in> noun_candidates wn lo hi (all_synsets wn). is_concrete_noun wn w}"
    by (simp add: get_concrete_nouns_eq)
  ultimately show ?thesis by simp
qed

lemma lemma_word_single:
  "\<not> py_contains '' '' (lemma_word name) \<Longrightarrow>
   lemma_word name = name \<and> CHR ''_'' \<notin> set name \<and> CHR '' '' \<notin> set name"
  by (auto simp: lemma_word_def py_replace_char_no_target py_replace_char_id)

lemma accepts_lemma_word:
  "accepts_lemma wn lo hi name w \<Longrightarrow>
   w = py_lower name \<and> \<not> py_contains ''_'' name \<and> \<not> py_contains '' '' name \<and>
   \<not> py_contains ''-'' name \<and> py_isalpha w \<and> py_lower w = w \<and> lo \<le> length w \<and> length w \<le> hi"
  using lemma_word_single [of name]
  by (auto simp: accepts_lemma_def is_valid_word_eq)

text \<open>A run of the generator on a taxonomy holding the aircraft sense and the first
  sense of \<open>lamp\<close>: the three lemma names of the aircraft sense come out sorted,
  \<open>lamp\<close> does not.\<close>

lemma example_run:
  "get_concrete_nouns (example_wordnet [airplane_sense, lamp_sense]) 2 10 =
     Inr [''aeroplane'', ''airplane'', ''plane'']"
  by code_simp

section \<open>Properties\<close>

text \<open>Claim C16 (functional). The generator never raises: \<open>is_valid_word\<close>, the
  only call of its loops that could raise, never does, so both loops run to the end
  and the list returned is sorted and has no duplicates.\<close>

theorem get_concrete_nouns_sorted:
  "\<exists>ns. get_concrete_nouns wn lo hi = Inr ns \<and> sorted ns \<and> distinct ns"
  by (simp add: get_concrete_nouns_eq)

text \<open>Claim C3 (safety). Every returned word is concrete, valid, within the length
  bounds, alphabetic and lower-case, and is the lower-cased form of a lemma name of
  some noun synset that has no underscore, space or hyphen (a single word).\<close>

theorem get_concrete_nouns_sound:
  "get_concrete_nouns wn lo hi = Inr ns \<Longrightarrow> w \<in> set ns \<Longrightarrow>
   is_concrete_noun wn w \<and> is_valid_word wn w = Inr True \<and> lo \<le> length w \<and> length w \<le> hi \<and>
   py_isalpha w \<and> py_lower w = w \<and>
   (\<exists>s \<in> set (all_synsets wn). \<exists>name \<in> set (lemma_names s).
      w = py_lower name \<and> \<not> py_contains ''_'' name \<and> \<not> py_contains '' '' name \<and>
      \<not> py_contains ''-'' name)"
proof -
  assume run: "get_concrete_nouns wn lo hi = Inr ns" and w: "w \<in> set ns"
  from run w have c: "is_concrete_noun wn w"
    and "w \<in> noun_candidates wn lo hi (all_synsets wn)"
    by (auto simp: set_get_concrete_nouns)
  then obtain s name where s: "s \<in> set (all_synsets wn)" and n: "name \<in> set (lemma_names s)"
    and acc: "accepts_lemma wn lo hi name w"
    by (auto simp: noun_candidates_def)
  from acc have "is_valid_word wn w = Inr True" unfolding accepts_lemma_def by blast
  with c s n acc show ?thesis by (blast dest: accepts_lemma_word)
qed

theorem get_concrete_nouns_sound_witness:
  "get_concrete_nouns (example_wordnet [airplane_sense, lamp_sense]) 2 10 =
     Inr [''aeroplane'', ''airplane'', ''plane''] \<and>
   ''plane'' \<in> set [''aeroplane'', ''airplane'', ''plane''] \<and>
   is_concrete_noun (example_wordnet [airplane_sense, lamp_sense]) ''plane'' \<and>
   ''lamp'' \<notin> set [''aeroplane'', ''airplane'', ''plane'']"
proof -
  have mem: "''plane'' \<in> set [''aeroplane'', ''airplane'', ''plane'']" by simp
  show ?thesis using example_run get_concrete_nouns_sound [OF example_run mem] by simp
qed

text \<open>Claim C4 (functional). Every single-word lemma name of a noun synset that
  the first loop accepts and \<open>is_concrete_noun\<close> keeps is returned.\<close>

theorem get_concrete_nouns_complete:
  "get_concrete_nouns wn lo hi = Inr ns \<Longrightarrow> s \<in> set (all_synsets wn) \<Longrightarrow>
   name \<in> set (lemma_names s) \<Longrightarrow> accepts_lemma wn lo hi name w \<Longrightarrow>
   is_concrete_noun wn w \<Longrightarrow> w \<in> set ns"
  by (auto simp: set_get_concrete_nouns noun_candidates_def)

theorem get_concrete_nouns_complete_witness:
  "airplane_sense \<in> set (all_synsets (example_wordnet [airplane_sense, lamp_sense])) \<and>
   ''plane'' \<in> set (lemma_names airplane_sense) \<and>
   accepts_lemma (example_wordnet [airplane_sense, lamp_sense]) 2 10 ''plane'' ''plane'' \<and>
   ''plane'' \<in> set [''aeroplane'', ''airplane'', ''plane'']"
proof -
  let ?wn = "example_wordnet [airplane_sense, lamp_sense]"
  have s: "airplane_sense \<in> set (all_synsets ?wn)" by (simp add: example_wordnet_def)
  have n: "''plane'' \<in> set (lemma_names airplane_sense)" by (simp add: airplane_sense_def)
  have acc: "accepts_lemma ?wn 2 10 ''plane'' ''plane''"
    by (simp add: accepts_lemma_def lemma_word_def is_valid_word_eq example_wordnet_def
        example_senses is_named_instance_def py_str_simps)
  have c: "is_concrete_noun ?wn ''plane''"
    by (simp add: is_concrete_noun_iff example_wordnet_def example_senses sense_eval)
  show ?thesis using s n acc get_concrete_nouns_complete [OF example_run s n acc c] by simp
qed

end
