(* ===== verification/Hypernyms.thy ===== *)
theory Hypernyms
  imports Concreteness
begin

text \<open>
  The Taxonomy Adapter below its interface: how NLTK's WordNet reader produces the
  \<open>hypernym_paths\<close> of a synset that \<open>is_concrete_noun\<close> reads. This is not code
  of the repository; it follows the specification's contract (section 4.1: the
  ancestor categories of a sense are the union of the categories on every path
  from the sense to a root) and NLTK's recursive definition: a synset without
  parents (\<open>hypernyms() + instance_hypernyms()\<close>) has the one path \<open>[self]\<close>;
  otherwise each path of each parent is extended by \<open>self\<close>. The recursion
  terminates only on an acyclic taxonomy, so it is modelled with fuel
  (\<open>None\<close> when the fuel runs out), and the lemmas show how much fuel is enough,
  that more fuel does not change the result, and that the names on the paths are
  exactly the reflexive-transitive ancestors of the sense, so that the root tests
  of \<open>check_sense\<close> are the specification's ancestor-category tests.
\<close>

record tax_node =
  node_definition :: py_str
  node_hypernyms :: "py_str list"
  node_instance_hypernyms :: "py_str list"
  node_lemmas :: "py_str list"

type_synonym taxonomy = "py_str \<Rightarrow> tax_node"

definition parents :: "taxonomy \<Rightarrow> py_str \<Rightarrow> py_str list" where
  "parents t n = node_hypernyms (t n) @ node_instance_hypernyms (t n)"

fun hypernym_paths_fuel :: "nat \<Rightarrow> taxonomy \<Rightarrow> py_str \<Rightarrow> py_str list list option" where
  "hypernym_paths_fuel 0 t n = None"
| "hypernym_paths_fuel (Suc k) t n =
     (let hypernyms = parents t n in
      if hypernyms = [] then Some [[n]]
      else map_option (\<lambda>pss. concat (map (map (\<lambda>p. p @ [n])) pss))
             (those (map (hypernym_paths_fuel k t) hypernyms)))"

definition nltk_synset :: "nat \<Rightarrow> taxonomy \<Rightarrow> py_str \<Rightarrow> synset option" where
  "nltk_synset k t n =
     map_option
       (\<lambda>P. \<lparr>synset_name = n, definition_text = node_definition (t n), hypernym_paths = P,
             instance_hypernyms = node_instance_hypernyms (t n), lemma_names = node_lemmas (t n)\<rparr>)
       (hypernym_paths_fuel k t n)"

definition parent_rel :: "taxonomy \<Rightarrow> (py_str \<times> py_str) set" where
  "parent_rel t = {(a, b). b \<in> set (parents t a)}"

definition ancestors :: "taxonomy \<Rightarrow> py_str \<Rightarrow> py_str set" where
  "ancestors t n = {m. (n, m) \<in> (parent_rel t)\<^sup>*}"

text \<open>The specification's "ancestor path from a sense to a taxonomy root": a
  non-empty chain that starts at a node without parents, ends at \<open>n\<close>, and in
  which each node is a parent of the next.\<close>

definition hypernym_chain :: "taxonomy \<Rightarrow> py_str \<Rightarrow> py_str list \<Rightarrow> bool" where
  "hypernym_chain t n p \<longleftrightarrow>
     p \<noteq> [] \<and> parents t (hd p) = [] \<and> last p = n \<and>
     successively (\<lambda>a b. a \<in> set (parents t b)) p"

text \<open>A fragment of WordNet 3.0 around \<open>person.n.01\<close>, whose two parents give
  two hypernym paths, with a rank that decreases along every parent edge.\<close>

definition taxonomy_of :: "(py_str \<times> tax_node) list \<Rightarrow> taxonomy" where
  "taxonomy_of xs n =
     (case map_of xs n of
        Some v \<Rightarrow> v
      | None \<Rightarrow> \<lparr>node_definition = [], node_hypernyms = [], node_instance_hypernyms = [],
                 node_lemmas = []\<rparr>)"

definition class_node :: "py_str \<Rightarrow> py_str list \<Rightarrow> py_str list \<Rightarrow> tax_node" where
  "class_node d hs ls =
     \<lparr>node_definition = d, node_hypernyms = hs, node_instance_hypernyms = [], node_lemmas = ls\<rparr>"

definition person_taxonomy :: taxonomy where
  "person_taxonomy = taxonomy_of
     [(''person.n.01'', class_node ''a human being'' [''organism.n.01'', ''causal_agent.n.01'']
         [''person'', ''individual'']),
      (''organism.n.01'', class_node ''a living thing that has (or can develop) the ability to act or function independently''
         [''living_thing.n.01''] [''organism'', ''being'']),
      (''living_thing.n.01'', class_node ''a living (or once living) entity'' [''whole.n.02''] [''living_thing'']),
      (''whole.n.02'', class_node ''an assemblage of parts that is regarded as a single entity'' [''object.n.01''] [''whole'']),
      (''object.n.01'', class_node ''a tangible and visible entity'' [''physical_entity.n.01''] [''object'']),
      (''causal_agent.n.01'', class_node ''any entity that produces an effect'' [''physical_entity.n.01''] [''causal_agent'']),
      (''physical_entity.n.01'', class_node ''an entity that has physical existence'' [''entity.n.01''] [''physical_entity''])]"

definition person_rank :: "py_str \<Rightarrow> nat" where
  "person_rank n =
     (case map_of [(''person.n.01'', 7), (''organism.n.01'', 5), (''living_thing.n.01'', 4),
                   (''whole.n.02'', 3), (''object.n.01'', 2), (''causal_agent.n.01'', 2),
                   (''physical_entity.n.01'', 1)] n of
        Some r \<Rightarrow> r
      | None \<Rightarrow> 0)"

definition person_synset :: synset where
  "person_synset =
     \<lparr>synset_name = ''person.n.01'', definition_text = ''a human being'',
      hypernym_paths =
        [[''entity.n.01'', ''physical_entity.n.01'', ''object.n.01'', ''whole.n.02'',
          ''living_thing.n.01'', ''organism.n.01'', ''person.n.01''],
         [''entity.n.01'', ''physical_entity.n.01'', ''causal_agent.n.01'', ''person.n.01'']],
      instance_hypernyms = [], lemma_names = [''person'', ''individual'']\<rparr>"

declare hypernym_paths_fuel.simps(2) [simp del]

section \<open>Options of lists\<close>

lemma those_map_Some:
  "those (map f xs) = Some ys \<longleftrightarrow> list_all2 (\<lambda>x y. f x = Some y) xs ys"
proof (induction xs arbitrary: ys)
  case Nil
  then show ?case by auto
next
  case (Cons x xs)
  then show ?case by (cases ys) (auto split: option.splits)
qed

lemma those_map_exists:
  "\<forall>x \<in> set xs. \<exists>y. f x = Some y \<Longrightarrow> \<exists>ys. those (map f xs) = Some ys"
  by (induction xs) auto

lemma list_all2_right: "list_all2 R xs ys \<Longrightarrow> y \<in> set ys \<Longrightarrow> \<exists>x \<in> set xs. R x y"
  by (induction xs ys rule: list_all2_induct) auto

lemma list_all2_left: "list_all2 R xs ys \<Longrightarrow> x \<in> set xs \<Longrightarrow> \<exists>y \<in> set ys. R x y"
  by (induction xs ys rule: list_all2_induct) auto

section \<open>Ancestors\<close>

lemma ancestors_unfold:
  "ancestors t n = insert n (\<Union>h \<in> set (parents t n). ancestors t h)"
proof
  show "ancestors t n \<subseteq> insert n (\<Union>h \<in> set (parents t n). ancestors t h)"
  proof
    fix m assume "m \<in> ancestors t n"
    then have "(n, m) \<in> (parent_rel t)\<^sup>*" by (simp add: ancestors_def)
    then show "m \<in> insert n (\<Union>h \<in> set (parents t n). ancestors t h)"
      by (cases rule: converse_rtranclE) (auto simp: ancestors_def parent_rel_def)
  qed
next
  show "insert n (\<Union>h \<in> set (parents t n). ancestors t h) \<subseteq> ancestors t n"
    by (auto simp: ancestors_def parent_rel_def intro: converse_rtrancl_into_rtrancl)
qed

section \<open>The paths\<close>

lemma hypernym_paths_fuel_shape:
  "hypernym_paths_fuel k t n = Some P \<Longrightarrow>
   P \<noteq> [] \<and> (\<forall>p \<in> set P. p \<noteq> [] \<and> last p = n \<and> parents t (hd p) = [] \<and>
     successively (\<lambda>a b. a \<in> set (parents t b)) p) \<and>
   set (concat P) = ancestors t n"
proof (induction k arbitrary: n P)
  case 0
  then show ?case by simp
next
  case (Suc k)
  show ?case
  proof (cases "parents t n = []")
    case True
    with Suc.prems have "P = [[n]]" by (simp add: hypernym_paths_fuel.simps(2) [of k t n])
    with True show ?thesis by (subst ancestors_unfold) simp
  next
    case False
    with Suc.prems obtain pss where
      rec: "list_all2 (\<lambda>h ps. hypernym_paths_fuel k t h = Some ps) (parents t n) pss" and
      P: "P = concat (map (map (\<lambda>p. p @ [n])) pss)"
      by (auto simp: those_map_Some hypernym_paths_fuel.simps(2) [of k t n])
    have IH: "\<And>h ps. hypernym_paths_fuel k t h = Some ps \<Longrightarrow> ps \<noteq> [] \<and>
        (\<forall>p \<in> set ps. p \<noteq> [] \<and> last p = h \<and> parents t (hd p) = [] \<and>
          successively (\<lambda>a b. a \<in> set (parents t b)) p) \<and>
        set (concat ps) = ancestors t h"
      by (rule Suc.IH)
    have ps_of: "\<And>ps. ps \<in> set pss \<Longrightarrow> \<exists>h \<in> set (parents t n). hypernym_paths_fuel k t h = Some ps"
      using rec by (rule list_all2_right)
    have h_of: "\<And>h. h \<in> set (parents t n) \<Longrightarrow> \<exists>ps \<in> set pss. hypernym_paths_fuel k t h = Some ps"
      using rec by (rule list_all2_left)
    have pss_ne: "pss \<noteq> []" using rec False by (cases pss) auto
    have ps_ne: "\<And>ps. ps \<in> set pss \<Longrightarrow> ps \<noteq> []" using ps_of IH by blast
    have names: "(\<Union>ps \<in> set pss. set (concat ps)) = (\<Union>h \<in> set (parents t n). ancestors t h)"
    proof
      show "(\<Union>ps \<in> set pss. set (concat ps)) \<subseteq> (\<Union>h \<in> set (parents t n). ancestors t h)"
        using ps_of IH by fastforce
      show "(\<Union>h \<in> set (parents t n). ancestors t h) \<subseteq> (\<Union>ps \<in> set pss. set (concat ps))"
        using h_of IH by fastforce
    qed
    have setP: "set (concat P) = insert n (\<Union>ps \<in> set pss. set (concat ps))"
      using pss_ne ps_ne by (fastforce simp: P)
    have paths: "\<forall>p \<in> set P. p \<noteq> [] \<and> last p = n \<and> parents t (hd p) = [] \<and>
        successively (\<lambda>a b. a \<in> set (parents t b)) p"
    proof
      fix p assume "p \<in> set P"
      then obtain ps q where ps: "ps \<in> set pss" and q: "q \<in> set ps" and p: "p = q @ [n]"
        by (auto simp: P)
      from ps_of [OF ps] obtain h where h: "h \<in> set (parents t n)"
        and run: "hypernym_paths_fuel k t h = Some ps" by blast
      from IH [OF run] q have "q \<noteq> [] \<and> last q = h \<and> parents t (hd q) = [] \<and>
          successively (\<lambda>a b. a \<in> set (parents t b)) q" by blast
      with h show "p \<noteq> [] \<and> last p = n \<and> parents t (hd p) = [] \<and>
          successively (\<lambda>a b. a \<in> set (parents t b)) p"
        by (auto simp: p successively_append_iff)
    qed
    have "P \<noteq> []" using setP by auto
    with paths setP names show ?thesis by (subst ancestors_unfold) simp
  qed
qed

text \<open>A chain that ends at \<open>n\<close> and has more than one node is a chain to one
  parent of \<open>n\<close>, extended by \<open>n\<close>.\<close>

lemma hypernym_chain_snoc:
  assumes "hypernym_chain t n p" and "p \<noteq> [n]"
  shows "\<exists>q. p = q @ [n] \<and> hypernym_chain t (last q) q \<and> last q \<in> set (parents t n)"
proof -
  from assms(1) have ne: "p \<noteq> []" and last: "last p = n" by (auto simp: hypernym_chain_def)
  define q where "q = butlast p"
  have p: "p = q @ [n]" using append_butlast_last_id [OF ne] last by (simp add: q_def)
  have q_ne: "q \<noteq> []" using assms(2) p by auto
  have "successively (\<lambda>a b. a \<in> set (parents t b)) (q @ [n])"
    using assms(1) p by (simp add: hypernym_chain_def)
  then have succ: "successively (\<lambda>a b. a \<in> set (parents t b)) q" and
    par: "last q \<in> set (parents t n)"
    using q_ne by (auto simp: successively_append_iff)
  have "parents t (hd q) = []" using assms(1) p q_ne by (simp add: hypernym_chain_def)
  with succ q_ne have "hypernym_chain t (last q) q" by (simp add: hypernym_chain_def)
  with p par show ?thesis by blast
qed

lemma hypernym_paths_fuel_complete:
  "hypernym_paths_fuel k t n = Some P \<Longrightarrow> hypernym_chain t n p \<Longrightarrow> p \<in> set P"
proof (induction k arbitrary: n P p)
  case 0
  then show ?case by simp
next
  case (Suc k)
  show ?case
  proof (cases "parents t n = []")
    case True
    with Suc.prems(1) have P: "P = [[n]]" by (simp add: hypernym_paths_fuel.simps(2) [of k t n])
    have "p = [n]"
    proof (rule ccontr)
      assume "p \<noteq> [n]"
      from hypernym_chain_snoc [OF Suc.prems(2) this] True show False by auto
    qed
    with P show ?thesis by simp
  next
    case False
    with Suc.prems(1) obtain pss where
      rec: "list_all2 (\<lambda>h ps. hypernym_paths_fuel k t h = Some ps) (parents t n) pss" and
      P: "P = concat (map (map (\<lambda>p. p @ [n])) pss)"
      by (auto simp: those_map_Some hypernym_paths_fuel.simps(2) [of k t n])
    have "p \<noteq> [n]"
    proof
      assume "p = [n]"
      then show False using Suc.prems(2) False by (simp add: hypernym_chain_def)
    qed
    from hypernym_chain_snoc [OF Suc.prems(2) this] obtain q where
      p: "p = q @ [n]" and q: "hypernym_chain t (last q) q" and h: "last q \<in> set (parents t n)"
      by blast
    from list_all2_left [OF rec h] obtain ps where ps: "ps \<in> set pss"
      and run: "hypernym_paths_fuel k t (last q) = Some ps" by blast
    from Suc.IH [OF run q] have "q \<in> set ps" .
    with ps p show ?thesis by (auto simp: P)
  qed
qed

lemma hypernym_paths_fuel_enough:
  "\<forall>a. \<forall>b \<in> set (parents t a). r b < r a \<Longrightarrow> r n < k \<Longrightarrow>
   \<exists>P. hypernym_paths_fuel k t n = Some P"
proof (induction k arbitrary: n)
  case 0
  then show ?case by simp
next
  case (Suc k)
  have "\<forall>h \<in> set (parents t n). \<exists>P. hypernym_paths_fuel k t h = Some P"
  proof
    fix h assume "h \<in> set (parents t n)"
    with Suc.prems have "r h < k" by fastforce
    with Suc.prems(1) show "\<exists>P. hypernym_paths_fuel k t h = Some P" by (rule Suc.IH)
  qed
  then obtain pss where "those (map (hypernym_paths_fuel k t) (parents t n)) = Some pss"
    using those_map_exists by blast
  then show ?case by (auto simp: hypernym_paths_fuel.simps(2) [of k t n] Let_def)
qed

lemma hypernym_paths_fuel_Suc:
  "hypernym_paths_fuel k t n = Some P \<Longrightarrow> hypernym_paths_fuel (Suc k) t n = Some P"
proof (induction k arbitrary: n P)
  case 0
  then show ?case by simp
next
  case (Suc k)
  show ?case
  proof (cases "parents t n = []")
    case True
    with Suc.prems show ?thesis
      by (simp add: hypernym_paths_fuel.simps(2) [of k t n] hypernym_paths_fuel.simps(2) [of "Suc k" t n])
  next
    case False
    with Suc.prems obtain pss where
      rec: "list_all2 (\<lambda>h ps. hypernym_paths_fuel k t h = Some ps) (parents t n) pss" and
      P: "P = concat (map (map (\<lambda>p. p @ [n])) pss)"
      by (auto simp: those_map_Some hypernym_paths_fuel.simps(2) [of k t n])
    from rec have "list_all2 (\<lambda>h ps. hypernym_paths_fuel (Suc k) t h = Some ps) (parents t n) pss"
      by (rule list_all2_mono) (rule Suc.IH)
    then have "those (map (hypernym_paths_fuel (Suc k) t) (parents t n)) = Some pss"
      by (simp add: those_map_Some)
    with False P show ?thesis
      by (simp add: hypernym_paths_fuel.simps(2) [of "Suc k" t n])
  qed
qed

lemma hypernym_paths_fuel_mono:
  "k \<le> k' \<Longrightarrow> hypernym_paths_fuel k t n = Some P \<Longrightarrow> hypernym_paths_fuel k' t n = Some P"
  by (induction k' rule: dec_induct) (auto intro: hypernym_paths_fuel_Suc)

lemma nltk_synset_names:
  assumes "nltk_synset k t n = Some s"
  shows "synset_name s = n \<and> set (hypernym_names s) = ancestors t n"
proof -
  from assms obtain P where run: "hypernym_paths_fuel k t n = Some P"
    and name: "synset_name s = n" and paths: "hypernym_paths s = P"
    by (auto simp: nltk_synset_def)
  from hypernym_paths_fuel_shape [OF run] have "set (concat P) = ancestors t n" by blast
  with name paths show ?thesis by (simp add: hypernym_names_def)
qed

lemma parents_taxonomy_of:
  "(\<forall>(a, v) \<in> set xs. \<forall>b \<in> set (node_hypernyms v @ node_instance_hypernyms v). r b < r a) \<Longrightarrow>
   \<forall>a. \<forall>b \<in> set (parents (taxonomy_of xs) a). r b < r a"
  by (auto simp: parents_def taxonomy_of_def split: option.splits dest: map_of_SomeD)

lemma person_rank_decreases:
  "\<forall>a. \<forall>b \<in> set (parents person_taxonomy a). person_rank b < person_rank a"
  unfolding person_taxonomy_def
  by (rule parents_taxonomy_of) (simp add: class_node_def person_rank_def)

lemma person_run:
  "nltk_synset 8 person_taxonomy ''person.n.01'' = Some person_synset"
  by code_simp

section \<open>Properties\<close>

text \<open>Claim C21 (functional). NLTK's enumeration is complete and exact: the
  hypernym paths of a synset the reader returns are exactly the chains of parent
  links from a root of the taxonomy down to the sense, so the set \<open>hypernyms\<close>
  that \<open>is_concrete_noun\<close> builds is the union of the categories on every ancestor
  path, as the specification's \<open>ancestorCategories\<close> is defined.\<close>

theorem hypernym_paths_complete:
  "nltk_synset k t n = Some s \<Longrightarrow>
   set (hypernym_paths s) = {p. hypernym_chain t n p} \<and>
   set (hypernym_names s) = (\<Union>p \<in> {p. hypernym_chain t n p}. set p)"
proof -
  assume syn: "nltk_synset k t n = Some s"
  then obtain P where run: "hypernym_paths_fuel k t n = Some P" and paths: "hypernym_paths s = P"
    by (auto simp: nltk_synset_def)
  have "p \<in> set P \<Longrightarrow> hypernym_chain t n p" for p
    using hypernym_paths_fuel_shape [OF run] by (auto simp: hypernym_chain_def)
  moreover have "hypernym_chain t n p \<Longrightarrow> p \<in> set P" for p
    using run by (rule hypernym_paths_fuel_complete)
  ultimately have "set (hypernym_paths s) = {p. hypernym_chain t n p}" using paths by blast
  then show ?thesis by (simp add: hypernym_names_def)
qed

theorem hypernym_paths_complete_witness:
  "nltk_synset 8 person_taxonomy ''person.n.01'' = Some person_synset \<and>
   set (hypernym_paths person_synset) = {p. hypernym_chain person_taxonomy ''person.n.01'' p} \<and>
   set (hypernym_names person_synset) =
     (\<Union>p \<in> {p. hypernym_chain person_taxonomy ''person.n.01'' p}. set p)"
  using person_run hypernym_paths_complete [OF person_run] by simp

text \<open>Claim C18 (refinement). The set \<open>hypernyms\<close> that \<open>is_concrete_noun\<close> builds
  from the hypernym paths of a sense is the specification's set of ancestor
  categories: the sense itself and every category reachable along parent links
  (hypernyms and instance hypernyms).\<close>

theorem nltk_hypernyms_are_ancestors:
  "nltk_synset k t n = Some s \<Longrightarrow> set (hypernym_names s) = ancestors t n"
  by (simp add: nltk_synset_names)

theorem nltk_hypernyms_are_ancestors_witness:
  "nltk_synset 8 person_taxonomy ''person.n.01'' = Some person_synset \<and>
   set (hypernym_names person_synset) = ancestors person_taxonomy ''person.n.01''"
  using person_run nltk_hypernyms_are_ancestors [OF person_run] by simp

text \<open>Claim C19 (termination). On an acyclic taxonomy, witnessed by a rank that
  decreases along every parent link, NLTK's recursion returns once the fuel exceeds
  the rank of the sense, and any more fuel returns the same synset.\<close>

theorem nltk_synset_enough_fuel:
  "\<forall>a. \<forall>b \<in> set (parents t a). r b < r a \<Longrightarrow> r n < k \<Longrightarrow>
   \<exists>s. nltk_synset k t n = Some s \<and> set (hypernym_names s) = ancestors t n \<and>
       (\<forall>k' \<ge> k. nltk_synset k' t n = Some s)"
proof -
  assume rank: "\<forall>a. \<forall>b \<in> set (parents t a). r b < r a" and k: "r n < k"
  from hypernym_paths_fuel_enough [OF rank k] obtain P where
    run: "hypernym_paths_fuel k t n = Some P" by blast
  then obtain s where s: "nltk_synset k t n = Some s" by (simp add: nltk_synset_def)
  have "\<forall>k' \<ge> k. nltk_synset k' t n = Some s"
    using s run by (auto simp: nltk_synset_def dest: hypernym_paths_fuel_mono)
  with s show ?thesis by (blast dest: nltk_synset_names)
qed

theorem nltk_synset_enough_fuel_witness:
  "person_rank ''person.n.01'' < 8 \<and>
   nltk_synset 8 person_taxonomy ''person.n.01'' = Some person_synset \<and>
   nltk_synset 20 person_taxonomy ''person.n.01'' = Some person_synset \<and>
   set (hypernym_names person_synset) = ancestors person_taxonomy ''person.n.01''"
proof -
  have r: "person_rank ''person.n.01'' < 8" by (simp add: person_rank_def)
  from nltk_synset_enough_fuel [OF person_rank_decreases r] obtain s where
    s: "nltk_synset 8 person_taxonomy ''person.n.01'' = Some s" and
    names: "set (hypernym_names s) = ancestors person_taxonomy ''person.n.01''" and
    more: "\<forall>k' \<ge> 8. nltk_synset k' person_taxonomy ''person.n.01'' = Some s"
    by blast
  from s person_run have eq: "s = person_synset" by simp
  from more have "nltk_synset 20 person_taxonomy ''person.n.01'' = Some s" by simp
  with r person_run names eq show ?thesis by simp
qed

end
