(* ===== verification/Reader.thy ===== *)
theory Reader
  imports Generate Hypernyms
begin

text \<open>The WordNet reader behind the Taxonomy Adapter: the part of NLTK's
  \<open>WordNetCorpusReader\<close> that \<^verbatim>\<open>src/generate_nouns.py\<close> calls as \<open>wn.synsets(word,
  pos=wn.NOUN)\<close> and \<open>wn.all_synsets(pos=wn.NOUN)\<close>. It is library code, modelled
  from its source: the noun database (\<open>nltk_db\<close>: the taxonomy of Taxonomy, the noun
  offsets in file order and the exception list \<open>noun.exc\<close>), the lemma index, and
  \<open>_morphy\<close> with its rules \<open>apply_rules\<close>, \<open>filter_forms\<close> and its \<open>while\<close>
  loop, proved to terminate. \<open>nltk_wordnet\<close> packs the two queries into the
  \<open>wordnet\<close> record the components take, so the generator can be run on the reader.\<close>

section \<open>The noun database and \<open>_morphy\<close>\<close>

record nltk_db =
  db_taxonomy :: taxonomy
  db_ids :: "py_str list"
  db_exceptions :: "py_str \<rightharpoonup> py_str list"

definition noun_substitutions :: "(py_str \<times> py_str) list" where
  "noun_substitutions = [(''s'', ''''), (''ses'', ''s''), (''ves'', ''f''), (''xes'', ''x''),
     (''zes'', ''z''), (''ches'', ''ch''), (''shes'', ''sh''), (''men'', ''man''), (''ies'', ''y'')]"

definition morphy_apply_rules :: "py_str list \<Rightarrow> py_str list" where
  "morphy_apply_rules forms =
     concat (map (\<lambda>form. concat (map (\<lambda>(old, new).
        if py_endswith form old then [take (length form - length old) form @ new] else [])
        noun_substitutions)) forms)"

definition lemma_index :: "nltk_db \<Rightarrow> py_str \<Rightarrow> py_str list" where
  "lemma_index db form =
     filter (\<lambda>n. form \<in> set (map py_lower (node_lemmas (db_taxonomy db n)))) (db_ids db)"

fun morphy_filter_forms :: "nltk_db \<Rightarrow> py_str set \<Rightarrow> py_str list \<Rightarrow> py_str list" where
  "morphy_filter_forms db seen [] = []"
| "morphy_filter_forms db seen (form # forms) =
     (if lemma_index db form \<noteq> [] \<and> form \<notin> seen
      then form # morphy_filter_forms db (insert form seen) forms
      else morphy_filter_forms db seen forms)"

definition morphy_weight :: "py_str \<Rightarrow> nat" where
  "morphy_weight form = 2 * length form + (if py_endswith form ''men'' then 1 else 0)"

definition morphy_measure :: "py_str list \<Rightarrow> nat" where
  "morphy_measure forms = (if forms = [] then 0 else Suc (Max (morphy_weight ` set forms)))"

function morphy_loop :: "nltk_db \<Rightarrow> py_str list \<Rightarrow> py_str list" where
  "morphy_loop db forms =
     (if forms = [] then []
      else
        (let forms' = morphy_apply_rules forms;
             results = morphy_filter_forms db {} forms'
         in if results \<noteq> [] then results else morphy_loop db forms'))"
  by pat_completeness auto
termination
proof (relation "measure (\<lambda>(db, forms). morphy_measure forms)", goal_cases)
  case 1
  then show ?case by simp
next
  case (2 db forms forms' results)
  have rule: "morphy_weight (take (length f - length old) f @ new) < morphy_weight f"
    if "(old, new) \<in> set noun_substitutions" and "py_endswith f old" for f old new
    using that by (auto simp: noun_substitutions_def morphy_weight_def py_endswith_def)
  have smaller: "\<exists>f \<in> set forms. morphy_weight f' < morphy_weight f"
    if "f' \<in> set (morphy_apply_rules forms)" for f'
    using that rule by (fastforce simp: morphy_apply_rules_def split: if_splits)
  show ?case
  proof (cases "morphy_apply_rules forms = []")
    case True
    with 2 show ?thesis by (simp add: morphy_measure_def)
  next
    case False
    have "Max (morphy_weight ` set (morphy_apply_rules forms)) < Max (morphy_weight ` set forms)"
    proof (subst Max_less_iff)
      show "finite (morphy_weight ` set (morphy_apply_rules forms))" by simp
      show "morphy_weight ` set (morphy_apply_rules forms) \<noteq> {}" using False by simp
      show "\<forall>a \<in> morphy_weight ` set (morphy_apply_rules forms). a < Max (morphy_weight ` set forms)"
        using smaller by (fastforce intro: less_le_trans Max_ge)
    qed
    with 2 False show ?thesis by (simp add: morphy_measure_def)
  qed
qed

declare morphy_loop.simps [simp del]

definition morphy :: "nltk_db \<Rightarrow> py_str \<Rightarrow> py_str list" where
  "morphy db form =
     (case db_exceptions db form of
        Some exc \<Rightarrow> morphy_filter_forms db {} (form # exc)
      | None \<Rightarrow>
          (let forms = morphy_apply_rules [form];
               results = morphy_filter_forms db {} (form # forms)
           in if results \<noteq> [] then results else morphy_loop db forms))"

section \<open>The queries\<close>

definition nltk_synsets :: "nat \<Rightarrow> nltk_db \<Rightarrow> py_str \<Rightarrow> synset list" where
  "nltk_synsets k db word =
     (let lemma = py_lower word in
      concat (map (\<lambda>form. List.map_filter (nltk_synset k (db_taxonomy db)) (lemma_index db form))
                  (morphy db lemma)))"

definition nltk_all_synsets :: "nat \<Rightarrow> nltk_db \<Rightarrow> synset list" where
  "nltk_all_synsets k db = List.map_filter (nltk_synset k (db_taxonomy db)) (db_ids db)"

definition nltk_wordnet :: "nat \<Rightarrow> nltk_db \<Rightarrow> wordnet" where
  "nltk_wordnet k db = \<lparr>synsets = nltk_synsets k db, all_synsets = nltk_all_synsets k db\<rparr>"

text \<open>A fragment of WordNet 3.0 around \<open>glasses\<close>.\<close>

definition glass_db :: nltk_db where
  "glass_db = \<lparr>db_taxonomy = taxonomy_of
     [(''glass.n.01'', class_node ''a brittle transparent solid with irregular atomic structure''
         [''solid.n.01''] [''glass'']),
      (''spectacles.n.01'', class_node ''optical instrument consisting of a frame that holds a pair of lenses for correcting defective vision''
         [''optical_instrument.n.01''] [''spectacles'', ''specs'', ''eyeglasses'', ''glasses'']),
      (''solid.n.01'', class_node ''matter that is solid at room temperature and pressure'' [] [''solid'']),
      (''optical_instrument.n.01'', class_node ''an instrument designed to aid vision'' [] [''optical_instrument''])],
     db_ids = [''glass.n.01'', ''spectacles.n.01'', ''solid.n.01'', ''optical_instrument.n.01''],
     db_exceptions = Map.empty\<rparr>"

text \<open>The fragment of WordNet 3.0 above \<open>airplane.n.01\<close>.\<close>

definition airplane_db :: nltk_db where
  "airplane_db = \<lparr>db_taxonomy = taxonomy_of
     [(''entity.n.01'', class_node ''that which is perceived or known or inferred to have its own distinct existence (living or nonliving)'' [] [''entity'']),
      (''physical_entity.n.01'', class_node ''an entity that has physical existence'' [''entity.n.01''] [''physical_entity'']),
      (''object.n.01'', class_node ''a tangible and visible entity; an entity that can cast a shadow'' [''physical_entity.n.01''] [''object'', ''physical_object'']),
      (''whole.n.02'', class_node ''an assemblage of parts that is regarded as a single entity'' [''object.n.01''] [''whole'', ''unit'']),
      (''artifact.n.01'', class_node ''a man-made object taken as a whole'' [''whole.n.02''] [''artifact'', ''artefact'']),
      (''instrumentality.n.03'', class_node ''an artifact (or system of artifacts) that is instrumental in accomplishing some end'' [''artifact.n.01''] [''instrumentality'', ''instrumentation'']),
      (''conveyance.n.03'', class_node ''something that serves as a means of transportation'' [''instrumentality.n.03''] [''conveyance'', ''transport'']),
      (''vehicle.n.01'', class_node ''a conveyance that transports people or objects'' [''conveyance.n.03''] [''vehicle'']),
      (''craft.n.02'', class_node ''a vehicle designed for navigation in or on water or air or through outer space'' [''vehicle.n.01''] [''craft'']),
      (''aircraft.n.01'', class_node ''a vehicle that can fly'' [''craft.n.02''] [''aircraft'']),
      (''heavier-than-air_craft.n.01'', class_node ''a aircraft that is heavier than air'' [''aircraft.n.01''] [''heavier-than-air_craft'']),
      (''airplane.n.01'', class_node ''an aircraft that has a fixed wing and is powered by propellers or jets''
         [''heavier-than-air_craft.n.01''] [''airplane'', ''aeroplane'', ''plane''])],
     db_ids = [''entity.n.01'', ''physical_entity.n.01'', ''object.n.01'', ''whole.n.02'', ''artifact.n.01'',
       ''instrumentality.n.03'', ''conveyance.n.03'', ''vehicle.n.01'', ''craft.n.02'', ''aircraft.n.01'',
       ''heavier-than-air_craft.n.01'', ''airplane.n.01''],
     db_exceptions = Map.empty\<rparr>"

definition airplane_nltk_sense :: synset where
  "airplane_nltk_sense = the (nltk_synset 13 (db_taxonomy airplane_db) ''airplane.n.01'')"

definition glasses_sense :: synset where
  "glasses_sense = the (nltk_synset 3 (db_taxonomy glass_db) ''spectacles.n.01'')"

section \<open>Lemmas\<close>

lemma set_map_filter_Some:
  "f x = Some y \<Longrightarrow> x \<in> set xs \<Longrightarrow> y \<in> set (List.map_filter f xs)"
  by (induction xs) (auto simp: List.map_filter_simps split: option.splits)

lemma morphy_finds_form:
  "lemma_index db form \<noteq> [] \<Longrightarrow> form \<in> set (morphy db form)"
  by (simp add: morphy_def Let_def split: option.splits)

lemma lemma_index_node:
  "n \<in> set (db_ids db) \<Longrightarrow> name \<in> set (node_lemmas (db_taxonomy db n)) \<Longrightarrow>
   n \<in> set (lemma_index db (py_lower name))"
  by (auto simp: lemma_index_def)

lemma glasses_run:
  "nltk_synset 3 (db_taxonomy glass_db) ''spectacles.n.01'' = Some glasses_sense"
  by code_simp

text \<open>\<open>_morphy\<close> also strips a plural ending when the plural is itself a lemma:
  the senses of \<open>glasses\<close> include those of \<open>glass\<close>, which the adapter contract
  (the sense entries of the word) does not mention.\<close>

lemma glass_db_collect:
  "collect_nouns (nltk_wordnet 3 glass_db) 2 10 (all_synsets (nltk_wordnet 3 glass_db)) {} =
     Inr (set [''glass'', ''spectacles'', ''specs'', ''eyeglasses'', ''glasses'', ''solid''])"
  by code_simp

lemma nltk_synsets_glasses:
  "map synset_name (nltk_synsets 3 glass_db ''Glasses'') = [''spectacles.n.01'', ''glass.n.01'']"
  by code_simp

lemma morphy_filter_forms_seen: "f \<in> seen \<Longrightarrow> f \<notin> set (morphy_filter_forms db seen fs)"
  by (induction fs arbitrary: seen) auto

lemma morphy_filter_forms_sound:
  "set (morphy_filter_forms db seen fs) \<subseteq> {f. lemma_index db f \<noteq> []} \<and>
   distinct (morphy_filter_forms db seen fs)"
proof (induction fs arbitrary: seen)
  case (Cons f fs)
  have "f \<notin> set (morphy_filter_forms db (insert f seen) fs)"
    by (simp add: morphy_filter_forms_seen)
  with Cons show ?case by auto
qed simp

lemma morphy_loop_sound:
  "set (morphy_loop db forms) \<subseteq> {f. lemma_index db f \<noteq> []} \<and> distinct (morphy_loop db forms)"
proof (induction db forms rule: morphy_loop.induct)
  case (1 db forms)
  show ?case
    using 1 by (simp add: morphy_loop.simps [of db forms] Let_def morphy_filter_forms_sound)
qed

lemma morphy_sound:
  "set (morphy db form) \<subseteq> {f. lemma_index db f \<noteq> []} \<and> distinct (morphy db form)"
  by (simp add: morphy_def Let_def morphy_filter_forms_sound morphy_filter_forms_seen morphy_loop_sound
      split: option.splits)

lemma nltk_all_synsets_mem:
  "s \<in> set (nltk_all_synsets k db) \<longleftrightarrow> (\<exists>n \<in> set (db_ids db). nltk_synset k (db_taxonomy db) n = Some s)"
  by (force simp: nltk_all_synsets_def List.map_filter_def)

lemma nltk_synsets_lower [simp]: "nltk_synsets k db (py_lower word) = nltk_synsets k db word"
  by (simp add: nltk_synsets_def)

lemma airplane_run:
  "nltk_synset 13 (db_taxonomy airplane_db) ''airplane.n.01'' = Some airplane_nltk_sense"
  by code_simp

lemma morphy_filter_forms_mem:
  "f \<in> set fs \<Longrightarrow> lemma_index db f \<noteq> [] \<Longrightarrow> f \<notin> seen \<Longrightarrow>
   f \<in> set (morphy_filter_forms db seen fs)"
  by (induction fs arbitrary: seen) auto

lemma morphy_apply_rules_plural: "w \<in> set (morphy_apply_rules [w @ ''s''])"
  by (simp add: morphy_apply_rules_def noun_substitutions_def py_endswith_def)

text \<open>The first step of \<open>_morphy\<close> strips a final \<open>s\<close>: the singular of a regular
  plural is among the forms it returns whenever it is in the index, whether or not
  the plural is.\<close>

lemma morphy_plural:
  assumes idx: "lemma_index db w \<noteq> []" and exc: "db_exceptions db (w @ ''s'') = None"
  shows "w \<in> set (morphy db (w @ ''s''))"
proof -
  have "w \<in> set (morphy_filter_forms db {} ((w @ ''s'') # morphy_apply_rules [w @ ''s'']))"
    using idx morphy_apply_rules_plural by (intro morphy_filter_forms_mem) auto
  then show ?thesis using exc by (auto simp: morphy_def Let_def)
qed

lemma nltk_synset_lemmas:
  "nltk_synset k t n = Some s \<Longrightarrow> lemma_names s = node_lemmas (t n)"
  by (auto simp: nltk_synset_def)

lemma nltk_synsets_find_lemma:
  "n \<in> set (db_ids db) \<Longrightarrow> nltk_synset k (db_taxonomy db) n = Some s \<Longrightarrow>
   name \<in> set (lemma_names s) \<Longrightarrow>
   s \<in> set (all_synsets (nltk_wordnet k db)) \<and> s \<in> set (synsets (nltk_wordnet k db) name)"
proof -
  assume n: "n \<in> set (db_ids db)" and syn: "nltk_synset k (db_taxonomy db) n = Some s"
    and name: "name \<in> set (lemma_names s)"
  have idx: "n \<in> set (lemma_index db (py_lower name))"
    using lemma_index_node [OF n] name nltk_synset_lemmas [OF syn] by simp
  then have "py_lower name \<in> set (morphy db (py_lower name))"
    by (intro morphy_finds_form) auto
  moreover have "s \<in> set (List.map_filter (nltk_synset k (db_taxonomy db)) (lemma_index db (py_lower name)))"
    using syn idx by (rule set_map_filter_Some)
  ultimately have "s \<in> set (nltk_synsets k db name)"
    by (auto simp: nltk_synsets_def)
  moreover have "s \<in> set (nltk_all_synsets k db)"
    unfolding nltk_all_synsets_def using syn n by (rule set_map_filter_Some)
  ultimately show ?thesis by (simp add: nltk_wordnet_def)
qed

section \<open>Properties\<close>

text \<open>Claim C23 (functional). Run on the NLTK reader, every word the first loop of
  \<open>get_concrete_nouns\<close> collects from \<open>wn.all_synsets\<close> has the synset it came from
  among its \<open>wn.synsets\<close>: the lookup \<open>is_concrete_noun\<close> makes on a collected word
  always finds the word's own sense.\<close>

theorem collect_nouns_nltk_senses:
  "collect_nouns (nltk_wordnet k db) lo hi (all_synsets (nltk_wordnet k db)) {} = Inr all_nouns \<Longrightarrow>
   w \<in> all_nouns \<Longrightarrow>
   \<exists>s \<in> set (all_synsets (nltk_wordnet k db)). s \<in> set (synsets (nltk_wordnet k db) w)"
proof -
  assume run: "collect_nouns (nltk_wordnet k db) lo hi (all_synsets (nltk_wordnet k db)) {} = Inr all_nouns"
    and w: "w \<in> all_nouns"
  obtain s name where s: "s \<in> set (all_synsets (nltk_wordnet k db))" and name: "name \<in> set (lemma_names s)"
    and acc: "accepts_lemma (nltk_wordnet k db) lo hi name w"
    using run w by (auto simp: collect_nouns_eq noun_candidates_def)
  have word: "w = py_lower name"
    using acc lemma_word_single [of name] by (simp add: accepts_lemma_def)
  obtain n where n: "n \<in> set (db_ids db)" and syn: "nltk_synset k (db_taxonomy db) n = Some s"
    using s by (auto simp: nltk_wordnet_def nltk_all_synsets_mem)
  have "s \<in> set (synsets (nltk_wordnet k db) name)"
    using nltk_synsets_find_lemma [OF n syn name] by simp
  then show ?thesis using s word by (auto simp: nltk_wordnet_def)
qed

theorem collect_nouns_nltk_senses_witness:
  "collect_nouns (nltk_wordnet 3 glass_db) 2 10 (all_synsets (nltk_wordnet 3 glass_db)) {} =
     Inr (set [''glass'', ''spectacles'', ''specs'', ''eyeglasses'', ''glasses'', ''solid'']) \<and>
   ''glasses'' \<in> set [''glass'', ''spectacles'', ''specs'', ''eyeglasses'', ''glasses'', ''solid''] \<and>
   (\<exists>s \<in> set (all_synsets (nltk_wordnet 3 glass_db)). s \<in> set (synsets (nltk_wordnet 3 glass_db) ''glasses''))"
  using glass_db_collect collect_nouns_nltk_senses [OF glass_db_collect, of "''glasses''"] by simp

text \<open>Claim C24 (functional). Through \<open>_morphy\<close>, \<open>is_concrete_noun\<close> judges a
  regular plural by the senses of its singular: when a lemma of a synset has a sense
  that the checks accept for the plural token and the plural is not in the
  exception list, the plural is concrete, whether or not WordNet lists it as a word.
  So for a plural lemma such as \<open>glasses\<close> the senses of \<open>glass\<close> count too, which
  the specification's per-word contract does not say.\<close>

theorem plural_concrete_via_singular:
  "n \<in> set (db_ids db) \<Longrightarrow> nltk_synset k (db_taxonomy db) n = Some s \<Longrightarrow>
   name \<in> set (lemma_names s) \<Longrightarrow> db_exceptions db (py_lower name @ ''s'') = None \<Longrightarrow>
   check_sense (py_lower name @ ''s'') s = Accepted \<Longrightarrow>
   is_concrete_noun (nltk_wordnet k db) (py_lower name @ ''s'')"
proof -
  assume n: "n \<in> set (db_ids db)" and syn: "nltk_synset k (db_taxonomy db) n = Some s"
    and name: "name \<in> set (lemma_names s)" and exc: "db_exceptions db (py_lower name @ ''s'') = None"
    and acc: "check_sense (py_lower name @ ''s'') s = Accepted"
  have idx: "n \<in> set (lemma_index db (py_lower name))"
    using lemma_index_node [OF n] name nltk_synset_lemmas [OF syn] by simp
  then have form: "py_lower name \<in> set (morphy db (py_lower name @ ''s''))"
    using exc by (intro morphy_plural) auto
  have "s \<in> set (List.map_filter (nltk_synset k (db_taxonomy db)) (lemma_index db (py_lower name)))"
    using syn idx by (rule set_map_filter_Some)
  moreover have "py_lower (py_lower name @ ''s'') = py_lower name @ ''s''"
    by (simp add: py_lower_def)
  ultimately have "s \<in> set (synsets (nltk_wordnet k db) (py_lower name @ ''s''))"
    using form by (auto simp: nltk_wordnet_def nltk_synsets_def)
  with acc show ?thesis by (auto simp: is_concrete_noun_iff list_ex_iff)
qed

theorem plural_concrete_via_singular_witness:
  "''airplane.n.01'' \<in> set (db_ids airplane_db) \<and>
   nltk_synset 13 (db_taxonomy airplane_db) ''airplane.n.01'' = Some airplane_nltk_sense \<and>
   ''airplane'' \<in> set (lemma_names airplane_nltk_sense) \<and>
   db_exceptions airplane_db ''airplanes'' = None \<and>
   check_sense ''airplanes'' airplane_nltk_sense = Accepted \<and>
   is_concrete_noun (nltk_wordnet 13 airplane_db) ''airplanes''"
proof -
  have n: "''airplane.n.01'' \<in> set (db_ids airplane_db)" by (simp add: airplane_db_def)
  have name: "''airplane'' \<in> set (lemma_names airplane_nltk_sense)" by code_simp
  have exc: "db_exceptions airplane_db (py_lower ''airplane'' @ ''s'') = None" by code_simp
  have acc: "check_sense (py_lower ''airplane'' @ ''s'') airplane_nltk_sense = Accepted" by code_simp
  have low: "py_lower ''airplane'' @ ''s'' = ''airplanes''" by code_simp
  show ?thesis
    using n airplane_run name exc acc plural_concrete_via_singular [OF n airplane_run name exc acc]
    by (simp only: low)
qed

end
