(* ===== verification/Heuristic.thy ===== *)
theory Heuristic
  imports Prelude
begin

text \<open>
  The heuristic lexical classifier of \<^verbatim>\<open>src/filter_words.py\<close>: the curated sets
  \<open>PROFANITY\<close>, \<open>ABSTRACT_SUFFIXES\<close>, \<open>ABSTRACT_WORDS\<close>, \<open>ABSTRACT_KEYWORDS\<close> and the
  inline whitelist of \<open>is_abstract_noun\<close>, transcribed literally from the source (a
  Python \<open>set\<close> literal is the HOL \<open>set\<close> of the listed strings, a Python \<open>list\<close>
  stays a list); the predicates \<open>is_abstract_noun\<close>, \<open>is_profane\<close>, \<open>should_filter\<close>;
  and the partitioning loop of \<open>main\<close>. Then the specification's verdict
  (Profane, Abstract, Keep) as an abstract classifier, and the lemmas that the code
  refines it, that it is case-insensitive, that it partitions the list it is given,
  and what the whitelist really overrides.
\<close>

section \<open>The curated sets\<close>

definition PROFANITY :: "py_str set" where
  "PROFANITY = set [
     ''ass'', ''arse'', ''asshole'', ''bastard'', ''bitch'', ''bollocks'',
     ''crap'', ''cunt'', ''damn'', ''dick'', ''fuck'', ''fucking'',
     ''piss'', ''shit'', ''slut'', ''whore'', ''fisting'', ''floozie'',
     ''cock'', ''coitus'']"

definition ABSTRACT_SUFFIXES :: "py_str list" where
  "ABSTRACT_SUFFIXES = [
     ''tion'', ''sion'', ''ment'', ''ness'', ''ity'', ''ty'',
     ''ance'', ''ence'', ''ship'', ''hood'', ''dom'', ''ism'',
     ''ization'', ''isation'', ''age'', ''ery'', ''ry'', ''cy'']"

definition ABSTRACT_WORDS :: "py_str set" where
  "ABSTRACT_WORDS = set [
     ''ability'', ''abnormality'', ''abolishment'', ''abortion'', ''abrogation'', ''absence'',
     ''abuse'', ''acceptance'', ''accomplishment'', ''accord'', ''accordance'', ''accountability'',
     ''accuracy'', ''accusation'', ''achievement'', ''acknowledgment'', ''activation'', ''activity'',
     ''adaptation'', ''addiction'', ''adjustment'', ''administration'', ''admission'', ''adoption'',
     ''advance'', ''advancement'', ''advantage'', ''advent'', ''advertising'', ''advice'',
     ''advocacy'', ''affair'', ''affect'', ''affinity'', ''aftermath'', ''agency'',
     ''aggression'', ''agony'', ''agreement'', ''aid'', ''aim'', ''alarm'',
     ''alert'', ''allegation'', ''allocation'', ''allowance'', ''amazement'', ''ambiguity'',
     ''ambition'', ''amendment'', ''amnesty'', ''amusement'', ''analgesia'', ''anarchy'',
     ''anger'', ''angina'', ''anguish'', ''animation'', ''announcement'', ''answer'',
     ''anticipation'', ''anxiety'', ''apology'', ''appeal'', ''appearance'', ''appellation'',
     ''appetite'', ''applause'', ''application'', ''appointment'', ''appreciation'', ''apprehension'',
     ''approach'', ''appropriation'', ''approval'', ''argument'', ''arithmetic'', ''arrangement'',
     ''array'', ''arrest'', ''arrival'', ''arrogance'', ''art'', ''ascend'',
     ''ascent'', ''aside'', ''aspect'', ''aspiration'', ''assassination'', ''assault'',
     ''assembly'', ''assertion'', ''assessment'', ''assignment'', ''assistance'', ''association'',
     ''assumption'', ''assurance'', ''asymmetry'', ''attempt'', ''attendance'', ''attention'',
     ''attenuation'', ''attitude'', ''attraction'', ''attribute'', ''authentication'', ''authenticity'',
     ''authorisation'', ''authority'', ''authorization'', ''autoimmunity'', ''automation'', ''availability'',
     ''avalanche'', ''average'', ''aversion'', ''award'', ''awareness'', ''awe'',
     ''backburn'', ''backdrop'', ''background'', ''backup'', ''bafflement'', ''bail'',
     ''balance'', ''ban'', ''bandwidth'', ''banking'', ''bankruptcy'', ''bargain'',
     ''barrage'', ''barrier'', ''baseline'', ''basics'', ''basis'', ''batting'',
     ''battle'', ''beat'', ''beating'', ''beauty'', ''beginning'', ''behalf'',
     ''behavior'', ''behaviour'', ''beheading'', ''behest'', ''behold'', ''being'',
     ''belief'', ''belligerency'', ''benefit'', ''best-seller'', ''bestseller'', ''bet'',
     ''betray'', ''betrayal'', ''betting'', ''beverage'', ''beyond'', ''bias'',
     ''bibliography'', ''bid'', ''bidding'', ''billing'', ''billion'', ''biography'',
     ''biology'', ''biopsy'', ''birth'', ''birthday'', ''bit'', ''bite'',
     ''bitter'', ''bitterness'', ''blackness'', ''blame'', ''blank'', ''blast'',
     ''bleeding'', ''blend'', ''blessing'', ''blight'', ''blindness'', ''bliss'',
     ''blow'', ''blue'', ''blunder'', ''blur'', ''blush'', ''boast'',
     ''boasting'', ''body'', ''boil'', ''bombing'', ''bond'', ''bonding'',
     ''bonus'', ''booking'', ''boolean'', ''boom'', ''boon'', ''boost'',
     ''border'', ''bore'', ''boredom'', ''borrowing'', ''bother'', ''bottom'',
     ''bottom-line'', ''bout'', ''boundary'', ''bout'', ''boycott'', ''boyhood'',
     ''bracket'', ''brag'', ''bragging'', ''brain'', ''brand'', ''bravery'',
     ''breach'', ''break'', ''breakdown'', ''breakfast'', ''breakpoint'', ''breakthrough'',
     ''breath'', ''breathing'', ''breed'', ''breeding'', ''breeze'', ''bribery'',
     ''brief'', ''briefing'', ''briefly'', ''brightness'', ''brilliance'', ''brilliant'',
     ''brink'', ''broadcast'', ''brotherhood'', ''browsing'', ''brunch'', ''brushing'',
     ''brutality'', ''bubble'', ''budget'', ''build'', ''building'', ''bulk'',
     ''bulletin'', ''bullying'', ''bump'', ''bunch'', ''bundle'', ''burden'',
     ''burial'', ''burn'', ''burn-out'', ''burning'', ''burst'', ''business'',
     ''bust'', ''bustle'', ''buy'', ''buyer'', ''buying'', ''buzz'',
     ''adulthood'', ''afternoon'', ''afterlife'', ''aftershock'', ''afterthought'', ''age'',
     ''boyhood'', ''century'', ''childhood'', ''dawn'', ''day'', ''daylight'',
     ''deadline'', ''decade'', ''delay'', ''duration'', ''dusk'', ''era'',
     ''eternity'', ''eve'', ''evening'', ''event'', ''forever'', ''fortnight'',
     ''future'', ''girlhood'', ''hour'', ''interval'', ''lifespan'', ''lifetime'',
     ''manhood'', ''midnight'', ''millennium'', ''minute'', ''moment'', ''month'',
     ''morning'', ''night'', ''nightfall'', ''nighttime'', ''noon'', ''past'',
     ''period'', ''present'', ''season'', ''second'', ''semester'', ''shift'',
     ''spell'', ''springtime'', ''summertime'', ''sunrise'', ''sunset'', ''teatime'',
     ''term'', ''time'', ''timeframe'', ''timeline'', ''tomorrow'', ''tonight'',
     ''twilight'', ''week'', ''weekend'', ''while'', ''wintertime'', ''year'',
     ''yesterday'', ''youth'', ''act'', ''action'', ''activation'', ''activity'',
     ''adaptation'', ''addition'', ''adjustment'', ''adoption'', ''advance'', ''advancement'',
     ''advertising'', ''advocacy'', ''allocation'', ''alteration'', ''amendment'', ''analysis'',
     ''animation'', ''announcement'', ''application'', ''approach'', ''appropriation'', ''arrangement'',
     ''arrest'', ''arrival'', ''ascent'', ''assassination'', ''assault'', ''assembly'',
     ''assessment'', ''assignment'', ''assist'', ''assistance'', ''association'', ''attack'',
     ''attainment'', ''attempt'', ''attendance'', ''attenuation'', ''authentication'', ''authorization'',
     ''automation'', ''backup'', ''banking'', ''bargain'', ''barrage'', ''battle'',
     ''beat'', ''beating'', ''beginning'', ''behavior'', ''behaviour'', ''beheading'',
     ''betrayal'', ''betting'', ''bid'', ''bidding'', ''billing'', ''birth'',
     ''bite'', ''blackmail'', ''blast'', ''bleeding'', ''blend'', ''blessing'',
     ''blight'', ''blink'', ''blow'', ''boast'', ''boasting'', ''boil'',
     ''bombing'', ''bonding'', ''booking'', ''boom'', ''boost'', ''bore'',
     ''borrowing'', ''bounce'', ''bout'', ''boycott'', ''bragging'', ''branding'',
     ''breach'', ''break'', ''breakdown'', ''breakthrough'', ''breath'', ''breathing'',
     ''breed'', ''breeding'', ''bribery'', ''broadcast'', ''browsing'', ''brushing'',
     ''build'', ''building'', ''bullying'', ''bump'', ''burn'', ''burning'',
     ''burst'', ''business'', ''buy'', ''buying'', ''buzz'', ''academics'',
     ''accompanist'', ''accountant'', ''achiever'', ''activist'', ''actor'', ''actress'',
     ''admin'', ''administrator'', ''adult'', ''adviser'', ''advocate'', ''agent'',
     ''aide'', ''airman'', ''alien'', ''allergist'', ''ally'', ''ambassador'',
     ''analyst'', ''anarchist'', ''ancestor'', ''angel'', ''anesthesiologist'', ''announcer'',
     ''antagonist'', ''anthropologist'', ''anybody'', ''anyone'', ''applicant'', ''archaeologist'',
     ''archer'', ''architect'', ''aristocrat'', ''artist'', ''assistant'', ''associate'',
     ''astronaut'', ''astronomer'', ''atheist'', ''athlete'', ''attendant'', ''attorney'',
     ''audience'', ''aunt'', ''author'', ''baby'', ''babe'', ''bachelor'',
     ''badger'', ''baker'', ''ballerina'', ''balloonist'', ''bandleader'', ''bandit'',
     ''banker'', ''barber'', ''bard'', ''baritone'', ''bartender'', ''bather'',
     ''batman'', ''beggar'', ''beginner'', ''believer'', ''beneficiary'', ''bidder'',
     ''billionaire'', ''biographer'', ''biologist'', ''blacksmith'', ''blogger'', ''bloke'',
     ''boarder'', ''boatman'', ''bodyguard'', ''bondsman'', ''bookkeeper'', ''boss'',
     ''bouncer'', ''boy'', ''boyfriend'', ''bride'', ''bridesmaid'', ''brigadier'',
     ''broadcaster'', ''broker'', ''brother'', ''brother-in-law'', ''buddy'', ''builder'',
     ''burglar'', ''businessman'', ''businesswoman'', ''butcher'', ''butler'', ''buyer'',
     ''bystander'', ''brotherhood'', ''citizenship'', ''comradeship'', ''companionship'', ''courtship'',
     ''fellowship'', ''fatherhood'', ''friendship'', ''kinship'', ''leadership'', ''membership'',
     ''motherhood'', ''ownership'', ''parenthood'', ''partnership'', ''relationship'', ''sisterhood'',
     ''sportsmanship'', ''stewardship'', ''apprenticeship'', ''dictatorship'', ''guardianship'', ''hardship'',
     ''internship'', ''kingship'', ''kinship'', ''lordship'', ''partnership'', ''readership'',
     ''scholarship'', ''sponsorship'', ''trusteeship'', ''workmanship'']"

definition ABSTRACT_KEYWORDS :: "py_str list" where
  "ABSTRACT_KEYWORDS = [
     ''abundance'', ''amount'', ''capacity'', ''degree'', ''depth'', ''dimension'',
     ''distance'', ''extent'', ''height'', ''length'', ''level'', ''magnitude'',
     ''measure'', ''portion'', ''quantity'', ''ratio'', ''scale'', ''scope'',
     ''size'', ''total'', ''volume'', ''weight'', ''width'', ''condition'',
     ''situation'', ''state'', ''status'', ''circumstance'', ''position'', ''concept'',
     ''idea'', ''notion'', ''theory'', ''thought'', ''principle'', ''hypothesis'',
     ''philosophy'', ''ideology'', ''quality'', ''characteristic'', ''feature'', ''trait'',
     ''attribute'', ''property'', ''process'', ''procedure'', ''method'', ''system'',
     ''technique'', ''approach'', ''strategy'', ''law'', ''legislation'', ''regulation'',
     ''rule'', ''policy'', ''protocol'', ''statute'', ''analysis'', ''research'',
     ''study'', ''investigation'', ''examination'', ''evaluation'', ''assessment'']"

text \<open>The list literal inside \<open>is_abstract_noun\<close>: words that are concrete although
  they end in an abstract suffix.\<close>

definition SUFFIX_EXCEPTIONS :: "py_str list" where
  "SUFFIX_EXCEPTIONS = [
     ''station'', ''nation'', ''ration'', ''portion'', ''motion'', ''lotion'',
     ''potion'', ''cushion'', ''fashion'', ''mansion'', ''passion'', ''session'',
     ''mission'', ''television'', ''prison'', ''poison'', ''bison'', ''melon'',
     ''lemon'', ''demon'', ''summon'', ''common'', ''salmon'', ''cotton'',
     ''button'', ''mutton'', ''mitten'', ''kitten'', ''garden'', ''warden'',
     ''burden'', ''golden'', ''wooden'', ''sudden'']"

section \<open>The classifier\<close>

text \<open>The \<open>for suffix in ABSTRACT_SUFFIXES\<close> loop: a whitelisted word \<open>continue\<close>s
  to the next suffix, any other word that ends in the suffix returns \<open>True\<close>, and the
  loop that runs out falls through to \<open>return False\<close>.\<close>

fun suffix_scan :: "py_str \<Rightarrow> py_str list \<Rightarrow> bool" where
  "suffix_scan word_lower [] = False"
| "suffix_scan word_lower (suf # sufs) =
     (if py_endswith word_lower suf then
        (if word_lower \<in> set SUFFIX_EXCEPTIONS then suffix_scan word_lower sufs else True)
      else suffix_scan word_lower sufs)"

definition is_abstract_noun :: "py_str \<Rightarrow> bool" where
  "is_abstract_noun word =
     (let word_lower = py_lower word in
      if word_lower \<in> ABSTRACT_WORDS then True
      else if word_lower \<in> set ABSTRACT_KEYWORDS then True
      else if 7 < length word then suffix_scan word_lower ABSTRACT_SUFFIXES
      else False)"

definition is_profane :: "py_str \<Rightarrow> bool" where
  "is_profane word \<longleftrightarrow> py_lower word \<in> PROFANITY"

definition should_filter :: "py_str \<Rightarrow> bool" where
  "should_filter word =
     (if is_profane word then True
      else if is_abstract_noun word then True
      else False)"

text \<open>The partitioning loop of \<open>main\<close>: \<open>filtered_words\<close> and \<open>removed_words\<close>
  start empty and each word is appended to one of them.\<close>

fun filter_loop :: "py_str list \<Rightarrow> py_str list \<Rightarrow> py_str list \<Rightarrow> py_str list \<times> py_str list" where
  "filter_loop [] filtered_words removed_words = (filtered_words, removed_words)"
| "filter_loop (word # words) filtered_words removed_words =
     (if should_filter word then filter_loop words filtered_words (removed_words @ [word])
      else filter_loop words (filtered_words @ [word]) removed_words)"

definition filter_main :: "py_str list \<Rightarrow> py_str list \<times> py_str list" where
  "filter_main words = filter_loop words [] []"

section \<open>The specification's verdict\<close>

text \<open>The specification (section 4.4) describes the classifier by a verdict and four
  checks taken in order, first match wins; membership is case-insensitive, the suffix
  rule applies to words longer than seven characters and the whitelist overrides it.\<close>

datatype heuristic_verdict = Profane | Abstract | Keep

definition classify_heuristic :: "py_str \<Rightarrow> heuristic_verdict" where
  "classify_heuristic w =
     (let l = py_lower w in
      if l \<in> PROFANITY then Profane
      else if l \<in> ABSTRACT_WORDS \<or> l \<in> set ABSTRACT_KEYWORDS
        \<or> (7 < length l \<and> l \<notin> set SUFFIX_EXCEPTIONS \<and> list_ex (\<lambda>suf. suffix suf l) ABSTRACT_SUFFIXES)
      then Abstract else Keep)"

text \<open>A reference list for the suffix loop: \<open>ABSTRACT_SUFFIXES\<close> without the four
  entries that end in another entry (\<open>ity\<close> in \<open>ty\<close>, \<open>ery\<close> in \<open>ry\<close>,
  \<open>ization\<close> and \<open>isation\<close> in \<open>tion\<close>).\<close>

definition minimal_abstract_suffixes :: "py_str list" where
  "minimal_abstract_suffixes = [
     ''tion'', ''sion'', ''ment'', ''ness'', ''ty'', ''ance'', ''ence'', ''ship'',
     ''hood'', ''dom'', ''ism'', ''age'', ''ry'', ''cy'']"

section \<open>The suffix scan and the abstract-noun test\<close>

lemma suffix_scan_iff:
  "suffix_scan wl sufs \<longleftrightarrow>
     wl \<notin> set SUFFIX_EXCEPTIONS \<and> list_ex (\<lambda>suf. suffix suf wl) sufs"
  by (induction sufs) (auto simp: py_endswith_iff_suffix)

text \<open>The early returns of \<open>is_abstract_noun\<close> and its loop with \<open>continue\<close>
  amount to one disjunction.\<close>

lemma is_abstract_noun_iff:
  "is_abstract_noun w \<longleftrightarrow>
     py_lower w \<in> ABSTRACT_WORDS \<or> py_lower w \<in> set ABSTRACT_KEYWORDS \<or>
     (7 < length w \<and> py_lower w \<notin> set SUFFIX_EXCEPTIONS \<and>
      list_ex (\<lambda>suf. suffix suf (py_lower w)) ABSTRACT_SUFFIXES)"
  by (simp add: is_abstract_noun_def suffix_scan_iff Let_def)

lemma long_suffix_exception:
  "7 < length l \<Longrightarrow> l \<in> set SUFFIX_EXCEPTIONS \<longleftrightarrow> l = ''television''"
  by (auto simp: SUFFIX_EXCEPTIONS_def)

lemma suffix_redundant:
  "suffix ''ty'' ''ity''" "suffix ''ry'' ''ery''" "suffix ''tion'' ''ization''"
  "suffix ''tion'' ''isation''"
  by (simp_all add: suffix_to_prefix)

lemmas heuristic_sets_defs = PROFANITY_def ABSTRACT_WORDS_def ABSTRACT_KEYWORDS_def
  ABSTRACT_SUFFIXES_def SUFFIX_EXCEPTIONS_def

lemmas heuristic_eval = should_filter_def is_profane_def is_abstract_noun_def
  heuristic_sets_defs py_str_simps

lemma filter_loop_eq:
  "filter_loop ws kept removed =
     (kept @ filter (\<lambda>w. \<not> should_filter w) ws, removed @ filter should_filter ws)"
  by (induction ws arbitrary: kept removed) auto

section \<open>Properties\<close>

text \<open>Claim C2 (refinement). The boolean \<open>should_filter\<close> of the code implements the
  specification's verdict: a word is filtered exactly when the verdict is not Keep,
  and it is reported profane exactly when the profanity check, which runs first,
  matches it; so a word in both the profanity and an abstract set is Profane.\<close>

theorem should_filter_refines:
  "(should_filter w \<longleftrightarrow> classify_heuristic w \<noteq> Keep) \<and>
   (is_profane w \<longleftrightarrow> classify_heuristic w = Profane)"
  by (simp add: should_filter_def classify_heuristic_def is_profane_def
      is_abstract_noun_iff Let_def)

text \<open>Claim C10 (functional). The whitelist is consulted only for words longer than
  seven characters, and \<open>television\<close> is its only entry of that length: every other
  entry (\<open>station\<close>, \<open>fashion\<close>, \<open>garden\<close>, ...) is dead, and \<open>is_abstract_noun\<close>
  is the same test with the whitelist replaced by that one word.\<close>

theorem whitelist_only_television:
  "is_abstract_noun w \<longleftrightarrow>
     py_lower w \<in> ABSTRACT_WORDS \<or> py_lower w \<in> set ABSTRACT_KEYWORDS \<or>
     (7 < length w \<and> py_lower w \<noteq> ''television'' \<and>
      list_ex (\<lambda>suf. suffix suf (py_lower w)) ABSTRACT_SUFFIXES)"
  using long_suffix_exception [of "py_lower w"] by (auto simp: is_abstract_noun_iff)

text \<open>Claim C15 (functional). The classifier is case-insensitive: two spellings with
  the same lower-case form are filtered alike (the membership tests read the
  lower-cased word and the length test reads a word of the same length).\<close>

theorem should_filter_case_insensitive:
  "py_lower v = py_lower w \<Longrightarrow> should_filter v = should_filter w"
proof -
  assume eq: "py_lower v = py_lower w"
  then have "length v = length w" by (metis length_py_lower)
  with eq show ?thesis
    by (simp add: should_filter_def is_profane_def is_abstract_noun_def)
qed

theorem should_filter_case_insensitive_witness:
  "py_lower ''Station'' = py_lower ''STATION'' \<and>
   should_filter ''Station'' = should_filter ''STATION''"
proof -
  have eq: "py_lower ''Station'' = py_lower ''STATION''" by (simp add: py_str_simps)
  show ?thesis using eq should_filter_case_insensitive [OF eq] by simp
qed

text \<open>Claim C6 (invariant). The loop of \<open>main\<close> partitions the word list: the kept
  and the removed words together are the input as a multiset, each list keeps the
  input's order, no kept word is filtered and every removed word is.\<close>

theorem filter_main_partition:
  "filter_main ws = (kept, removed) \<Longrightarrow>
     mset kept + mset removed = mset ws \<and> subseq kept ws \<and> subseq removed ws \<and>
     list_all (\<lambda>w. \<not> should_filter w) kept \<and> list_all should_filter removed"
  by (auto simp: filter_main_def filter_loop_eq list_all_iff)

theorem filter_main_partition_witness:
  "filter_main [''elephant'', ''ability''] = ([''elephant''], [''ability'']) \<and>
   mset [''elephant''] + mset [''ability''] = mset [''elephant'', ''ability'']"
proof -
  have run: "filter_main [''elephant'', ''ability''] = ([''elephant''], [''ability''])"
    by (simp add: filter_main_def heuristic_eval)
  show ?thesis using run filter_main_partition [OF run] by simp
qed

text \<open>The scenarios of the specification: \<open>elephant\<close> is kept,
  \<open>ability\<close> is abstract, \<open>fucking\<close> is profane, \<open>application\<close> is abstract and
  \<open>station\<close> is kept (because, at seven characters, the suffix rule never looks at
  it; not because of the whitelist).\<close>

lemma heuristic_scenarios:
  "\<not> should_filter ''elephant'' \<and> classify_heuristic ''ability'' = Abstract \<and>
   classify_heuristic ''fucking'' = Profane \<and> classify_heuristic ''application'' = Abstract \<and>
   \<not> should_filter ''station'' \<and> \<not> 7 < length ''station''"
  by (simp add: heuristic_eval classify_heuristic_def Let_def suffix_to_prefix)

text \<open>The whitelist does not override the direct checks:
  \<open>portion\<close> (an abstract keyword) and \<open>burden\<close> (an abstract word) are whitelisted
  and still filtered, against the specification's suffix-exception property.\<close>

lemma whitelisted_yet_filtered:
  "''portion'' \<in> set SUFFIX_EXCEPTIONS \<and> should_filter ''portion'' \<and>
   ''burden'' \<in> set SUFFIX_EXCEPTIONS \<and> should_filter ''burden''"
  by (simp add: heuristic_eval)

text \<open>The suffix rule and the curated sets remove concrete,
  depictable nouns: \<open>strawberry\<close> (suffix \<open>ry\<close>), \<open>carriage\<close> (suffix \<open>age\<close>) and
  the animal \<open>badger\<close> (listed among people and occupations).\<close>

lemma concrete_nouns_filtered:
  "should_filter ''strawberry'' \<and> should_filter ''carriage'' \<and> should_filter ''badger''"
  by (simp add: heuristic_eval)

text \<open>Claim C32 (equivalence). Four of the eighteen suffixes are dead: the loop
  over \<open>ABSTRACT_SUFFIXES\<close> gives the same answer on every word as the loop over
  the fourteen others, and none of those fourteen can go: for each, a word ending
  in it is caught by the list and missed without it.\<close>

theorem abstract_suffixes_minimal:
  "suffix_scan w ABSTRACT_SUFFIXES = suffix_scan w minimal_abstract_suffixes \<and>
   list_all (\<lambda>suf. suffix_scan (''x'' @ suf) minimal_abstract_suffixes \<and>
                   \<not> suffix_scan (''x'' @ suf) (remove1 suf minimal_abstract_suffixes))
     minimal_abstract_suffixes"
proof
  show "suffix_scan w ABSTRACT_SUFFIXES = suffix_scan w minimal_abstract_suffixes"
    using suffix_redundant
    by (auto simp: suffix_scan_iff ABSTRACT_SUFFIXES_def minimal_abstract_suffixes_def
        dest: suffix_order.trans)
  show "list_all (\<lambda>suf. suffix_scan (''x'' @ suf) minimal_abstract_suffixes \<and>
                   \<not> suffix_scan (''x'' @ suf) (remove1 suf minimal_abstract_suffixes))
     minimal_abstract_suffixes"
    by (simp add: minimal_abstract_suffixes_def SUFFIX_EXCEPTIONS_def py_endswith_def)
qed

end
