(* ===== verification/WordsFile.thy ===== *)
theory WordsFile
  imports Prelude
begin

text \<open>
  The file that connects the two scripts. \<^verbatim>\<open>generate_nouns.main\<close> writes
  \<^verbatim>\<open>words.js\<close> as \<open>const WORD_LIST = \<close> followed by \<open>json.dumps(nouns, indent=2)\<close>,
  \<open>;\<close>, and a \<open>WORD_SET\<close> line (\<open>generate_js\<close>); \<^verbatim>\<open>filter_words\<close>'s
  \<open>load_words_from_js\<close> finds \<open>const WORD_LIST = (\[.*?\]);\<close> with \<open>re.DOTALL\<close>
  (\<open>re_search_word_list\<close>: the leftmost start at which the literal prefix occurs
  and some \<open>];\<close> follows, the shortest group) and parses the group with
  \<open>json.loads\<close> (\<open>json_loads_str_list\<close>), returning \<open>[]\<close> when nothing matches.
  The JSON side is \<open>json.dumps\<close> with \<open>indent=2\<close> and \<open>ensure_ascii\<close> of a
  list of strings, with its string escapes (\<open>json_escape\<close>), and \<open>json.loads\<close>
  of an array of strings, with its unescaping; a non-string element or any other
  malformed text is a \<open>JSONDecodeError\<close> of the model. Writing and reading the
  file back are taken to return the same text. The round trip holds for every list
  of words without \<open>];\<close> (\<open>json_safe_word\<close>), whatever characters they hold;
  a \<open>];\<close> inside a word breaks it.
\<close>

section \<open>JSON of a list of strings\<close>

definition json_ws :: "char \<Rightarrow> bool" where
  "json_ws c \<longleftrightarrow> c = CHR '' '' \<or> c = CHR 0x09 \<or> c = CHR 0x0A \<or> c = CHR 0x0D"

text \<open>\<open>json.dumps\<close> of one character, with \<open>ensure_ascii\<close>: the quote and the
  backslash are escaped by a backslash, the five control characters with a short
  escape by it, every other character outside space..tilde (control characters,
  DEL and non-ASCII) as \<open>\u00XX\<close> with lower-case hex digits, and printable ASCII
  is written as itself.\<close>

definition py_hex_digit :: "nat \<Rightarrow> char" where
  "py_hex_digit d = ''0123456789abcdef'' ! d"

definition json_escape :: "char \<Rightarrow> py_str" where
  "json_escape c =
     (if c = CHR 0x22 then [CHR 0x5C, CHR 0x22]
      else if c = CHR 0x5C then [CHR 0x5C, CHR 0x5C]
      else if c = CHR 0x08 then [CHR 0x5C, CHR ''b'']
      else if c = CHR 0x0C then [CHR 0x5C, CHR ''f'']
      else if c = CHR 0x0A then [CHR 0x5C, CHR ''n'']
      else if c = CHR 0x0D then [CHR 0x5C, CHR ''r'']
      else if c = CHR 0x09 then [CHR 0x5C, CHR ''t'']
      else if (32::nat) \<le> of_char c \<and> of_char c \<le> (126::nat) then [c]
      else [CHR 0x5C, CHR ''u'', CHR ''0'', CHR ''0'',
            py_hex_digit (of_char c div 16), py_hex_digit (of_char c mod 16)])"

text \<open>\<open>json.dumps\<close> of a string: its escaped characters in double quotes.\<close>

definition json_quote :: "py_str \<Rightarrow> py_str" where
  "json_quote w = CHR 0x22 # concat (map json_escape w) @ [CHR 0x22]"

text \<open>\<open>json.dumps(ws, indent=2)\<close>: \<open>[]\<close> for the empty list, otherwise the items on
  lines of their own, indented by two spaces and separated by commas.\<close>

definition json_dumps_indent2 :: "py_str list \<Rightarrow> py_str" where
  "json_dumps_indent2 ws =
     (if ws = [] then ''[]''
      else ''['' @ ''\<newline>  '' @ py_join '',\<newline>  '' (map json_quote ws) @ ''\<newline>]'')"

fun skip_ws :: "py_str \<Rightarrow> py_str" where
  "skip_ws [] = []"
| "skip_ws (c # cs) = (if json_ws c then skip_ws cs else c # cs)"

text \<open>The escapes \<open>json.loads\<close> reads in a string: the short ones, and \<open>\uXXXX\<close>
  with four hex digits of either case. Characters are code points below 256 in
  this model, so a \<open>\u\<close> escape above \<open>\u00ff\<close> is outside it (\<open>None\<close>).\<close>

definition json_hex_value :: "char \<Rightarrow> nat option" where
  "json_hex_value c =
     (let n = of_char c in
      if 48 \<le> n \<and> n \<le> 57 then Some (n - 48)
      else if 97 \<le> n \<and> n \<le> 102 then Some (n - 87)
      else if 65 \<le> n \<and> n \<le> 70 then Some (n - 55)
      else None)"

fun json_hex4 :: "py_str \<Rightarrow> nat option" where
  "json_hex4 (a # b # c # d # rest) =
     (case (json_hex_value a, json_hex_value b, json_hex_value c, json_hex_value d) of
        (Some w, Some x, Some y, Some z) \<Rightarrow> Some (((w * 16 + x) * 16 + y) * 16 + z)
      | _ \<Rightarrow> None)"
| "json_hex4 _ = None"

definition json_short_escape :: "char \<Rightarrow> char option" where
  "json_short_escape e =
     (if e = CHR 0x22 then Some (CHR 0x22)
      else if e = CHR 0x5C then Some (CHR 0x5C)
      else if e = CHR ''/'' then Some (CHR ''/'')
      else if e = CHR ''b'' then Some (CHR 0x08)
      else if e = CHR ''f'' then Some (CHR 0x0C)
      else if e = CHR ''n'' then Some (CHR 0x0A)
      else if e = CHR ''r'' then Some (CHR 0x0D)
      else if e = CHR ''t'' then Some (CHR 0x09)
      else None)"

text \<open>The characters of a string after its opening quote, up to the closing quote:
  \<open>json.loads\<close> in its default strict mode rejects raw control characters and
  unknown escapes.\<close>

function json_string_body :: "py_str \<Rightarrow> (py_str \<times> py_str) option" where
  "json_string_body [] = None"
| "json_string_body (c # cs) =
     (if c = CHR 0x22 then Some ([], cs)
      else if c = CHR 0x5C then
        (case cs of
           [] \<Rightarrow> None
         | e # cs' \<Rightarrow>
             if e = CHR ''u'' then
               (case json_hex4 cs' of
                  None \<Rightarrow> None
                | Some n \<Rightarrow>
                    if n < 256
                    then map_option (\<lambda>(w, rest). (char_of n # w, rest)) (json_string_body (drop 4 cs'))
                    else None)
             else
               (case json_short_escape e of
                  None \<Rightarrow> None
                | Some d \<Rightarrow> map_option (\<lambda>(w, rest). (d # w, rest)) (json_string_body cs')))
      else if of_char c < (32::nat) then None
      else map_option (\<lambda>(w, rest). (c # w, rest)) (json_string_body cs))"
  by pat_completeness auto
termination by (relation "measure length") auto

text \<open>The items of a non-empty array after its \<open>[\<close>: a string, then either a comma
  and the next item or the closing bracket.\<close>

function json_items :: "py_str \<Rightarrow> (py_str list \<times> py_str) option" where
  "json_items s =
     (let s1 = skip_ws s in
      if s1 \<noteq> [] \<and> hd s1 = CHR 0x22 then
        (case json_string_body (tl s1) of
           None \<Rightarrow> None
         | Some (w, r) \<Rightarrow>
             (let r1 = skip_ws r in
              if r1 \<noteq> [] \<and> hd r1 = CHR '','' then
                map_option (\<lambda>(ws, rest). (w # ws, rest)) (json_items (tl r1))
              else if r1 \<noteq> [] \<and> hd r1 = CHR '']'' then Some ([w], tl r1)
              else None))
      else None)"
  by pat_completeness auto
termination
proof (relation "measure length", goal_cases)
  case 1
  show ?case by simp
next
  case (2 s x x2 w r r1)
  have skip: "length (skip_ws u) \<le> length u" for u by (induction u) auto
  have body: "json_string_body u = Some (v, t) \<Longrightarrow> length t < length u" for u v t
    by (induction u arbitrary: v rule: json_string_body.induct)
      (fastforce split: if_splits option.splits list.splits)+
  from 2 have "json_string_body (tl (skip_ws s)) = Some (w, r)" by simp
  then have "length r < length (tl (skip_ws s))" by (rule body)
  moreover from 2 have "length (tl (skip_ws s)) < length s"
    using skip [of s] by (cases "skip_ws s") auto
  moreover from 2 have "length (tl r1) \<le> length r" using skip [of r] by simp
  ultimately show ?case by simp
qed

declare json_items.simps [simp del]

text \<open>\<open>json.loads\<close> of an array of strings, with surrounding whitespace.\<close>

definition json_loads_str_list :: "py_str \<Rightarrow> py_error + py_str list" where
  "json_loads_str_list s =
     (let s1 = skip_ws s in
      if s1 \<noteq> [] \<and> hd s1 = CHR ''['' then
        (let s2 = skip_ws (tl s1) in
         if s2 \<noteq> [] \<and> hd s2 = CHR '']'' then
           (if skip_ws (tl s2) = [] then Inr [] else Inl JSONDecodeError)
         else
           (case json_items (tl s1) of
              None \<Rightarrow> Inl JSONDecodeError
            | Some (ws, rest) \<Rightarrow> if skip_ws rest = [] then Inr ws else Inl JSONDecodeError))
      else Inl JSONDecodeError)"

section \<open>The two sides of the file\<close>

definition generate_js :: "py_str list \<Rightarrow> py_str" where
  "generate_js nouns =
     ''const WORD_LIST = '' @ json_dumps_indent2 nouns @ '';\<newline>'' @
     ''const WORD_SET = new Set(WORD_LIST);\<newline>''"

definition word_list_prefix :: py_str where
  "word_list_prefix = ''const WORD_LIST = [''"

text \<open>The shortest text before the first \<open>];\<close>.\<close>

fun find_close :: "py_str \<Rightarrow> py_str option" where
  "find_close [] = None"
| "find_close (c # cs) =
     (if c = CHR '']'' \<and> cs \<noteq> [] \<and> hd cs = CHR '';'' then Some []
      else map_option (Cons c) (find_close cs))"

fun re_search_word_list :: "py_str \<Rightarrow> py_str option" where
  "re_search_word_list [] = None"
| "re_search_word_list (c # cs) =
     (if prefix word_list_prefix (c # cs) then
        (case find_close (drop (length word_list_prefix) (c # cs)) of
           Some mid \<Rightarrow> Some (''['' @ mid @ '']'')
         | None \<Rightarrow> re_search_word_list cs)
      else re_search_word_list cs)"

definition load_words_from_js :: "py_str \<Rightarrow> py_error + py_str list" where
  "load_words_from_js content =
     (case re_search_word_list content of
        Some words_json \<Rightarrow> json_loads_str_list words_json
      | None \<Rightarrow> Inr [])"

text \<open>The words the file carries: the pattern of \<open>load_words_from_js\<close> ends at the
  first \<open>];\<close>, so no word may contain one (the escapes of \<open>json.dumps\<close> never
  produce one).\<close>

definition json_safe_word :: "py_str \<Rightarrow> bool" where
  "json_safe_word w \<longleftrightarrow> \<not> py_contains ''];'' w"

section \<open>Writing then reading the list\<close>

lemma alpha_json_safe: "list_all py_isalpha_char w \<Longrightarrow> json_safe_word w"
proof -
  assume alpha: "list_all py_isalpha_char w"
  show ?thesis unfolding json_safe_word_def
  proof
    assume "py_contains ''];'' w"
    then have "set ''];'' \<subseteq> set w" by (auto simp: py_contains_iff_sublist dest: set_mono_sublist)
    with alpha show False
      by (auto simp: list_all_iff py_isalpha_char_def py_isupper_char_def py_islower_char_def)
  qed
qed

lemma py_contains_pair_append:
  "py_contains [x, y] (a @ b) \<longleftrightarrow>
     py_contains [x, y] a \<or> py_contains [x, y] b \<or> (a \<noteq> [] \<and> b \<noteq> [] \<and> last a = x \<and> hd b = y)"
proof (induction a)
  case Nil
  then show ?case by simp
next
  case (Cons c cs)
  then show ?case by (cases cs; cases b) auto
qed

lemma json_hex_value_digit:
  "d < 16 \<Longrightarrow> json_hex_value (py_hex_digit d) = Some d"
  by (auto simp: less_Suc_eq numeral_eq_Suc py_hex_digit_def json_hex_value_def)

lemma json_string_body_escape:
  "json_string_body (json_escape c @ rest) =
     map_option (\<lambda>(w, r). (c # w, r)) (json_string_body rest)"
proof -
  have hi: "json_hex_value (py_hex_digit (of_char c div 16)) = Some (of_char c div 16)"
    using nat_of_char_less_256 [of c] by (intro json_hex_value_digit) linarith
  have lo: "json_hex_value (py_hex_digit (of_char c mod 16)) = Some (of_char c mod 16)"
    by (simp add: json_hex_value_digit)
  have zero: "json_hex_value (CHR ''0'') = Some 0" by (simp add: json_hex_value_def)
  have n: "of_char c div 16 * 16 + of_char c mod 16 = (of_char c :: nat)" by simp
  show ?thesis
    unfolding json_escape_def by (auto simp: hi lo zero n json_short_escape_def)
qed

lemma json_string_body_quoted:
  "json_string_body (concat (map json_escape w) @ CHR 0x22 # r) = Some (w, r)"
  by (induction w) (simp_all add: json_string_body_escape)

lemma skip_ws_indent [simp]: "skip_ws (''\<newline>  '' @ s) = skip_ws s"
  by (simp add: json_ws_def)

lemma json_items_join:
  "json_items (''\<newline>  '' @ py_join '',\<newline>  '' (map json_quote (w # ws)) @ ''\<newline>]'' @ rest) =
     Some (w # ws, rest)"
proof (induction ws arbitrary: w)
  case Nil
  have "json_string_body (concat (map json_escape w) @ CHR 0x22 # ''\<newline>]'' @ rest) =
      Some (w, ''\<newline>]'' @ rest)"
    by (rule json_string_body_quoted)
  then show ?case
    by (subst json_items.simps) (simp add: json_quote_def json_ws_def)
next
  case (Cons w2 ws)
  define X where "X = py_join '',\<newline>  '' (map json_quote (w2 # ws)) @ ''\<newline>]'' @ rest"
  have S: "''\<newline>  '' @ py_join '',\<newline>  '' (map json_quote (w # w2 # ws)) @ ''\<newline>]'' @ rest =
      ''\<newline>  '' @ CHR 0x22 # concat (map json_escape w) @ CHR 0x22 # '',\<newline>  '' @ X"
    by (simp add: X_def json_quote_def)
  have body: "json_string_body (concat (map json_escape w) @ CHR 0x22 # '',\<newline>  '' @ X) =
      Some (w, '',\<newline>  '' @ X)"
    by (rule json_string_body_quoted)
  have IH: "json_items (''\<newline>  '' @ X) = Some (w2 # ws, rest)"
    using Cons.IH [of w2] by (simp add: X_def)
  show ?case
    unfolding S using body IH by (subst json_items.simps) (simp add: json_ws_def)
qed

lemma json_join_starts_quote:
  "\<exists>t. py_join '',\<newline>  '' (map json_quote (w # ws)) = CHR 0x22 # t"
  by (cases ws) (simp_all add: json_quote_def)

lemma json_loads_dumps:
  "json_loads_str_list (json_dumps_indent2 ws) = Inr ws"
proof (cases ws)
  case Nil
  then show ?thesis by (simp add: json_loads_str_list_def json_dumps_indent2_def json_ws_def)
next
  case (Cons w ws')
  obtain t where J: "py_join '',\<newline>  '' (map json_quote (w # ws')) = CHR 0x22 # t"
    using json_join_starts_quote by blast
  from J have J2: "py_join '',\<newline>  '' (json_quote w # map json_quote ws') = CHR 0x22 # t"
    by simp
  have items: "json_items (''\<newline>  '' @ (CHR 0x22 # t) @ ''\<newline>]'') = Some (ws, [])"
    using json_items_join [of w ws' "[]", unfolded J] Cons by simp
  show ?thesis
    using items by (simp add: Cons J2 json_loads_str_list_def json_dumps_indent2_def json_ws_def Let_def)
qed

text \<open>No \<open>];\<close> in the dumped text of safe words: a quoted word ends in a quote, and
  neither a quote nor a separator starts with \<open>;\<close>.\<close>

lemma py_hex_digit_set: "d < 16 \<Longrightarrow> py_hex_digit d \<in> set ''0123456789abcdef''"
  unfolding py_hex_digit_def by (rule nth_mem) simp

lemma py_hex_digit_not_close:
  "d < 16 \<Longrightarrow> py_hex_digit d \<noteq> CHR '']'' \<and> py_hex_digit d \<noteq> CHR '';''"
  using py_hex_digit_set [of d] by auto

lemma json_escape_shape:
  "json_escape c \<noteq> [] \<and> \<not> py_contains ''];'' (json_escape c) \<and>
   (last (json_escape c) = CHR '']'' \<longrightarrow> c = CHR '']'') \<and>
   (hd (json_escape c) = CHR '';'' \<longrightarrow> c = CHR '';'')"
proof -
  have "of_char c div 16 < (16::nat)" using nat_of_char_less_256 [of c] by linarith
  then have hi: "py_hex_digit (of_char c div 16) \<noteq> CHR '']''"
    by (simp add: py_hex_digit_not_close)
  have lo: "py_hex_digit (of_char c mod 16) \<noteq> CHR '']''"
    by (simp add: py_hex_digit_not_close)
  show ?thesis using hi lo by (simp add: json_escape_def)
qed

lemma json_escaped_no_close:
  "json_safe_word w \<Longrightarrow> \<not> py_contains ''];'' (concat (map json_escape w))"
proof (induction w)
  case Nil
  then show ?case by simp
next
  case (Cons c cs)
  have cs: "json_safe_word cs" using Cons.prems by (simp add: json_safe_word_def)
  have cross: "\<not> (concat (map json_escape cs) \<noteq> [] \<and> last (json_escape c) = CHR '']'' \<and>
      hd (concat (map json_escape cs)) = CHR '';'')"
  proof
    assume a: "concat (map json_escape cs) \<noteq> [] \<and> last (json_escape c) = CHR '']'' \<and>
      hd (concat (map json_escape cs)) = CHR '';''"
    then obtain d ds where ds: "cs = d # ds" by (cases cs) auto
    with a json_escape_shape [of d] have "d = CHR '';''" by auto
    moreover from a json_escape_shape [of c] have "c = CHR '']''" by auto
    ultimately show False using Cons.prems ds by (simp add: json_safe_word_def)
  qed
  show ?case
    using Cons.IH [OF cs] cross json_escape_shape [of c]
    by (simp only: concat.simps list.map py_contains_pair_append) simp
qed

lemma json_quote_no_close:
  "json_safe_word w \<Longrightarrow> \<not> py_contains ''];'' r \<Longrightarrow> \<not> py_contains ''];'' (json_quote w @ r)"
proof -
  assume w: "json_safe_word w" and r: "\<not> py_contains ''];'' r"
  have "json_quote w @ r = [CHR 0x22] @ (concat (map json_escape w) @ (CHR 0x22 # r))"
    by (simp add: json_quote_def)
  moreover have "\<not> py_contains ''];'' (CHR 0x22 # r)" using r by simp
  ultimately show ?thesis
    using json_escaped_no_close [OF w] by (simp only: py_contains_pair_append) auto
qed

lemma json_join_no_close:
  "list_all json_safe_word ws \<Longrightarrow> \<not> py_contains ''];'' (py_join '',\<newline>  '' (map json_quote ws))"
proof (induction ws rule: induct_list012)
  case 1
  then show ?case by simp
next
  case (2 x)
  then show ?case using json_quote_no_close [of x "[]"] by simp
next
  case (3 x y zs)
  let ?rest = "py_join '',\<newline>  '' (map json_quote (y # zs))"
  have "\<not> py_contains ''];'' ('',\<newline>  '' @ ?rest)"
    using 3 by (simp only: py_contains_pair_append) simp
  with 3 show ?case using json_quote_no_close [of x "'',\<newline>  '' @ ?rest"] by simp
qed

lemma py_join_last:
  "xs \<noteq> [] \<Longrightarrow> last xs \<noteq> [] \<Longrightarrow> py_join sep xs \<noteq> [] \<and> last (py_join sep xs) = last (last xs)"
  by (induction sep xs rule: py_join.induct) auto

lemma json_join_last:
  "ws \<noteq> [] \<Longrightarrow>
   py_join '',\<newline>  '' (map json_quote ws) \<noteq> [] \<and> last (py_join '',\<newline>  '' (map json_quote ws)) = CHR 0x22"
  using py_join_last [of "map json_quote ws" "'',\<newline>  ''"] by (simp add: last_map json_quote_def)

lemma json_dumps_shape:
  assumes safe: "list_all json_safe_word ws"
  shows "\<exists>m. json_dumps_indent2 ws = ''['' @ m @ '']'' \<and> \<not> py_contains ''];'' m"
proof (cases "ws = []")
  case True
  then show ?thesis by (simp add: json_dumps_indent2_def)
next
  case False
  let ?J = "py_join '',\<newline>  '' (map json_quote ws)"
  have J: "\<not> py_contains ''];'' ?J" using safe by (rule json_join_no_close)
  have "\<not> py_contains ''];'' (''\<newline>  '' @ ?J @ ''\<newline>'')"
    using J json_join_last [OF False] by (simp only: py_contains_pair_append) simp
  moreover have "json_dumps_indent2 ws = ''['' @ (''\<newline>  '' @ ?J @ ''\<newline>'') @ '']''"
    using False by (simp add: json_dumps_indent2_def)
  ultimately show ?thesis by blast
qed

lemma find_close_no_close:
  "\<not> py_contains ''];'' m \<Longrightarrow> find_close (m @ CHR '']'' # CHR '';'' # r) = Some m"
proof (induction m)
  case Nil
  then show ?case by simp
next
  case (Cons c cs)
  have "\<not> py_contains ''];'' cs" using Cons.prems by simp
  moreover have "\<not> (c = CHR '']'' \<and> cs \<noteq> [] \<and> hd cs = CHR '';'')"
    using Cons.prems by (cases cs) auto
  ultimately show ?case using Cons.IH by (cases cs) auto
qed

lemma re_search_at_prefix:
  assumes "find_close r = Some mid"
  shows "re_search_word_list (word_list_prefix @ r) = Some (''['' @ mid @ '']'')"
proof (cases "word_list_prefix @ r")
  case Nil
  then show ?thesis by (simp add: word_list_prefix_def)
next
  case (Cons c cs)
  have "prefix word_list_prefix (c # cs)" using Cons by (metis prefixI)
  moreover have "drop (length word_list_prefix) (c # cs) = r"
    using Cons by (metis append_eq_conv_conj)
  ultimately show ?thesis using Cons assms by simp
qed

lemma re_search_generate_js:
  assumes safe: "list_all json_safe_word ws"
  shows "re_search_word_list (generate_js ws) = Some (json_dumps_indent2 ws)"
proof -
  obtain m where m: "json_dumps_indent2 ws = ''['' @ m @ '']''" and nc: "\<not> py_contains ''];'' m"
    using json_dumps_shape [OF safe] by blast
  have "generate_js ws =
      word_list_prefix @ m @ CHR '']'' # CHR '';'' # ''\<newline>const WORD_SET = new Set(WORD_LIST);\<newline>''"
    by (simp add: generate_js_def word_list_prefix_def m)
  with find_close_no_close [OF nc] m show ?thesis by (simp add: re_search_at_prefix)
qed

lemma load_generate_js:
  "list_all json_safe_word ws \<Longrightarrow> load_words_from_js (generate_js ws) = Inr ws"
  by (simp add: load_words_from_js_def re_search_generate_js json_loads_dumps)

text \<open>A word containing \<open>];\<close> breaks the file: the pattern stops inside it, and
  \<open>json.loads\<close> of the truncated array raises.\<close>

lemma load_generate_js_close_in_word:
  "py_contains ''];'' ''a];b'' \<and> load_words_from_js (generate_js [''a];b'']) = Inl JSONDecodeError"
proof -
  have "re_search_word_list (generate_js [''a];b'']) = Some (''[\<newline>  '' @ [CHR 0x22] @ ''a]'')"
    by (simp add: generate_js_def json_dumps_indent2_def json_quote_def json_escape_def
        word_list_prefix_def)
  moreover have "json_items (''\<newline>  '' @ [CHR 0x22] @ ''a]'') = None"
    by (subst json_items.simps) (simp add: json_ws_def)
  ultimately show ?thesis
    by (simp add: load_words_from_js_def json_loads_str_list_def json_ws_def)
qed

section \<open>Properties\<close>

text \<open>Claim C20 (roundtrip). For any list of words that \<open>json.dumps\<close> writes
  unescaped and that contain no \<open>];\<close> (every alphabetic list among them), the
  regular expression of \<open>load_words_from_js\<close> finds in the text that
  \<open>generate_nouns.main\<close> writes exactly the JSON array it wrote, and
  \<open>json.loads\<close> of that array gives back the list, in order.\<close>

theorem words_js_roundtrip:
  "list_all json_safe_word ws \<Longrightarrow>
   re_search_word_list (generate_js ws) = Some (json_dumps_indent2 ws) \<and>
   load_words_from_js (generate_js ws) = Inr ws"
  by (simp add: re_search_generate_js load_generate_js)

theorem words_js_roundtrip_witness:
  "list_all json_safe_word [''aeroplane'', ''air-plane'', ''plane[s]''] \<and>
   load_words_from_js (generate_js [''aeroplane'', ''air-plane'', ''plane[s]'']) =
     Inr [''aeroplane'', ''air-plane'', ''plane[s]'']"
proof -
  have safe: "list_all json_safe_word [''aeroplane'', ''air-plane'', ''plane[s]'']"
    by (simp add: json_safe_word_def)
  show ?thesis using safe words_js_roundtrip [OF safe] by simp
qed

end
