(* ===== verification/Mains.thy ===== *)
theory Mains
  imports Heuristic Generate WordsFile
begin

text \<open>
  The two scripts' \<open>main\<close> functions as transformations of the process state
  (\<open>os_state\<close>: the files of the working directory and the printed lines).
  \<open>generate_main\<close> is \<open>generate_nouns.main\<close>: it prints the progress of
  \<open>get_concrete_nouns\<close> (\<open>get_concrete_nouns_prints\<close>, with the message every 500
  words of its second loop as \<open>progress_loop\<close>), writes \<^verbatim>\<open>words.js\<close>
  (\<open>generate_js\<close>) and \<^verbatim>\<open>nouns_list.txt\<close>. \<open>filter_words_main\<close> is
  \<open>filter_words.main\<close>: it reads \<^verbatim>\<open>words.js\<close> with \<open>load_words_from_js\<close>,
  partitions the list with \<open>should_filter\<close>, and writes \<^verbatim>\<open>filtered_words.json\<close>,
  \<^verbatim>\<open>removed_words.json\<close> and \<^verbatim>\<open>words_new.js\<close> (\<open>filter_words_js\<close>, the
  f-string of the source transcribed literally). An exception (a missing
  \<^verbatim>\<open>words.js\<close>, a \<open>JSONDecodeError\<close>) ends the script: the result is \<open>Inl\<close>
  the error, and the lines printed before it are not kept.
\<close>

section \<open>The progress messages of \<open>get_concrete_nouns\<close>\<close>

text \<open>\<open>for i, word in enumerate(sorted(all_nouns)): if (i + 1) % 500 == 0: print(...)\<close>\<close>

fun progress_loop :: "nat \<Rightarrow> nat \<Rightarrow> py_str list \<Rightarrow> py_str list" where
  "progress_loop n_nouns i [] = []"
| "progress_loop n_nouns i (word # words) =
     (if (i + 1) mod 500 = 0
      then [''Processed '' @ py_str_nat (i + 1) @ ''/'' @ py_str_nat n_nouns @ '' words...'']
      else []) @ progress_loop n_nouns (i + 1) words"

definition get_concrete_nouns_prints :: "wordnet \<Rightarrow> nat \<Rightarrow> nat \<Rightarrow> py_str list" where
  "get_concrete_nouns_prints wn min_length max_length =
     (case collect_nouns wn min_length max_length (all_synsets wn) {} of
        Inl e \<Rightarrow> []
      | Inr all_nouns \<Rightarrow>
          [''Found '' @ py_str_nat (card all_nouns) @ '' valid nouns'',
           ''Filtering for concrete nouns (this may take a minute)...''] @
          progress_loop (card all_nouns) 0 (sorted_list_of_set all_nouns))"

section \<open>\<open>generate_nouns.main\<close>\<close>

definition generate_main :: "wordnet \<Rightarrow> os_state \<Rightarrow> py_error + os_state" where
  "generate_main wn st =
     (case get_concrete_nouns wn 2 10 of
        Inl e \<Rightarrow> Inl e
      | Inr nouns \<Rightarrow> Inr (exec_state (do {
          py_print ''Generating concrete noun list...'';
          traverse_list py_print (get_concrete_nouns_prints wn 2 10);
          py_print (''\<newline>Found '' @ py_str_nat (length nouns) @ '' concrete nouns'');
          py_print ''\<newline>Sample nouns:'';
          py_print (py_join '', '' (take 20 nouns));
          write_file ''words.js'' (generate_js nouns);
          py_print (''\<newline>Saved '' @ py_str_nat (length nouns) @ '' words to words.js'');
          write_file ''nouns_list.txt'' (py_join ''\<newline>'' nouns);
          py_print ''Saved word list to nouns_list.txt for review''
        }) st))"

section \<open>\<open>filter_words.main\<close>\<close>

text \<open>The text of \<^verbatim>\<open>words_new.js\<close>: the f-string of the source, with
  \<open>{{\<close> and \<open>}}\<close> rendered as single braces.\<close>

definition filter_words_js :: "py_str list \<Rightarrow> py_str list \<Rightarrow> py_str" where
  "filter_words_js words filtered_words =
     ''// Comprehensive list of English nouns\<newline>// Source: The Great Noun List (desiquintans.com/nounlist)\<newline>\<newline>// Filtered list (concrete nouns only, ~'' @
     py_str_nat (length filtered_words) @
     '' words)\<newline>const WORD_LIST = '' @
     json_dumps_indent2 filtered_words @
     '';\<newline>\<newline>// Original expanded list (~'' @
     py_str_nat (length words) @
     '' words)\<newline>const WORD_LIST_EXPANDED = '' @
     json_dumps_indent2 words @
     '';\<newline>\<newline>// Convert arrays to sets for faster lookups\<newline>const WORD_SET = new Set(WORD_LIST);\<newline>const WORD_SET_EXPANDED = new Set(WORD_LIST_EXPANDED);\<newline>\<newline>// Default to filtered list, but allow switching\<newline>let currentWordList = WORD_LIST;\<newline>let currentWordSet = WORD_SET;\<newline>\<newline>function useExpandedWordList(useExpanded) {\<newline>    if (useExpanded) {\<newline>        currentWordList = WORD_LIST_EXPANDED;\<newline>        currentWordSet = WORD_SET_EXPANDED;\<newline>    } else {\<newline>        currentWordList = WORD_LIST;\<newline>        currentWordSet = WORD_SET;\<newline>    }\<newline>}\<newline>''"

definition filter_words_main :: "os_state \<Rightarrow> py_error + os_state" where
  "filter_words_main st =
     (case read_file st ''words.js'' of
        Inl e \<Rightarrow> Inl e
      | Inr content \<Rightarrow>
          (case load_words_from_js content of
             Inl e \<Rightarrow> Inl e
           | Inr words \<Rightarrow>
               (let (filtered_words, removed_words) = filter_main words in
                Inr (exec_state (do {
                  py_print ''Loading words from words.js...'';
                  py_print (''Loaded '' @ py_str_nat (length words) @ '' words'');
                  py_print ''\<newline>Filtering words...'';
                  py_print (''\<newline>Filtered list: '' @ py_str_nat (length filtered_words) @ '' words'');
                  py_print (''Removed: '' @ py_str_nat (length removed_words) @ '' words'');
                  py_print ''\<newline>Sample of removed words (first 50):'';
                  py_print (py_join '', '' (take 50 removed_words));
                  write_file ''filtered_words.json'' (json_dumps_indent2 filtered_words);
                  py_print ''\<newline>Saved filtered words to filtered_words.json'';
                  write_file ''removed_words.json'' (json_dumps_indent2 removed_words);
                  py_print ''Saved removed words to removed_words.json'';
                  write_file ''words_new.js'' (filter_words_js words filtered_words);
                  py_print ''Generated words_new.js with both filtered and expanded lists'';
                  py_print ''\<newline>Review the files, then replace words.js with words_new.js if satisfied''
                }) st))))"

section \<open>Lemmas\<close>

lemma exec_print_list:
  "exec_state (traverse_list py_print ls) st = st\<lparr>stdout := stdout st @ ls\<rparr>"
  by (induction ls arbitrary: st) (simp_all add: State_Monad.return_def split_def)

text \<open>The generator's words are lower-case alphabetic tokens within the bounds.\<close>

lemma get_concrete_nouns_words:
  "get_concrete_nouns wn lo hi = Inr ns \<Longrightarrow>
   list_all (\<lambda>w. py_isalpha w \<and> py_lower w = w \<and> lo \<le> length w \<and> length w \<le> hi) ns"
  by (auto simp: list_all_iff set_get_concrete_nouns noun_candidates_def dest!: accepts_lemma_word)

lemma get_concrete_nouns_safe:
  "get_concrete_nouns wn lo hi = Inr ns \<Longrightarrow> list_all json_safe_word ns"
  by (drule get_concrete_nouns_words) (auto simp: list_all_iff py_isalpha_def intro: alpha_json_safe)

lemma progress_loop_length:
  "length (progress_loop n i ws) = (i + length ws) div 500 - i div 500"
proof (induction ws arbitrary: i)
  case Nil
  then show ?case by simp
next
  case (Cons w ws)
  have step: "Suc i div 500 = i div 500 + (if Suc i mod 500 = 0 then 1 else 0)"
    by (simp add: div_Suc)
  have mono: "Suc i div 500 \<le> (Suc i + length ws) div 500"
    by (simp add: div_le_mono)
  show ?case using Cons.IH [of "Suc i"] step mono by auto
qed

lemma generate_main_run:
  assumes "get_concrete_nouns wn 2 10 = Inr nouns"
  shows "generate_main wn st = Inr (st\<lparr>
     files := (files st)(''words.js'' \<mapsto> generate_js nouns,
                         ''nouns_list.txt'' \<mapsto> py_join ''\<newline>'' nouns),
     stdout := stdout st @ ''Generating concrete noun list...'' #
       get_concrete_nouns_prints wn 2 10 @
       [''\<newline>Found '' @ py_str_nat (length nouns) @ '' concrete nouns'',
        ''\<newline>Sample nouns:'', py_join '', '' (take 20 nouns),
        ''\<newline>Saved '' @ py_str_nat (length nouns) @ '' words to words.js'',
        ''Saved word list to nouns_list.txt for review'']\<rparr>)"
  using assms by (simp add: generate_main_def exec_print_list split_def)

lemma filter_words_main_run:
  assumes "read_file st ''words.js'' = Inr content" and "load_words_from_js content = Inr words"
    and "filter_main words = (kept, removed)"
  shows "filter_words_main st = Inr (st\<lparr>
     files := (files st)(''filtered_words.json'' \<mapsto> json_dumps_indent2 kept,
                         ''removed_words.json'' \<mapsto> json_dumps_indent2 removed,
                         ''words_new.js'' \<mapsto> filter_words_js words kept),
     stdout := stdout st @
       [''Loading words from words.js...'', ''Loaded '' @ py_str_nat (length words) @ '' words'',
        ''\<newline>Filtering words...'',
        ''\<newline>Filtered list: '' @ py_str_nat (length kept) @ '' words'',
        ''Removed: '' @ py_str_nat (length removed) @ '' words'',
        ''\<newline>Sample of removed words (first 50):'', py_join '', '' (take 50 removed),
        ''\<newline>Saved filtered words to filtered_words.json'',
        ''Saved removed words to removed_words.json'',
        ''Generated words_new.js with both filtered and expanded lists'',
        ''\<newline>Review the files, then replace words.js with words_new.js if satisfied'']\<rparr>)"
  using assms by (simp add: filter_words_main_def)

lemma re_search_skip:
  "CHR ''c'' \<notin> set p \<Longrightarrow> re_search_word_list (p @ s) = re_search_word_list s"
  by (induction p) (auto simp: word_list_prefix_def)

lemma re_search_skip_digits [simp]:
  "re_search_word_list (py_str_nat n @ s) = re_search_word_list s"
proof (rule re_search_skip)
  show "CHR ''c'' \<notin> set (py_str_nat n)"
    using py_str_nat_digits [of n] by auto
qed

lemma re_search_filter_words_js:
  assumes safe: "list_all json_safe_word kept"
  shows "re_search_word_list (filter_words_js words kept) = Some (json_dumps_indent2 kept)"
proof -
  obtain m where m: "json_dumps_indent2 kept = ''['' @ m @ '']''" and nc: "\<not> py_contains ''];'' m"
    using json_dumps_shape [OF safe] by blast
  show ?thesis
    by (simp add: filter_words_js_def m word_list_prefix_def find_close_no_close [OF nc])
qed

lemma load_filter_words_js:
  "list_all json_safe_word kept \<Longrightarrow>
   load_words_from_js (filter_words_js words kept) = Inr kept"
  by (simp add: load_words_from_js_def re_search_filter_words_js json_loads_dumps)

lemma generate_main_writes:
  assumes run: "get_concrete_nouns wn 2 10 = Inr nouns"
  shows "\<exists>st'. generate_main wn st = Inr st' \<and>
     files st' = (files st)(''words.js'' \<mapsto> generate_js nouns,
                            ''nouns_list.txt'' \<mapsto> py_join ''\<newline>'' nouns) \<and>
     load_words_from_js (generate_js nouns) = Inr nouns"
  using generate_main_run [OF run] load_generate_js [OF get_concrete_nouns_safe [OF run]]
  by simp

lemma filter_words_main_files:
  assumes js: "files st ''words.js'' = Some content" and load: "load_words_from_js content = Inr words"
  shows "\<exists>st'. filter_words_main st = Inr st' \<and>
     files st' = (files st)(
       ''filtered_words.json'' \<mapsto> json_dumps_indent2 (filter (\<lambda>w. \<not> should_filter w) words),
       ''removed_words.json'' \<mapsto> json_dumps_indent2 (filter should_filter words),
       ''words_new.js'' \<mapsto> filter_words_js words (filter (\<lambda>w. \<not> should_filter w) words))"
proof -
  have read: "read_file st ''words.js'' = Inr content" using js by (simp add: read_file_def)
  have part: "filter_main words =
      (filter (\<lambda>w. \<not> should_filter w) words, filter should_filter words)"
    by (simp add: filter_main_def filter_loop_eq)
  show ?thesis using filter_words_main_run [OF read load part] by simp
qed

lemma get_concrete_nouns_run: "\<exists>nouns. get_concrete_nouns wn lo hi = Inr nouns"
  by (simp add: get_concrete_nouns_eq)

section \<open>Properties\<close>

text \<open>Claim C22 (functional). \<open>generate_nouns.main\<close> never raises; it writes to
  \<^verbatim>\<open>words.js\<close> the list that \<open>get_concrete_nouns\<close> returns, which
  \<open>load_words_from_js\<close> reads back unchanged, and to \<^verbatim>\<open>nouns_list.txt\<close> the same
  words one per line, and it changes no other file.\<close>

theorem generate_main_effect:
  "\<exists>nouns st'. get_concrete_nouns wn 2 10 = Inr nouns \<and> generate_main wn st = Inr st' \<and>
     files st' = (files st)(''words.js'' \<mapsto> generate_js nouns,
                            ''nouns_list.txt'' \<mapsto> py_join ''\<newline>'' nouns) \<and>
     load_words_from_js (generate_js nouns) = Inr nouns"
proof -
  obtain nouns where run: "get_concrete_nouns wn 2 10 = Inr nouns"
    using get_concrete_nouns_run by blast
  show ?thesis using run generate_main_writes [OF run] by blast
qed

text \<open>Claim C25 (bounds). \<open>get_concrete_nouns\<close> prints two lines and then one
  progress line per 500 candidate words: \<open>len(all_nouns) // 500\<close> lines.\<close>

theorem get_concrete_nouns_prints_count:
  "length (get_concrete_nouns_prints wn lo hi) =
     2 + card (noun_candidates wn lo hi (all_synsets wn)) div 500"
  by (simp add: get_concrete_nouns_prints_def collect_nouns_eq progress_loop_length)

text \<open>Claim C26 (functional). \<open>filter_words.main\<close> on every branch: without a
  \<^verbatim>\<open>words.js\<close> it raises \<open>FileNotFoundError\<close>; when \<open>load_words_from_js\<close>
  raises, it raises the same error; otherwise it writes the kept words to
  \<^verbatim>\<open>filtered_words.json\<close>, the removed ones to \<^verbatim>\<open>removed_words.json\<close> (both
  \<open>json.dumps\<close> with indent 2) and both lists to \<^verbatim>\<open>words_new.js\<close>, changing no
  other file and never touching \<^verbatim>\<open>words.js\<close>.\<close>

theorem filter_words_main_effect:
  "map_sum id files (filter_words_main st) =
     (case files st ''words.js'' of
        None \<Rightarrow> Inl FileNotFoundError
      | Some content \<Rightarrow>
          (case load_words_from_js content of
             Inl e \<Rightarrow> Inl e
           | Inr words \<Rightarrow>
               Inr ((files st)(
                 ''filtered_words.json'' \<mapsto> json_dumps_indent2 (filter (\<lambda>w. \<not> should_filter w) words),
                 ''removed_words.json'' \<mapsto> json_dumps_indent2 (filter should_filter words),
                 ''words_new.js'' \<mapsto> filter_words_js words (filter (\<lambda>w. \<not> should_filter w) words)))))"
proof (cases "files st ''words.js''")
  case None
  then show ?thesis by (simp add: filter_words_main_def read_file_def)
next
  case (Some content)
  show ?thesis
  proof (cases "load_words_from_js content")
    case (Inl e)
    with Some show ?thesis by (simp add: filter_words_main_def read_file_def)
  next
    case (Inr words)
    from filter_words_main_files [OF Some Inr] Some Inr show ?thesis by auto
  qed
qed

text \<open>Claim C27 (roundtrip). In the \<^verbatim>\<open>words_new.js\<close> that \<open>filter_words.main\<close>
  writes, the regular expression of \<open>load_words_from_js\<close> skips the comment header
  (with its word count) and finds the filtered array, not the expanded one: reading
  the file back gives the kept words, for any list of safe words.\<close>

theorem words_new_js_roundtrip:
  "list_all json_safe_word kept \<Longrightarrow>
   re_search_word_list (filter_words_js words kept) = Some (json_dumps_indent2 kept) \<and>
   load_words_from_js (filter_words_js words kept) = Inr kept"
  by (simp add: re_search_filter_words_js load_filter_words_js)

theorem words_new_js_roundtrip_witness:
  "list_all json_safe_word [''plane''] \<and>
   load_words_from_js (filter_words_js [''plane'', ''ability''] [''plane'']) = Inr [''plane'']"
proof -
  have alpha: "list_all json_safe_word [''plane'']"
    by (simp add: json_safe_word_def)
  show ?thesis using alpha words_new_js_roundtrip [OF alpha, of "[''plane'', ''ability'']"] by simp
qed

text \<open>Claim C28 (error). A \<^verbatim>\<open>words.js\<close> in which the pattern
  \<open>const WORD_LIST = ([.*?]);\<close> does not occur is not an error: \<open>load_words_from_js\<close>
  returns \<open>[]\<close>, and \<open>filter_words.main\<close> overwrites \<^verbatim>\<open>filtered_words.json\<close>,
  \<^verbatim>\<open>removed_words.json\<close> and \<^verbatim>\<open>words_new.js\<close> with empty lists.\<close>

theorem filter_words_main_no_word_list:
  "files st ''words.js'' = Some content \<Longrightarrow> re_search_word_list content = None \<Longrightarrow>
   \<exists>st'. filter_words_main st = Inr st' \<and>
     files st' ''filtered_words.json'' = Some ''[]'' \<and>
     files st' ''removed_words.json'' = Some ''[]'' \<and>
     files st' ''words_new.js'' = Some (filter_words_js [] [])"
proof -
  assume js: "files st ''words.js'' = Some content" and none: "re_search_word_list content = None"
  have read: "read_file st ''words.js'' = Inr content" using js by (simp add: read_file_def)
  have load: "load_words_from_js content = Inr []" using none by (simp add: load_words_from_js_def)
  have part: "filter_main [] = ([], [])" by (simp add: filter_main_def)
  show ?thesis
    using filter_words_main_run [OF read load part] by (simp add: json_dumps_indent2_def)
qed

theorem filter_words_main_no_word_list_witness:
  "\<exists>st'. filter_words_main \<lparr>files = [''words.js'' \<mapsto> ''var WORD_LIST = [];''], stdout = []\<rparr> = Inr st' \<and>
     files st' ''filtered_words.json'' = Some ''[]'' \<and>
     files st' ''removed_words.json'' = Some ''[]'' \<and>
     files st' ''words_new.js'' = Some (filter_words_js [] [])"
proof -
  have none: "re_search_word_list ''var WORD_LIST = [];'' = None"
    by (simp add: word_list_prefix_def)
  show ?thesis
    by (rule filter_words_main_no_word_list [OF _ none]) simp
qed

end
