(* ===== verification/Workflow.thy ===== *)
theory Workflow
  imports Mains
begin

text \<open>
  The curation workflow that the scripts lay out: \<open>generate_nouns.main\<close> writes
  \<^verbatim>\<open>words.js\<close>; \<open>filter_words.main\<close> reads it and writes \<^verbatim>\<open>words_new.js\<close>;
  its last message tells the operator to review the files and then replace
  \<^verbatim>\<open>words.js\<close> with \<^verbatim>\<open>words_new.js\<close> (\<open>replace_words_js\<close>, a move: it
  fails when there is no \<^verbatim>\<open>words_new.js\<close>). Any of the three may happen at any
  time, in any order, any number of times: \<open>workflow_step\<close> is the step relation
  on the process state, and its reflexive-transitive closure the reachable states.
  The invariant \<open>words_files_ok\<close> says that both word files, when present, decode
  to a sorted duplicate-free sublist of the generator's output.
\<close>

definition replace_words_js :: "os_state \<Rightarrow> py_error + os_state" where
  "replace_words_js st =
     (case read_file st ''words_new.js'' of
        Inl e \<Rightarrow> Inl e
      | Inr content \<Rightarrow>
          Inr (st\<lparr>files := (files st)(''words.js'' \<mapsto> content, ''words_new.js'' := None)\<rparr>))"

inductive workflow_step :: "wordnet \<Rightarrow> os_state \<Rightarrow> os_state \<Rightarrow> bool" for wn where
  run_generate: "generate_main wn st = Inr st' \<Longrightarrow> workflow_step wn st st'"
| run_filter: "filter_words_main st = Inr st' \<Longrightarrow> workflow_step wn st st'"
| replace: "replace_words_js st = Inr st' \<Longrightarrow> workflow_step wn st st'"

text \<open>The invariant: a list the generator could have written or the filter kept.\<close>

definition word_list_ok :: "wordnet \<Rightarrow> py_str list \<Rightarrow> bool" where
  "word_list_ok wn ws =
     (case get_concrete_nouns wn 2 10 of
        Inl e \<Rightarrow> False
      | Inr nouns \<Rightarrow> sorted ws \<and> distinct ws \<and> set ws \<subseteq> set nouns)"

definition word_file_ok :: "wordnet \<Rightarrow> py_str option \<Rightarrow> bool" where
  "word_file_ok wn file_content =
     (case file_content of
        None \<Rightarrow> True
      | Some content \<Rightarrow>
          (case load_words_from_js content of Inl e \<Rightarrow> False | Inr ws \<Rightarrow> word_list_ok wn ws))"

definition words_files_ok :: "wordnet \<Rightarrow> os_state \<Rightarrow> bool" where
  "words_files_ok wn st \<longleftrightarrow>
     word_file_ok wn (files st ''words.js'') \<and> word_file_ok wn (files st ''words_new.js'')"

inductive_cases workflow_stepE: "workflow_step wn st st'"

section \<open>Lemmas\<close>

lemma word_list_ok_safe:
  "word_list_ok wn ws \<Longrightarrow> list_all json_safe_word ws"
  by (auto simp: word_list_ok_def list_all_iff split: sum.splits dest!: get_concrete_nouns_safe)

lemma word_list_ok_nouns:
  "get_concrete_nouns wn 2 10 = Inr nouns \<Longrightarrow> word_list_ok wn nouns"
  by (auto simp: word_list_ok_def get_concrete_nouns_eq)

lemma word_list_ok_filter:
  "word_list_ok wn ws \<Longrightarrow> word_list_ok wn (filter P ws)"
  by (auto simp: word_list_ok_def sorted_wrt_filter split: sum.splits)

lemma word_file_ok_kept:
  "word_list_ok wn ws \<Longrightarrow>
   word_file_ok wn (Some (filter_words_js ws (filter (\<lambda>w. \<not> should_filter w) ws)))"
proof -
  assume ok: "word_list_ok wn ws"
  let ?kept = "filter (\<lambda>w. \<not> should_filter w) ws"
  have kept: "word_list_ok wn ?kept" using ok by (rule word_list_ok_filter)
  have "load_words_from_js (filter_words_js ws ?kept) = Inr ?kept"
    using word_list_ok_safe [OF kept] by (rule load_filter_words_js)
  with kept show ?thesis by (simp add: word_file_ok_def)
qed

lemma generate_main_inv:
  "generate_main wn st = Inr st' \<Longrightarrow> words_files_ok wn st \<Longrightarrow> words_files_ok wn st'"
proof -
  assume gen: "generate_main wn st = Inr st'" and inv: "words_files_ok wn st"
  obtain nouns where run: "get_concrete_nouns wn 2 10 = Inr nouns"
    using get_concrete_nouns_run by blast
  from gen generate_main_writes [OF run, of st] have
    fs: "files st' = (files st)(''words.js'' \<mapsto> generate_js nouns,
                                ''nouns_list.txt'' \<mapsto> py_join ''\<newline>'' nouns)" and
    load: "load_words_from_js (generate_js nouns) = Inr nouns"
    by auto
  show ?thesis
    using inv fs load word_list_ok_nouns [OF run] by (simp add: words_files_ok_def word_file_ok_def)
qed

lemma filter_words_main_inv:
  "filter_words_main st = Inr st' \<Longrightarrow> words_files_ok wn st \<Longrightarrow> words_files_ok wn st'"
proof -
  assume run: "filter_words_main st = Inr st'" and inv: "words_files_ok wn st"
  from run obtain content words where js: "files st ''words.js'' = Some content"
    and load: "load_words_from_js content = Inr words"
    by (auto simp: filter_words_main_def read_file_def split: option.splits sum.splits)
  have ok: "word_list_ok wn words" using inv js load by (simp add: words_files_ok_def word_file_ok_def)
  from run filter_words_main_files [OF js load] show ?thesis
    using inv word_file_ok_kept [OF ok] by (auto simp: words_files_ok_def)
qed

text \<open>Filtering a list the filter has kept removes nothing.\<close>

lemma filter_kept_again:
  "filter (\<lambda>w. \<not> should_filter w) (filter (\<lambda>w. \<not> should_filter w) ws) =
     filter (\<lambda>w. \<not> should_filter w) ws \<and>
   filter should_filter (filter (\<lambda>w. \<not> should_filter w) ws) = []"
  by (simp add: filter_empty_conv)

text \<open>A filter run, the replacement, and a second filter run, from a word file
  that decodes to a list the generator could have written.\<close>

lemma filter_replace_filter:
  assumes js: "files st ''words.js'' = Some content" and load: "load_words_from_js content = Inr words"
    and ok: "word_list_ok wn words"
  shows "\<exists>st1 st2 st3. filter_words_main st = Inr st1 \<and> replace_words_js st1 = Inr st2 \<and>
     filter_words_main st2 = Inr st3 \<and>
     files st1 ''filtered_words.json'' = Some (json_dumps_indent2 (filter (\<lambda>w. \<not> should_filter w) words)) \<and>
     files st3 ''filtered_words.json'' = files st1 ''filtered_words.json'' \<and>
     files st3 ''removed_words.json'' = Some ''[]'' \<and>
     files st3 ''words_new.js'' = Some (filter_words_js (filter (\<lambda>w. \<not> should_filter w) words)
                                                       (filter (\<lambda>w. \<not> should_filter w) words))"
proof -
  let ?kept = "filter (\<lambda>w. \<not> should_filter w) words"
  obtain st1 where run1: "filter_words_main st = Inr st1" and fs1: "files st1 = (files st)(
       ''filtered_words.json'' \<mapsto> json_dumps_indent2 ?kept,
       ''removed_words.json'' \<mapsto> json_dumps_indent2 (filter should_filter words),
       ''words_new.js'' \<mapsto> filter_words_js words ?kept)"
    using filter_words_main_files [OF js load] by blast
  define st2 where "st2 = st1\<lparr>files := (files st1)(''words.js'' \<mapsto> filter_words_js words ?kept,
                                                    ''words_new.js'' := None)\<rparr>"
  have rep: "replace_words_js st1 = Inr st2"
    by (simp add: replace_words_js_def read_file_def fs1 st2_def)
  have js2: "files st2 ''words.js'' = Some (filter_words_js words ?kept)" by (simp add: st2_def)
  have load2: "load_words_from_js (filter_words_js words ?kept) = Inr ?kept"
    using word_list_ok_safe [OF word_list_ok_filter [OF ok]] by (rule load_filter_words_js)
  obtain st3 where run3: "filter_words_main st2 = Inr st3" and fs3: "files st3 = (files st2)(
       ''filtered_words.json'' \<mapsto> json_dumps_indent2 (filter (\<lambda>w. \<not> should_filter w) ?kept),
       ''removed_words.json'' \<mapsto> json_dumps_indent2 (filter should_filter ?kept),
       ''words_new.js'' \<mapsto> filter_words_js ?kept (filter (\<lambda>w. \<not> should_filter w) ?kept))"
    using filter_words_main_files [OF js2 load2] by blast
  show ?thesis
    using run1 rep run3 fs1 fs3 filter_kept_again [of words]
    by (simp add: json_dumps_indent2_def)
qed

lemma replace_words_js_inv:
  "replace_words_js st = Inr st' \<Longrightarrow> words_files_ok wn st \<Longrightarrow> words_files_ok wn st'"
  by (auto simp: replace_words_js_def read_file_def words_files_ok_def word_file_ok_def
      split: option.splits)

lemma workflow_step_inv:
  "workflow_step wn st st' \<Longrightarrow> words_files_ok wn st \<Longrightarrow> words_files_ok wn st'"
  by (erule workflow_stepE) (auto intro: generate_main_inv filter_words_main_inv replace_words_js_inv)

section \<open>Properties\<close>

text \<open>Claim C29 (invariant). In every state the workflow reaches from a state whose
  word files are sound, both \<^verbatim>\<open>words.js\<close> and \<^verbatim>\<open>words_new.js\<close>, when
  present, decode without error to a sorted, duplicate-free list of words that the
  generator produces on the same WordNet.\<close>

theorem workflow_invariant:
  assumes init: "words_files_ok wn st0" and reach: "(workflow_step wn)\<^sup>*\<^sup>* st0 st"
  shows "words_files_ok wn st"
  using reach init
  by (induction rule: rtranclp_induct) (auto intro: workflow_step_inv)

theorem workflow_invariant_witness:
  "\<exists>st. words_files_ok (example_wordnet [airplane_sense, lamp_sense]) \<lparr>files = Map.empty, stdout = []\<rparr> \<and>
     generate_main (example_wordnet [airplane_sense, lamp_sense]) \<lparr>files = Map.empty, stdout = []\<rparr> = Inr st \<and>
     (workflow_step (example_wordnet [airplane_sense, lamp_sense]))\<^sup>*\<^sup>*
       \<lparr>files = Map.empty, stdout = []\<rparr> st \<and>
     words_files_ok (example_wordnet [airplane_sense, lamp_sense]) st"
proof -
  let ?wn = "example_wordnet [airplane_sense, lamp_sense]" and ?st0 = "\<lparr>files = Map.empty, stdout = []\<rparr>"
  obtain st where gen: "generate_main ?wn ?st0 = Inr st"
    using generate_main_writes [OF example_run] by blast
  have init: "words_files_ok ?wn ?st0" by (simp add: words_files_ok_def word_file_ok_def)
  have reach: "(workflow_step ?wn)\<^sup>*\<^sup>* ?st0 st" using gen by (blast intro: workflow_step.intros)
  show ?thesis using init gen reach workflow_invariant [OF init reach] by blast
qed

text \<open>Claim C30 (functional). Following the instructions of \<open>filter_words.main\<close>
  on a sound state (filter, replace \<^verbatim>\<open>words.js\<close> by \<^verbatim>\<open>words_new.js\<close>, filter
  again) never raises, and the second run is idempotent: it keeps the same words
  and removes none. It also shows that the expanded list is lost: the second
  \<^verbatim>\<open>words_new.js\<close> gives the filtered list as \<open>WORD_LIST_EXPANDED\<close>.\<close>

theorem second_run_idempotent:
  "words_files_ok wn st \<Longrightarrow> files st ''words.js'' = Some content \<Longrightarrow>
   \<exists>st1 st2 st3 kept. filter_words_main st = Inr st1 \<and> replace_words_js st1 = Inr st2 \<and>
     filter_words_main st2 = Inr st3 \<and>
     files st1 ''filtered_words.json'' = Some (json_dumps_indent2 kept) \<and>
     files st3 ''filtered_words.json'' = Some (json_dumps_indent2 kept) \<and>
     files st3 ''removed_words.json'' = Some ''[]'' \<and>
     files st3 ''words_new.js'' = Some (filter_words_js kept kept)"
proof -
  assume inv: "words_files_ok wn st" and js: "files st ''words.js'' = Some content"
  then obtain words where load: "load_words_from_js content = Inr words"
    and ok: "word_list_ok wn words"
    by (auto simp: words_files_ok_def word_file_ok_def split: sum.splits)
  show ?thesis using filter_replace_filter [OF js load ok] by fastforce
qed

theorem second_run_idempotent_witness:
  "words_files_ok (example_wordnet [airplane_sense, lamp_sense])
     \<lparr>files = [''words.js'' \<mapsto> generate_js [''aeroplane'', ''airplane'', ''plane'']], stdout = []\<rparr> \<and>
   (\<exists>st1 st2 st3 kept.
     filter_words_main \<lparr>files = [''words.js'' \<mapsto> generate_js [''aeroplane'', ''airplane'', ''plane'']],
       stdout = []\<rparr> = Inr st1 \<and>
     replace_words_js st1 = Inr st2 \<and> filter_words_main st2 = Inr st3 \<and>
     files st1 ''filtered_words.json'' = Some (json_dumps_indent2 kept) \<and>
     files st3 ''filtered_words.json'' = Some (json_dumps_indent2 kept) \<and>
     files st3 ''removed_words.json'' = Some ''[]'' \<and>
     files st3 ''words_new.js'' = Some (filter_words_js kept kept))"
proof -
  let ?wn = "example_wordnet [airplane_sense, lamp_sense]"
    and ?ns = "[''aeroplane'', ''airplane'', ''plane'']"
  let ?st = "\<lparr>files = [''words.js'' \<mapsto> generate_js ?ns], stdout = []\<rparr>"
  have alpha: "list_all json_safe_word ?ns" by (simp add: json_safe_word_def)
  have load: "load_words_from_js (generate_js ?ns) = Inr ?ns"
    using alpha by (rule load_generate_js)
  have ok: "word_list_ok ?wn ?ns" using example_run by (rule word_list_ok_nouns)
  have inv: "words_files_ok ?wn ?st"
    using load ok by (simp add: words_files_ok_def word_file_ok_def)
  have js: "files ?st ''words.js'' = Some (generate_js ?ns)" by simp
  show ?thesis using inv second_run_idempotent [OF inv js] by blast
qed

end
