(* ===== verification/Setup.thy ===== *)
theory Setup
  imports Mains
begin

text \<open>
  The module-level code at the top of \<^verbatim>\<open>src/generate_nouns.py\<close>, which runs
  when the script starts, before \<open>main\<close>. First the SSL work-around: if the
  \<open>ssl\<close> module has \<open>_create_unverified_context\<close>, it becomes the default
  HTTPS context of the process (\<open>ssl_fix\<close>; the \<open>AttributeError\<close> of the
  attribute lookup is caught and ignored). Then the data check: \<open>wn.synsets('test')\<close>
  raises \<open>LookupError\<close> when the WordNet corpus is not installed; the bare
  \<open>except\<close> prints a message and calls \<open>nltk.download\<close> for \<open>wordnet\<close> and
  \<open>omw-1.4\<close> (\<open>nltk_setup\<close>). The environment is the record \<open>nltk_env\<close>: whether
  \<open>ssl\<close> offers the unverified context, the default HTTPS context, the installed
  NLTK packages, and whether the network and the server's certificate chain work.
  \<open>nltk.download\<close> is library code: it is modelled by its effect (the package is
  installed when the download can connect: network up, and a certificate chain that
  verifies or an unverified context), and it reports a failure by returning
  \<open>False\<close>, not by raising. \<open>generate_script\<close> is the whole script: the
  initialisation, then \<open>main\<close>, whose first WordNet query raises \<open>LookupError\<close>
  when the corpus is still missing.
\<close>

datatype https_context = Verified_context | Unverified_context

record nltk_env =
  ssl_unverified_available :: bool
  default_https_context :: https_context
  nltk_data :: "py_str set"
  network_ok :: bool
  certs_ok :: bool

text \<open>\<open>ssl._create_unverified_context\<close>: the attribute, or \<open>AttributeError\<close>.\<close>

definition ssl_unverified_attr :: "nltk_env \<Rightarrow> py_error + https_context" where
  "ssl_unverified_attr env =
     (if ssl_unverified_available env then Inr Unverified_context else Inl AttributeError)"

definition ssl_fix :: "nltk_env \<Rightarrow> nltk_env" where
  "ssl_fix env =
     (case ssl_unverified_attr env of
        Inl e \<Rightarrow> env
      | Inr create_unverified_https_context \<Rightarrow>
          env\<lparr>default_https_context := create_unverified_https_context\<rparr>)"

text \<open>A query of the WordNet reader: \<open>LookupError\<close> without the corpus.\<close>

definition wn_query :: "nltk_env \<Rightarrow> py_error + unit" where
  "wn_query env = (if ''wordnet'' \<in> nltk_data env then Inr () else Inl LookupError)"

text \<open>\<open>nltk.download(package)\<close>, by its effect on the installed packages.\<close>

definition nltk_download :: "py_str \<Rightarrow> nltk_env \<Rightarrow> nltk_env" where
  "nltk_download package env =
     (if network_ok env \<and> (certs_ok env \<or> default_https_context env = Unverified_context)
      then env\<lparr>nltk_data := insert package (nltk_data env)\<rparr>
      else env)"

definition nltk_setup :: "nltk_env \<Rightarrow> os_state \<Rightarrow> nltk_env \<times> os_state" where
  "nltk_setup env st =
     (case wn_query env of
        Inr u \<Rightarrow> (env, st)
      | Inl e \<Rightarrow>
          (nltk_download ''omw-1.4'' (nltk_download ''wordnet'' env),
           exec_state (py_print ''Downloading required NLTK data...'') st))"

definition module_init :: "nltk_env \<Rightarrow> os_state \<Rightarrow> nltk_env \<times> os_state" where
  "module_init env st = nltk_setup (ssl_fix env) st"

definition generate_script ::
  "wordnet \<Rightarrow> nltk_env \<Rightarrow> os_state \<Rightarrow> py_error + nltk_env \<times> os_state" where
  "generate_script wn env st =
     (let (env1, st1) = module_init env st in
      case wn_query env1 of
        Inl e \<Rightarrow> Inl e
      | Inr u \<Rightarrow> map_sum id (\<lambda>st2. (env1, st2)) (generate_main wn st1))"

section \<open>Lemmas\<close>

lemma ssl_fix_fields [simp]:
  "nltk_data (ssl_fix env) = nltk_data env" "network_ok (ssl_fix env) = network_ok env"
  "certs_ok (ssl_fix env) = certs_ok env"
  "default_https_context (ssl_fix env) =
     (if ssl_unverified_available env then Unverified_context else default_https_context env)"
  "ssl_unverified_available (ssl_fix env) = ssl_unverified_available env"
  by (simp_all add: ssl_fix_def ssl_unverified_attr_def)

lemma module_init_data:
  "nltk_data (fst (module_init env st)) =
     (if ''wordnet'' \<in> nltk_data env then nltk_data env
      else if network_ok env \<and> (certs_ok env \<or> ssl_unverified_available env \<or>
                                default_https_context env = Unverified_context)
      then insert ''omw-1.4'' (insert ''wordnet'' (nltk_data env))
      else nltk_data env)"
  by (auto simp: module_init_def nltk_setup_def wn_query_def nltk_download_def)

lemma module_init_context:
  "default_https_context (fst (module_init env st)) =
     (if ssl_unverified_available env then Unverified_context else default_https_context env)"
  by (auto simp: module_init_def nltk_setup_def wn_query_def nltk_download_def)

lemma ssl_fix_idem [simp]: "ssl_fix (ssl_fix env) = ssl_fix env"
  by (simp add: ssl_fix_def ssl_unverified_attr_def)

lemma module_init_installed:
  "''wordnet'' \<in> nltk_data env \<Longrightarrow> module_init env st = (ssl_fix env, st)"
  by (simp add: module_init_def nltk_setup_def wn_query_def)

lemma module_init_run_once:
  assumes "''wordnet'' \<in> nltk_data (fst (module_init env st))"
  shows "module_init (fst (module_init env st)) st' = (fst (module_init env st), st')"
proof -
  have "ssl_fix (fst (module_init env st)) = fst (module_init env st)"
    by (auto simp: module_init_def nltk_setup_def wn_query_def nltk_download_def ssl_fix_def
        ssl_unverified_attr_def)
  with assms show ?thesis by (simp add: module_init_installed)
qed

lemma generate_main_ok: "\<exists>st'. generate_main wn st = Inr st'"
  using generate_main_writes [OF get_concrete_nouns_run [THEN someI_ex]] by blast

section \<open>Properties\<close>

text \<open>Claim C9 (error). The script fails exactly when WordNet is neither installed
  nor downloadable, and then with the \<open>LookupError\<close> of the first WordNet query in
  \<open>main\<close>, not at start-up. The download can connect when the network is up and
  either the certificate chain verifies or the HTTPS context is the unverified one,
  which the start-up code installs whenever \<open>ssl\<close> offers it, also when nothing
  is downloaded. After a successful start the corpus is installed, and a later
  start-up in the same environment prints nothing and changes nothing.\<close>

theorem generate_script_errors:
  "((\<exists>env' st'. generate_script wn env st = Inr (env', st')) \<longleftrightarrow>
      ''wordnet'' \<in> nltk_data env \<or>
      (network_ok env \<and> (certs_ok env \<or> ssl_unverified_available env \<or>
                          default_https_context env = Unverified_context))) \<and>
   (case generate_script wn env st of
      Inl e \<Rightarrow> e = LookupError
    | Inr (env', st') \<Rightarrow>
        ''wordnet'' \<in> nltk_data env' \<and>
        default_https_context env' =
          (if ssl_unverified_available env then Unverified_context else default_https_context env) \<and>
        module_init env' st = (env', st))"
proof -
  obtain env1 st1 where init: "module_init env st = (env1, st1)" by fastforce
  obtain st2 where gen: "generate_main wn st1 = Inr st2" using generate_main_ok by blast
  have data: "''wordnet'' \<in> nltk_data env1 \<longleftrightarrow> ''wordnet'' \<in> nltk_data env \<or>
      (network_ok env \<and> (certs_ok env \<or> ssl_unverified_available env \<or>
                          default_https_context env = Unverified_context))"
    using module_init_data [of env st] init by auto
  have ctx: "default_https_context env1 =
      (if ssl_unverified_available env then Unverified_context else default_https_context env)"
    using module_init_context [of env st] init by simp
  have once: "''wordnet'' \<in> nltk_data env1 \<Longrightarrow> module_init env1 st = (env1, st)"
    using module_init_run_once [of env st st] init by simp
  show ?thesis
    using data ctx once gen
    by (auto simp: generate_script_def init wn_query_def)
qed

end
