(* ===== verification/Spec2Isabelle.thy ===== *)
theory Spec2Isabelle
  imports Reader Workflow Setup
begin

text \<open>
  \<^bold>\<open>A verification library for DuoTang's noun curation scripts.\<close>

  \<^medskip>\<^bold>\<open>The program.\<close> Two Python scripts decide which nouns a guessing game may
  use. \<^verbatim>\<open>src/generate_nouns.py\<close> walks every noun synset of WordNet (through NLTK),
  collects the single-word lemma names that pass a validity filter
  (\<open>is_valid_word\<close>), keeps those that the taxonomy-based classifier
  (\<open>is_concrete_noun\<close>) finds concrete, and writes them sorted to \<^verbatim>\<open>words.js\<close>.
  \<^verbatim>\<open>src/filter_words.py\<close> reads that list back and removes the words that a
  heuristic classifier (\<open>should_filter\<close>: profanity, curated abstract words and
  keywords, abstract suffixes with a whitelist) rejects. The classifiers are pure
  functions of the word, the curated constants and the read-only taxonomy.

  \<^medskip>\<^bold>\<open>Theories and what they model.\<close>
  \<^item> \<open>Prelude\<close>: the Python primitives the scripts call (\<open>str.lower\<close>,
    \<open>isalpha\<close>, \<open>isupper\<close>, \<open>endswith\<close>, \<open>sub in s\<close>, one-character
    \<open>replace\<close>, indexing that raises \<open>IndexError\<close>) over ASCII, with their links
    to \<open>suffix\<close>, \<open>sublist\<close> and \<open>prefix\<close> of \<open>HOL-Library.Sublist\<close>.
  \<^item> \<open>Heuristic\<close> (\<^verbatim>\<open>filter_words.py\<close>): \<open>PROFANITY\<close>, \<open>ABSTRACT_SUFFIXES\<close>,
    \<open>ABSTRACT_WORDS\<close>, \<open>ABSTRACT_KEYWORDS\<close> and the inline whitelist
    \<open>SUFFIX_EXCEPTIONS\<close>, transcribed literally (a set literal as a HOL set);
    \<open>is_abstract_noun\<close> with its suffix loop \<open>suffix_scan\<close> (the \<open>continue\<close>
    of a whitelisted word is a recursive call), \<open>is_profane\<close>, \<open>should_filter\<close>,
    and the partitioning loop of \<open>main\<close> (\<open>filter_loop\<close>, \<open>filter_main\<close>). The
    specification's verdict Profane / Abstract / Keep is \<open>classify_heuristic\<close>.
  \<^item> \<open>Taxonomy\<close>: the adapter contract, the part of NLTK's WordNet the code reads:
    a \<open>synset\<close> record (name, definition, the names on \<open>hypernym_paths()\<close>,
    \<open>instance_hypernyms()\<close>, lemma names) and a \<open>wordnet\<close> record of the two
    queries \<open>synsets(word, NOUN)\<close> and \<open>all_synsets(NOUN)\<close>. Every theorem holds
    for every value of these records, i.e. for every state of the database.
  \<^item> \<open>Concreteness\<close> (\<open>is_concrete_noun\<close>): the root sets and keyword lists,
    one pass of the sense loop as \<open>check_sense\<close> returning which \<open>continue\<close> it
    reaches (\<open>sense_check\<close>), the loop \<open>concrete_loop\<close>, the classifier.
  \<^item> \<open>Validity\<close> (\<open>is_valid_word\<close>): returns \<open>py_error + bool\<close> because
    \<open>word[0]\<close> could raise.
  \<^item> \<open>Generate\<close> (\<open>get_concrete_nouns\<close>): the two loops (\<open>collect_lemmas\<close>,
    \<open>collect_nouns\<close>, \<open>select_concrete\<close>), returning \<open>py_error + list\<close>.
  \<^item> \<open>Hypernyms\<close>: below the interface, how NLTK produces \<open>hypernym_paths\<close>
    (modelled from the specification's contract and NLTK's recursive definition,
    not repository code): a taxonomy graph of \<open>tax_node\<close>s, the recursion with
    fuel \<open>hypernym_paths_fuel\<close>, the synset the reader builds (\<open>nltk_synset\<close>),
    and the specification's \<open>ancestors\<close> (reflexive-transitive parent closure).
  \<^item> \<open>Reader\<close>: the reader that implements the interface, NLTK's
    \<open>WordNetCorpusReader\<close> for nouns (library code modelled from its source): the
    database \<open>nltk_db\<close> (taxonomy, offsets in file order, exception list), the
    lemma index, \<open>_morphy\<close> (\<open>morphy_apply_rules\<close>, \<open>morphy_filter_forms\<close>, the
    \<open>while\<close> loop \<open>morphy_loop\<close>, \<open>morphy\<close>), \<open>synsets\<close> (\<open>nltk_synsets\<close>),
    \<open>all_synsets\<close> (\<open>nltk_all_synsets\<close>), packed as a \<open>wordnet\<close> record by
    \<open>nltk_wordnet\<close>.
  \<^item> \<open>WordsFile\<close>: the file between the scripts. The JavaScript text that
    \<open>generate_nouns.main\<close> writes (\<open>generate_js\<close>, with \<open>json.dumps(nouns,
    indent=2)\<close> as \<open>json_dumps_indent2\<close>) and \<open>filter_words.load_words_from_js\<close>:
    the search for \<open>const WORD_LIST = ([.*?]);\<close> as a leftmost scan
    (\<open>re_search_word_list\<close>) with the shortest closing match (\<open>find_close\<close>),
    and \<open>json.loads\<close> restricted to arrays of strings (\<open>json_loads_str_list\<close>,
    raising \<open>JSONDecodeError\<close> on anything else). Strings are escaped as
    \<open>json.dumps\<close> does with \<open>ensure_ascii\<close> (\<open>json_escape\<close>) and unescaped as
    \<open>json.loads\<close> does (\<open>json_string_body\<close>, \<open>json_short_escape\<close>,
    \<open>json_hex4\<close>).
  \<^item> \<open>Prelude\<close> also holds the process state \<open>os_state\<close> (a record of the files
    of the working directory, a map from names to contents, and the printed
    lines) with \<open>py_print\<close>, \<open>write_file\<close> in \<open>HOL-Library.State_Monad\<close> and
    \<open>read_file\<close>, which raises \<open>FileNotFoundError\<close>; \<open>py_str_nat\<close> is \<open>str(n)\<close>.
  \<^item> \<open>Mains\<close>: both \<open>main\<close> functions as \<open>os_state \<Rightarrow> py_error + os_state\<close>,
    their bodies as \<open>do\<close>-blocks of prints and writes in the source's order:
    \<open>generate_main\<close> (\<^verbatim>\<open>generate_nouns.py\<close> \<open>main\<close>, with the progress lines
    of \<open>get_concrete_nouns\<close> as \<open>get_concrete_nouns_prints\<close> and
    \<open>progress_loop\<close>) and \<open>filter_words_main\<close> (\<^verbatim>\<open>filter_words.py\<close>
    \<open>main\<close>, with the \<^verbatim>\<open>words_new.js\<close> f-string as \<open>filter_words_js\<close>).
  \<^item> \<open>Workflow\<close>: the operator's use of the scripts as an inductive step
    relation \<open>workflow_step\<close> (run either script, or replace \<^verbatim>\<open>words.js\<close> by
    \<^verbatim>\<open>words_new.js\<close> as \<open>filter_words.main\<close>'s last message asks,
    \<open>replace_words_js\<close>), reachability as its reflexive-transitive closure, and
    the invariant \<open>words_files_ok\<close>.
  \<^item> \<open>Setup\<close>: the module-level code of \<^verbatim>\<open>generate_nouns.py\<close> that runs
    before \<open>main\<close>, over the record \<open>nltk_env\<close> (whether \<open>ssl\<close> offers
    \<open>_create_unverified_context\<close>, the default HTTPS context, the installed NLTK
    packages, network and certificate state): the SSL work-around
    (\<open>ssl_unverified_attr\<close>, \<open>ssl_fix\<close>: \<open>try\<close>/\<open>except AttributeError\<close>/\<open>else\<close>),
    the WordNet probe with its bare \<open>except\<close> and the downloads (\<open>wn_query\<close>,
    \<open>nltk_setup\<close>, \<open>module_init\<close>), and the whole script, start-up then
    \<open>main\<close> (\<open>generate_script\<close>).
  \<^item> This theory: the two passes as functions on word lists (\<open>curate\<close>) and
    its refinement by the two \<open>main\<close>s.

  \<^medskip>\<^bold>\<open>What is proved.\<close> Concreteness: the loop is an any-sense test, so a
  polysemous word with one physical sense is kept; the verdict ignores the order of
  the senses and only grows with more senses; a word whose senses all have an
  abstract root is rejected; and the technical keyword \<open>ion\<close>, a substring test,
  rejects every definition containing words like "illumination" (a code bug).
  Heuristic: \<open>should_filter\<close> refines the specification's verdict with profanity
  first; the classifier is case-insensitive; \<open>main\<close> partitions its input
  (multiset and order); the whitelist matters only for words over seven characters,
  so \<open>television\<close> is its only live entry; \<open>portion\<close> and \<open>burden\<close> are
  whitelisted yet filtered; concrete nouns such as \<open>strawberry\<close> are filtered;
  four of the eighteen suffixes (\<open>ity\<close>, \<open>ery\<close>, \<open>ization\<close>, \<open>isation\<close>) never
  change the answer and the other fourteen are all needed.
  Validity: no \<open>IndexError\<close> escapes; the accepted tokens are characterised; on
  lower-cased input the capitalisation guard is dead. Generator: it never raises, returns a sorted duplicate-free list whose
  words are exactly the valid, concrete, single-word lower-cased lemma names within
  the bounds. The two-pass pipeline keeps only words both classifiers accept,
  sorted; it never raises, because what the generator writes the reader finds and
  decodes back to the same list (the round trip of \<open>WordsFile\<close>, for every list of
  words that contain no \<open>];\<close>, whatever characters they hold; a word with \<open>];\<close>
  breaks the reader, a code bug). Adapter: the names on NLTK's paths are exactly the ancestor categories,
  so \<open>check_sense\<close>'s root tests are the specification's ancestor tests;
  the fuel the reader gives is enough on an acyclic taxonomy; and the enumeration is complete:
  the paths are exactly the parent chains from a root to the sense. Reader: every
  form \<open>_morphy\<close> returns is in the index, without repetition; run on the reader,
  every word \<open>get_concrete_nouns\<close> collects finds its own sense among its
  \<open>synsets\<close>; and \<open>is_concrete_noun\<close> judges a regular plural by the senses of
  its singular (\<open>synsets\<close> of \<open>glasses\<close> also returns the senses of \<open>glass\<close>), which
  the specification's per-word contract does not mention. Start-up: the
  script fails exactly when WordNet is neither installed nor downloadable, and then
  with a \<open>LookupError\<close> from \<open>main\<close>, not at start-up as the specification asks;
  certificate verification is switched off whenever \<open>ssl\<close> allows it, even when
  nothing is downloaded (a code bug); a second start-up changes nothing. Scripts: \<open>generate_nouns.main\<close>
  never raises, writes the generator's list, which reads back from the file, and prints \<open>len(all_nouns) // 500\<close> progress lines;
  \<open>filter_words.main\<close> is characterised on every branch, errors included, and a
  \<^verbatim>\<open>words.js\<close> without the \<open>WORD_LIST\<close> pattern is silently read as empty (a
  code bug); \<^verbatim>\<open>words_new.js\<close> reads back as the kept words. Workflow: the
  soundness of both word files is invariant under every step; filtering, replacing
  and filtering again is idempotent but loses the expanded list (a code bug); and
  \<open>curate\<close> is exactly what the two \<open>main\<close>s write. Every claim with a hypothesis has a witness on WordNet data (the senses
  of \<open>plane\<close>, \<open>lamp\<close>, \<open>teacher\<close>, and the fragments of the taxonomy above
  \<open>person.n.01\<close>, \<open>airplane.n.01\<close> and around \<open>glasses\<close>), evaluated in the
  kernel by \<open>simp\<close> or \<open>code_simp\<close>.

  \<^medskip>\<^bold>\<open>Bounds and fuel.\<close> All loops of the scripts run over finite lists, so
  every function modelling repository code is structurally recursive and total.
  Python's integers appear only as lengths and bounds (\<open>nat\<close>, no overflow).
  The one recursion that may not end is NLTK's \<open>hypernym_paths\<close>, which loops on
  a cyclic taxonomy: it takes fuel, and the termination theorem shows that on an
  acyclic taxonomy (a rank decreasing along parent links) fuel above the rank of
  the sense is enough and more fuel gives the same result; the witness uses the
  WordNet fragment above \<open>person.n.01\<close> (rank 7, fuel 8). The reader's witness above \<open>airplane.n.01\<close>, a chain
  of twelve synsets, runs with fuel 13. The \<open>while\<close> loop of
  \<open>_morphy\<close> ends because every substitution rule shortens a form, or (for
  \<open>men\<close> to \<open>man\<close>) removes the ending \<open>men\<close>: the largest weight
  \<open>2 * length + [ends with men]\<close> of the forms decreases, the measure of its
  termination proof.

  \<^medskip>\<^bold>\<open>Not modelled.\<close> The operating system below the file map: a
  file reads back as the text last written to it, and the printed lines of a run
  that raises are dropped with it. \<open>nltk.download\<close> is library code, modelled
  only by its effect on the installed packages (the network transfer, its progress
  output and partial downloads are not modelled), and the probe's bare \<open>except\<close>
  is modelled for the one exception the probe raises, \<open>LookupError\<close>; the
  \<open>omw-1.4\<close> package is installed but nothing in the model reads it. The
  workflow of \<open>Workflow\<close> runs \<open>main\<close> with WordNet installed, not with the
  start-up environment of \<open>Setup\<close>. Of NLTK's reader, the parsing of the database
  files is not modelled: \<open>nltk_db\<close> is what they contain, and the offsets of a
  lemma are listed in file order rather than by sense frequency, which the
  concreteness verdict does not depend on (it ignores the order of the senses).
  The components' theorems hold for every \<open>wordnet\<close> record, the reader's among
  them. \<open>json\<close> and \<open>re\<close> are modelled on the texts the scripts exchange
  (arrays of strings), not in general, with the string escapes of both directions; Python strings are
  sequences of code points and the model's are of \<open>char\<close>, code points below
  256, so a \<open>\u\<close> escape above \<open>\u00ff\<close> in a file is outside the model. Characters are bytes and the letter tests are Python's on
  ASCII; Unicode letters beyond ASCII are not modelled.
\<close>

section \<open>The two passes\<close>

text \<open>\<open>generate_nouns.main\<close> calls \<open>get_concrete_nouns(min_length=2,
  max_length=10)\<close> and writes the list to \<^verbatim>\<open>words.js\<close>; \<open>filter_words.main\<close>
  reads it back with \<open>load_words_from_js\<close> and partitions it with
  \<open>should_filter\<close>.\<close>

definition curate :: "wordnet \<Rightarrow> py_error + py_str list \<times> py_str list" where
  "curate wn =
     (case get_concrete_nouns wn 2 10 of
        Inl e \<Rightarrow> Inl e
      | Inr nouns \<Rightarrow>
          (case load_words_from_js (generate_js nouns) of
             Inl e \<Rightarrow> Inl e
           | Inr words \<Rightarrow> Inr (filter_main words)))"

lemma curate_eq:
  "curate wn =
     (let nouns = sorted_list_of_set
        {w \<in> noun_candidates wn 2 10 (all_synsets wn). is_concrete_noun wn w}
      in Inr (filter (\<lambda>w. \<not> should_filter w) nouns, filter should_filter nouns))"
proof -
  let ?nouns = "sorted_list_of_set {w \<in> noun_candidates wn 2 10 (all_synsets wn). is_concrete_noun wn w}"
  have run: "get_concrete_nouns wn 2 10 = Inr ?nouns" by (rule get_concrete_nouns_eq)
  have "load_words_from_js (generate_js ?nouns) = Inr ?nouns"
    using get_concrete_nouns_safe [OF run] by (rule load_generate_js)
  with run show ?thesis by (simp add: curate_def filter_main_def filter_loop_eq Let_def)
qed

text \<open>Claim C5 (safety). The words that survive both passes are accepted by both
  classifiers, are valid lower-case words of two to ten letters, and come out sorted
  and without duplicates; the removed words are exactly the generated ones the
  heuristic rejects.\<close>

theorem curate_kept_sound:
  "curate wn = Inr (kept, removed) \<Longrightarrow>
   sorted kept \<and> distinct kept \<and>
   list_all (\<lambda>w. is_concrete_noun wn w \<and> \<not> should_filter w \<and> is_valid_word wn w = Inr True \<and>
     py_lower w = w \<and> 2 \<le> length w \<and> length w \<le> 10) kept \<and>
   list_all should_filter removed"
proof -
  assume run: "curate wn = Inr (kept, removed)"
  let ?A = "{w \<in> noun_candidates wn 2 10 (all_synsets wn). is_concrete_noun wn w}"
  have fin: "finite ?A" using finite_noun_candidates by simp
  from run have kept: "kept = filter (\<lambda>w. \<not> should_filter w) (sorted_list_of_set ?A)"
    and removed: "removed = filter should_filter (sorted_list_of_set ?A)"
    by (simp_all add: curate_eq Let_def)
  have cand: "w \<in> ?A \<Longrightarrow> is_valid_word wn w = Inr True \<and> py_lower w = w \<and>
      2 \<le> length w \<and> length w \<le> 10" for w
    by (auto simp: noun_candidates_def accepts_lemma_def dest: accepts_lemma_word)
  show ?thesis
    using fin cand by (auto simp: kept removed list_all_iff sorted_wrt_filter)
qed

theorem curate_kept_sound_witness:
  "curate (example_wordnet [airplane_sense, lamp_sense]) =
     Inr ([''aeroplane'', ''airplane'', ''plane''], []) \<and>
   sorted [''aeroplane'', ''airplane'', ''plane''] \<and>
   list_all (\<lambda>w. \<not> should_filter w) [''aeroplane'', ''airplane'', ''plane'']"
proof -
  have run: "curate (example_wordnet [airplane_sense, lamp_sense]) =
     Inr ([''aeroplane'', ''airplane'', ''plane''], [])"
  proof -
    have js: "load_words_from_js (generate_js [''aeroplane'', ''airplane'', ''plane'']) =
        Inr [''aeroplane'', ''airplane'', ''plane'']"
      by (rule load_generate_js) (simp add: json_safe_word_def)
    show ?thesis
      by (simp add: curate_def example_run js filter_main_def heuristic_eval
          Let_def suffix_to_prefix)
  qed
  show ?thesis using run curate_kept_sound [OF run] by simp
qed

text \<open>Claim C31 (refinement). \<open>curate\<close>, the two passes as functions on word
  lists, is what the scripts do to the files: running \<open>generate_nouns.main\<close> and
  then \<open>filter_words.main\<close> on any state writes exactly \<open>curate\<close>'s kept words to
  \<^verbatim>\<open>filtered_words.json\<close> and its removed words to \<^verbatim>\<open>removed_words.json\<close>.\<close>

theorem curate_refines_mains:
  "\<exists>kept removed st1 st2. curate wn = Inr (kept, removed) \<and>
     generate_main wn st = Inr st1 \<and> filter_words_main st1 = Inr st2 \<and>
     files st2 ''filtered_words.json'' = Some (json_dumps_indent2 kept) \<and>
     files st2 ''removed_words.json'' = Some (json_dumps_indent2 removed)"
proof -
  obtain nouns where run: "get_concrete_nouns wn 2 10 = Inr nouns"
    using get_concrete_nouns_run by blast
  obtain st1 where gen: "generate_main wn st = Inr st1"
    and js: "files st1 ''words.js'' = Some (generate_js nouns)"
    and load: "load_words_from_js (generate_js nouns) = Inr nouns"
    using generate_main_writes [OF run, of st] by auto
  have cur: "curate wn = Inr (filter_main nouns)"
    using run load by (simp add: curate_def)
  show ?thesis
    using cur gen filter_words_main_files [OF js load]
    by (auto simp: filter_main_def filter_loop_eq)
qed

end
